theory Spec2Isabelle
  imports Main "HOL-Library.AList" "HOL-Library.Sublist" "HOL-Library.Multiset"
begin

section \<open>The data-access middleware: data model\<close>

text \<open>
  The module under verification is the Supabase middleware (\<^verbatim>\<open>lib/middleware\<close>): a rate
  limiter, a read cache, a retry loop with exponential backoff and a per-attempt timeout,
  wrapped around four CRUD operations and three authentication operations.

  Conventions of the embedding.
  \<^item> Times are milliseconds as \<open>int\<close>; \<open>Date.now()\<close> reads the field \<open>now\<close> of the
    state. Time passes only while the code awaits: by the latency of a request, by the
    deadline of a timed-out request, by the delay of a backoff timer.
  \<^item> Module-level variables (\<open>requestMetrics\<close>, \<open>requestCache\<close>, \<open>rateLimitMap\<close>) are
    fields of the state record \<open>world\<close>, passed in and returned.
  \<^item> The remote side is a record \<open>remote\<close> of oracles: the \<open>n\<close>-th request sent since
    the start gets the answer the oracle gives at \<open>n\<close>; the state counts the requests
    sent in \<open>calls\<close>.
  \<^item> A rejected promise or a \<open>throw\<close> is the left summand of a sum type.
  \<^item> Output to the console (\<open>log\<close>, and the \<open>console.log\<close> of \<open>logMetric\<close>) is not
    part of the state.
  \<^item> \<open>null\<close> and \<open>undefined\<close> in a \<open>data\<close> or \<open>error\<close> field are both \<open>None\<close>.
  \<^item> Numbers are integers.
  \<^item> A call runs from its start to its return with no other call in between; the
    interleaving of concurrent calls is not part of the model.
\<close>

subsection \<open>Values\<close>

text \<open>JSON values; numbers are restricted to integers. An object lists its properties in
  enumeration order, which for property names that are not array indices is the order of
  insertion.\<close>

datatype json =
    JNull
  | JBool bool
  | JNum int
  | JStr string
  | JArr "json list"
  | JObj "(string \<times> json) list"

text \<open>An \<open>Error\<close> object, by its message.\<close>

datatype js_error = JsError (message: string)

text \<open>A thrown value: an instance of \<open>Error\<close>, or any other value \<open>v\<close>, kept as
  \<open>String(v)\<close>.\<close>

datatype thrown = ThrownError js_error | ThrownOther string

text \<open>\<^verbatim>\<open>error instanceof Error ? error : new Error(String(error))\<close>\<close>

fun toError :: "thrown \<Rightarrow> js_error" where
  "toError (ThrownError e) = e"
| "toError (ThrownOther s) = JsError s"

text \<open>The operator \<open>||\<close> on an optional number: \<open>undefined\<close> and \<open>0\<close> are falsy.\<close>

fun or_default :: "int option \<Rightarrow> int \<Rightarrow> int" where
  "or_default None d = d"
| "or_default (Some v) d = (if v = 0 then d else v)"

subsection \<open>Options\<close>

text \<open>A property of an options object is absent, present with the value \<open>undefined\<close>,
  or present with a value.\<close>

datatype 'a property = Absent | Undefined | Val 'a

record MiddlewareOptions =
  logRequests :: "bool property"
  enableRetry :: "bool property"
  maxRetries :: "int property"
  timeout :: "int property"
  cache :: "bool property"
  cacheDuration :: "int property"

definition DEFAULT_OPTIONS :: MiddlewareOptions where
  "DEFAULT_OPTIONS =
     \<lparr>logRequests = Val True, enableRetry = Val True, maxRetries = Val 3,
      timeout = Val 30000, cache = Val True, cacheDuration = Val 300000\<rparr>"

text \<open>The spread \<^verbatim>\<open>{ ...a, ...b }\<close>, property by property: a property present in \<open>b\<close>
  (also with the value \<open>undefined\<close>) replaces that of \<open>a\<close>.\<close>

fun spread_prop :: "'a property \<Rightarrow> 'a property \<Rightarrow> 'a property" where
  "spread_prop a Absent = a"
| "spread_prop a b = b"

definition spread :: "MiddlewareOptions \<Rightarrow> MiddlewareOptions \<Rightarrow> MiddlewareOptions" where
  "spread a b =
     \<lparr>logRequests = spread_prop (logRequests a) (logRequests b),
      enableRetry = spread_prop (enableRetry a) (enableRetry b),
      maxRetries = spread_prop (maxRetries a) (maxRetries b),
      timeout = spread_prop (timeout a) (timeout b),
      cache = spread_prop (cache a) (cache b),
      cacheDuration = spread_prop (cacheDuration a) (cacheDuration b)\<rparr>"

text \<open>Reading a property: absent and \<open>undefined\<close> both read as \<open>undefined\<close>.\<close>

fun read_prop :: "'a property \<Rightarrow> 'a option" where
  "read_prop (Val v) = Some v"
| "read_prop _ = None"

text \<open>Truthiness of an optional boolean.\<close>

fun truthy_bool :: "bool option \<Rightarrow> bool" where
  "truthy_bool (Some b) = b"
| "truthy_bool None = False"

subsection \<open>Responses and metrics\<close>

datatype status = Success | Error | Timeout | Retry_exhausted

record 'a MiddlewareResponse =
  data :: "'a option"
  error :: "js_error option"
  status :: status
  timestamp :: int
  duration :: int
  retries :: int

record RequestMetrics =
  m_method :: string
  m_table :: string
  m_timestamp :: int
  m_duration :: int
  m_status :: string
  m_error :: "string option"

text \<open>A cache entry \<^verbatim>\<open>{ data, timestamp }\<close>.\<close>

record cache_entry =
  entry_data :: json
  entry_timestamp :: int

subsection \<open>The state\<close>

record world =
  now :: int
  calls :: nat
  requestMetrics :: "RequestMetrics list"
  requestCache :: "(string \<times> cache_entry) list"
  rateLimitMap :: "string \<rightharpoonup> int list"

definition RATE_LIMIT_REQUESTS :: nat where
  "RATE_LIMIT_REQUESTS = 100"

definition RATE_LIMIT_WINDOW :: int where
  "RATE_LIMIT_WINDOW = 60000"

section \<open>Cache keys\<close>

subsection \<open>\<open>JSON.stringify\<close>\<close>

definition hex_digit :: "nat \<Rightarrow> char" where
  "hex_digit n = (if n < 10 then char_of (48 + n) else char_of (87 + n))"

text \<open>The escape of one character inside a JSON string.\<close>

definition quote_char :: "char \<Rightarrow> string" where
  "quote_char c =
     (if c = CHR 0x22 then [CHR 0x5C, CHR 0x22]
      else if c = CHR 0x5C then [CHR 0x5C, CHR 0x5C]
      else if c = CHR 0x08 then [CHR 0x5C, CHR ''b'']
      else if c = CHR 0x0C then [CHR 0x5C, CHR ''f'']
      else if c = CHR 0x0A then [CHR 0x5C, CHR ''n'']
      else if c = CHR 0x0D then [CHR 0x5C, CHR ''r'']
      else if c = CHR 0x09 then [CHR 0x5C, CHR ''t'']
      else if (of_char c :: nat) < 32
        then [CHR 0x5C, CHR ''u'', CHR ''0'', CHR ''0'',
              hex_digit (of_char c div 16), hex_digit (of_char c mod 16)]
      else [c])"

definition quote :: "string \<Rightarrow> string" where
  "quote s = [CHR 0x22] @ concat (map quote_char s) @ [CHR 0x22]"

fun string_of_nat :: "nat \<Rightarrow> string" where
  "string_of_nat n =
     (if n < 10 then [char_of (48 + n)]
      else string_of_nat (n div 10) @ [char_of (48 + n mod 10)])"

definition string_of_int :: "int \<Rightarrow> string" where
  "string_of_int i = (if i < 0 then CHR ''-'' # string_of_nat (nat (- i)) else string_of_nat (nat i))"

text \<open>\<open>Array.prototype.join\<close> with a separator.\<close>

fun join :: "string \<Rightarrow> string list \<Rightarrow> string" where
  "join sep [] = []"
| "join sep [x] = x"
| "join sep (x # y # ys) = x @ sep @ join sep (y # ys)"

fun stringify :: "json \<Rightarrow> string" where
  "stringify JNull = ''null''"
| "stringify (JBool b) = (if b then ''true'' else ''false'')"
| "stringify (JNum i) = string_of_int i"
| "stringify (JStr s) = quote s"
| "stringify (JArr xs) = ''['' @ join '','' (map stringify xs) @ '']''"
| "stringify (JObj ps) =
     ''{'' @ join '','' (map (\<lambda>p. quote (fst p) @ '':'' @ stringify (snd p)) ps) @ ''}''"

subsection \<open>\<open>generateCacheKey\<close>\<close>

text \<open>\<^verbatim>\<open>`${table}:${operation}:${JSON.stringify(params || {})}`\<close>; \<open>params\<close> is the filter
  object, or \<open>undefined\<close> (\<open>None\<close>).\<close>

definition generateCacheKey :: "string \<Rightarrow> string \<Rightarrow> (string \<times> json) list option \<Rightarrow> string" where
  "generateCacheKey table operation params =
     table @ '':'' @ operation @ '':'' @
       stringify (JObj (case params of None \<Rightarrow> [] | Some ps \<Rightarrow> ps))"

section \<open>Rate limiting\<close>

text \<open>\<open>checkRateLimit\<close>: the stored timestamps of the key are filtered to the window, the
  survivors are counted; at the ceiling the answer is \<open>false\<close> and nothing is stored,
  below it the current time is appended and the filtered list is stored.\<close>

definition checkRateLimit :: "string \<Rightarrow> world \<Rightarrow> bool \<times> world" where
  "checkRateLimit key s =
     (let timestamps = (case rateLimitMap s key of None \<Rightarrow> [] | Some ts \<Rightarrow> ts);
          validTimestamps = filter (\<lambda>ts. now s - ts < RATE_LIMIT_WINDOW) timestamps
      in if length validTimestamps \<ge> RATE_LIMIT_REQUESTS then (False, s)
         else (True, s\<lparr>rateLimitMap := (rateLimitMap s)(key \<mapsto> validTimestamps @ [now s])\<rparr>))"

section \<open>Metrics\<close>

text \<open>\<open>logMetric\<close> appends a record and drops the oldest one beyond 1000.\<close>

definition logMetric :: "string \<Rightarrow> string \<Rightarrow> int \<Rightarrow> string \<Rightarrow> string option \<Rightarrow> world \<Rightarrow> world" where
  "logMetric method table dur st err s =
     (let metric = \<lparr>m_method = method, m_table = table, m_timestamp = now s,
                    m_duration = dur, m_status = st, m_error = err\<rparr>;
          pushed = requestMetrics s @ [metric]
      in s\<lparr>requestMetrics := (if length pushed > 1000 then tl pushed else pushed)\<rparr>)"

section \<open>The remote side\<close>

text \<open>A promise settles: it is fulfilled with a value, or rejected with a thrown value.
  Every request is taken to settle after a finite latency.\<close>

datatype 'r settled = Fulfilled 'r | Rejected thrown

text \<open>The object \<^verbatim>\<open>{ data, error }\<close> of a Supabase query.\<close>

record pg_reply =
  pg_data :: json
  pg_error :: "thrown option"

text \<open>The JSON envelope \<^verbatim>\<open>{ status, error, data }\<close> of the backend API, and the HTTP
  response around it (\<open>response.ok\<close>, \<open>response.json()\<close>).\<close>

record api_result =
  api_status :: string
  api_error :: "string option"
  api_data :: "json option"

record http_response =
  ok :: bool
  body :: "api_result settled"

text \<open>The oracles: a Supabase query, a \<open>fetch\<close> of the backend API, a call of
  \<open>supabase.auth\<close> (\<open>setSession\<close>, \<open>signOut\<close>, answering \<^verbatim>\<open>{ error }\<close>). Each gives the
  latency in milliseconds and the outcome of the request with a given ordinal. What a
  request asks for is not part of the model: the theorems hold for every oracle.\<close>

record remote =
  query :: "nat \<Rightarrow> nat \<times> pg_reply settled"
  fetch :: "nat \<Rightarrow> nat \<times> http_response settled"
  auth :: "nat \<Rightarrow> nat \<times> thrown option settled"

text \<open>Sending a request: the oracle's answer at the ordinal of the request.\<close>

definition send :: "(nat \<Rightarrow> 'x) \<Rightarrow> world \<Rightarrow> 'x \<times> world" where
  "send oracle s = (oracle (calls s), s\<lparr>calls := Suc (calls s)\<rparr>)"

text \<open>Time passing while the code awaits.\<close>

definition elapse :: "int \<Rightarrow> world \<Rightarrow> world" where
  "elapse d s = s\<lparr>now := now s + d\<rparr>"

text \<open>\<open>await promise\<close> with no deadline.\<close>

definition await :: "nat \<times> 'r settled \<Rightarrow> world \<Rightarrow> 'r settled \<times> world" where
  "await promise s = (snd promise, elapse (int (fst promise)) s)"

section \<open>Timeout, retry, cache\<close>

text \<open>\<open>setTimeout(f, delay)\<close>: the host keeps the delay of a timer as a 32-bit signed
  integer. A delay above \<open>2147483647\<close> or below \<open>1\<close> is replaced by \<open>1\<close> (the rule of
  Node.js; a browser fires such a timer at once). This is the time after which the timer
  fires.\<close>

definition setTimeout_delay :: "int \<Rightarrow> int" where
  "setTimeout_delay d = (if d < 1 \<or> 2147483647 < d then 1 else d)"

text \<open>\<open>withTimeout\<close>: the race of the promise against a timer that rejects with
  \<open>Error("Request timeout")\<close>. The promise wins when it settles strictly before the
  timer fires (a tie is given to the timer).\<close>

definition withTimeout :: "nat \<times> 'r settled \<Rightarrow> int \<Rightarrow> world \<Rightarrow> 'r settled \<times> world" where
  "withTimeout promise timeoutMs s =
     (if int (fst promise) < setTimeout_delay timeoutMs
      then (snd promise, elapse (int (fst promise)) s)
      else (Rejected (ThrownError (JsError ''Request timeout'')),
            elapse (setTimeout_delay timeoutMs) s))"

text \<open>The object \<^verbatim>\<open>{ data, error, retries }\<close> that \<open>withRetry\<close> returns.\<close>

record 'a retry_result =
  r_data :: "'a option"
  r_error :: "js_error option"
  r_retries :: int

text \<open>The loop of \<open>withRetry\<close>, from the value \<open>attempt\<close> of the loop variable: the attempt
  function \<open>fn\<close> is an effect on the state that returns a value or throws. The backoff
  \<^verbatim>\<open>Math.pow(2, attempt) * 1000\<close> is the delay handed to \<open>setTimeout\<close>.\<close>

function withRetry_loop ::
  "(world \<Rightarrow> (thrown + 'a) \<times> world) \<Rightarrow> int \<Rightarrow> int \<Rightarrow> js_error option \<Rightarrow> world
     \<Rightarrow> 'a retry_result \<times> world" where
  "withRetry_loop fn max_retries attempt lastError s =
     (if attempt \<le> max_retries then
        (case fn s of
           (Inr d, s1) \<Rightarrow> (\<lparr>r_data = Some d, r_error = None, r_retries = attempt\<rparr>, s1)
         | (Inl e, s1) \<Rightarrow>
             withRetry_loop fn max_retries (attempt + 1) (Some (toError e))
               (if attempt < max_retries
                then elapse (setTimeout_delay (2 ^ nat attempt * 1000)) s1 else s1))
      else (\<lparr>r_data = None, r_error = lastError, r_retries = max_retries\<rparr>, s))"
  by pat_completeness auto
termination
  by (relation "measure (\<lambda>(fn, max_retries, attempt, lastError, s). nat (max_retries + 1 - attempt))")
     auto

text \<open>\<open>withRetry\<close>: the default of the parameter applies when the argument is
  \<open>undefined\<close>. It is an \<open>async\<close> function, so its result is a promise, fulfilled or
  rejected; every path through the body ends in a \<open>return\<close>.\<close>

definition withRetry ::
  "(world \<Rightarrow> (thrown + 'a) \<times> world) \<Rightarrow> int option \<Rightarrow> world
     \<Rightarrow> (thrown + 'a retry_result) \<times> world" where
  "withRetry fn max_retries s =
     (let m = (case max_retries of
                 None \<Rightarrow> or_default (read_prop (MiddlewareOptions.maxRetries DEFAULT_OPTIONS)) 3
               | Some m \<Rightarrow> m);
          (res, s') = withRetry_loop fn m 0 None s
      in (Inr res, s'))"

text \<open>\<open>withCache\<close>: a hit returns the stored payload; otherwise the function runs and,
  when it returns, its result is stored under the time read at the start.\<close>

definition withCache ::
  "string \<Rightarrow> (world \<Rightarrow> (thrown + json) \<times> world) \<Rightarrow> int option \<Rightarrow> world
     \<Rightarrow> (thrown + json) \<times> world" where
  "withCache cacheKey fn dur s =
     (let d = (case dur of
                 None \<Rightarrow> or_default (read_prop (cacheDuration DEFAULT_OPTIONS)) 300000
               | Some d \<Rightarrow> d);
          now0 = now s
      in case map_of (requestCache s) cacheKey of
           Some cached \<Rightarrow>
             if now0 - entry_timestamp cached < d then (Inr (entry_data cached), s)
             else (case fn s of
                     (Inl e, s1) \<Rightarrow> (Inl e, s1)
                   | (Inr v, s1) \<Rightarrow>
                       (Inr v, s1\<lparr>requestCache :=
                          AList.update cacheKey \<lparr>entry_data = v, entry_timestamp = now0\<rparr>
                            (requestCache s1)\<rparr>))
         | None \<Rightarrow>
             (case fn s of
                (Inl e, s1) \<Rightarrow> (Inl e, s1)
              | (Inr v, s1) \<Rightarrow>
                  (Inr v, s1\<lparr>requestCache :=
                     AList.update cacheKey \<lparr>entry_data = v, entry_timestamp = now0\<rparr>
                       (requestCache s1)\<rparr>)))"

text \<open>The loop that clears the cache of a table:
  \<^verbatim>\<open>Array.from(requestCache.keys()).forEach((key) => { if (key.startsWith(`${table}:`)) requestCache.delete(key) })\<close>\<close>

definition clearTable :: "string \<Rightarrow> world \<Rightarrow> world" where
  "clearTable table s =
     s\<lparr>requestCache :=
        fold (\<lambda>key c. if prefix (table @ '':'') key then AList.delete key c else c)
          (map fst (requestCache s)) (requestCache s)\<rparr>"

section \<open>The gateway: CRUD operations\<close>

text \<open>The attempt functions are the closures \<open>executeQuery\<close>, \<open>executeInsert\<close>,
  \<open>executeUpdate\<close>, \<open>executeDelete\<close> of the four operations. Each sends one query, awaits
  it under the timeout \<^verbatim>\<open>mergedOptions.timeout || 30000\<close>, throws the \<open>error\<close> of the
  reply when there is one and returns its \<open>data\<close> otherwise.\<close>

text \<open>The attempt of \<open>middlewareSelect\<close>.\<close>

definition executeQuery :: "remote \<Rightarrow> MiddlewareOptions \<Rightarrow> world \<Rightarrow> (thrown + json) \<times> world" where
  "executeQuery r mergedOptions s =
     (let (promise, s1) = send (query r) s;
          (res, s2) = withTimeout promise (or_default (read_prop (timeout mergedOptions)) 30000) s1
      in case res of
           Rejected e \<Rightarrow> (Inl e, s2)
         | Fulfilled reply \<Rightarrow>
             (case pg_error reply of
                Some e \<Rightarrow> (Inl e, s2)
              | None \<Rightarrow> (Inr (pg_data reply), s2)))"

text \<open>\<open>middlewareSelect\<close>. A filter object is the list of its properties, or \<open>None\<close>
  for \<open>undefined\<close>.\<close>

definition middlewareSelect ::
  "remote \<Rightarrow> string \<Rightarrow> string \<Rightarrow> (string \<times> json) list option \<Rightarrow> MiddlewareOptions \<Rightarrow> world
     \<Rightarrow> json MiddlewareResponse \<times> world" where
  "middlewareSelect r table columns filters options s =
     (let startTime = now s;
          mergedOptions = spread DEFAULT_OPTIONS options
      in case checkRateLimit (table @ '':select'') s of
           (False, s1) \<Rightarrow>
             (\<lparr>data = None, error = Some (JsError ''Rate limit exceeded''), status = Error,
               timestamp = startTime, duration = 0, retries = 0\<rparr>,
              logMetric ''SELECT'' table 0 ''rate_limited'' (Some ''Rate limit exceeded'') s1)
         | (True, s1) \<Rightarrow>
             (let cacheKey = generateCacheKey table ''select'' filters
              in case withRetry
                        (if truthy_bool (read_prop (cache mergedOptions))
                         then withCache cacheKey (executeQuery r mergedOptions)
                                (read_prop (cacheDuration mergedOptions))
                         else executeQuery r mergedOptions)
                        (read_prop (maxRetries mergedOptions)) s1 of
                   (Inr res, s2) \<Rightarrow>
                     (let dur = now s2 - startTime
                      in case r_error res of
                           Some err \<Rightarrow>
                             (\<lparr>data = None, error = Some err,
                               status = (if r_retries res \<ge> or_default (read_prop (maxRetries mergedOptions)) 3
                                         then Retry_exhausted else Error),
                               timestamp = startTime, duration = dur, retries = r_retries res\<rparr>,
                              logMetric ''SELECT'' table dur ''error'' (Some (message err)) s2)
                         | None \<Rightarrow>
                             (\<lparr>data = r_data res, error = None, status = Success,
                               timestamp = startTime, duration = dur, retries = r_retries res\<rparr>,
                              logMetric ''SELECT'' table dur ''success'' None s2))
                 | (Inl e, s2) \<Rightarrow>
                     (let dur = now s2 - startTime;
                          err = toError e
                      in (\<lparr>data = None, error = Some err, status = Timeout,
                           timestamp = startTime, duration = dur, retries = 0\<rparr>,
                          logMetric ''SELECT'' table dur ''timeout'' (Some (message err)) s2))))"

text \<open>The attempt of \<open>middlewareInsert\<close>.\<close>

definition executeInsert :: "remote \<Rightarrow> MiddlewareOptions \<Rightarrow> world \<Rightarrow> (thrown + json) \<times> world" where
  "executeInsert r mergedOptions s =
     (let (promise, s1) = send (query r) s;
          (res, s2) = withTimeout promise (or_default (read_prop (timeout mergedOptions)) 30000) s1
      in case res of
           Rejected e \<Rightarrow> (Inl e, s2)
         | Fulfilled reply \<Rightarrow>
             (case pg_error reply of
                Some e \<Rightarrow> (Inl e, s2)
              | None \<Rightarrow> (Inr (pg_data reply), s2)))"

definition middlewareInsert ::
  "remote \<Rightarrow> string \<Rightarrow> json \<Rightarrow> MiddlewareOptions \<Rightarrow> world
     \<Rightarrow> json MiddlewareResponse \<times> world" where
  "middlewareInsert r table payload options s =
     (let startTime = now s;
          mergedOptions = spread DEFAULT_OPTIONS options
      in case checkRateLimit (table @ '':insert'') s of
           (False, s1) \<Rightarrow>
             (\<lparr>data = None, error = Some (JsError ''Rate limit exceeded''), status = Error,
               timestamp = startTime, duration = 0, retries = 0\<rparr>,
              logMetric ''INSERT'' table 0 ''rate_limited'' (Some ''Rate limit exceeded'') s1)
         | (True, s1) \<Rightarrow>
             (case withRetry (executeInsert r mergedOptions) (read_prop (maxRetries mergedOptions)) s1 of
                (Inr res, s2) \<Rightarrow>
                  (let dur = now s2 - startTime
                   in case r_error res of
                        Some err \<Rightarrow>
                          (\<lparr>data = None, error = Some err,
                            status = (if r_retries res \<ge> or_default (read_prop (maxRetries mergedOptions)) 3
                                      then Retry_exhausted else Error),
                            timestamp = startTime, duration = dur, retries = r_retries res\<rparr>,
                           logMetric ''INSERT'' table dur ''error'' (Some (message err)) s2)
                      | None \<Rightarrow>
                          (\<lparr>data = r_data res, error = None, status = Success,
                            timestamp = startTime, duration = dur, retries = r_retries res\<rparr>,
                           clearTable table (logMetric ''INSERT'' table dur ''success'' None s2)))
              | (Inl e, s2) \<Rightarrow>
                  (let dur = now s2 - startTime;
                       err = toError e
                   in (\<lparr>data = None, error = Some err, status = Timeout,
                        timestamp = startTime, duration = dur, retries = 0\<rparr>,
                       logMetric ''INSERT'' table dur ''timeout'' (Some (message err)) s2))))"

text \<open>The attempt of \<open>middlewareUpdate\<close>.\<close>

definition executeUpdate :: "remote \<Rightarrow> MiddlewareOptions \<Rightarrow> world \<Rightarrow> (thrown + json) \<times> world" where
  "executeUpdate r mergedOptions s =
     (let (promise, s1) = send (query r) s;
          (res, s2) = withTimeout promise (or_default (read_prop (timeout mergedOptions)) 30000) s1
      in case res of
           Rejected e \<Rightarrow> (Inl e, s2)
         | Fulfilled reply \<Rightarrow>
             (case pg_error reply of
                Some e \<Rightarrow> (Inl e, s2)
              | None \<Rightarrow> (Inr (pg_data reply), s2)))"

definition middlewareUpdate ::
  "remote \<Rightarrow> string \<Rightarrow> json \<Rightarrow> (string \<times> json) list \<Rightarrow> MiddlewareOptions \<Rightarrow> world
     \<Rightarrow> json MiddlewareResponse \<times> world" where
  "middlewareUpdate r table updates filters options s =
     (let startTime = now s;
          mergedOptions = spread DEFAULT_OPTIONS options
      in case checkRateLimit (table @ '':update'') s of
           (False, s1) \<Rightarrow>
             (\<lparr>data = None, error = Some (JsError ''Rate limit exceeded''), status = Error,
               timestamp = startTime, duration = 0, retries = 0\<rparr>,
              logMetric ''UPDATE'' table 0 ''rate_limited'' (Some ''Rate limit exceeded'') s1)
         | (True, s1) \<Rightarrow>
             (case withRetry (executeUpdate r mergedOptions) (read_prop (maxRetries mergedOptions)) s1 of
                (Inr res, s2) \<Rightarrow>
                  (let dur = now s2 - startTime
                   in case r_error res of
                        Some err \<Rightarrow>
                          (\<lparr>data = None, error = Some err,
                            status = (if r_retries res \<ge> or_default (read_prop (maxRetries mergedOptions)) 3
                                      then Retry_exhausted else Error),
                            timestamp = startTime, duration = dur, retries = r_retries res\<rparr>,
                           logMetric ''UPDATE'' table dur ''error'' (Some (message err)) s2)
                      | None \<Rightarrow>
                          (\<lparr>data = r_data res, error = None, status = Success,
                            timestamp = startTime, duration = dur, retries = r_retries res\<rparr>,
                           clearTable table (logMetric ''UPDATE'' table dur ''success'' None s2)))
              | (Inl e, s2) \<Rightarrow>
                  (let dur = now s2 - startTime;
                       err = toError e
                   in (\<lparr>data = None, error = Some err, status = Timeout,
                        timestamp = startTime, duration = dur, retries = 0\<rparr>,
                       logMetric ''UPDATE'' table dur ''timeout'' (Some (message err)) s2))))"

text \<open>The attempt of \<open>middlewareDelete\<close>; it returns nothing.\<close>

definition executeDelete :: "remote \<Rightarrow> MiddlewareOptions \<Rightarrow> world \<Rightarrow> (thrown + unit) \<times> world" where
  "executeDelete r mergedOptions s =
     (let (promise, s1) = send (query r) s;
          (res, s2) = withTimeout promise (or_default (read_prop (timeout mergedOptions)) 30000) s1
      in case res of
           Rejected e \<Rightarrow> (Inl e, s2)
         | Fulfilled reply \<Rightarrow>
             (case pg_error reply of
                Some e \<Rightarrow> (Inl e, s2)
              | None \<Rightarrow> (Inr (), s2)))"

definition middlewareDelete ::
  "remote \<Rightarrow> string \<Rightarrow> (string \<times> json) list \<Rightarrow> MiddlewareOptions \<Rightarrow> world
     \<Rightarrow> unit MiddlewareResponse \<times> world" where
  "middlewareDelete r table filters options s =
     (let startTime = now s;
          mergedOptions = spread DEFAULT_OPTIONS options
      in case checkRateLimit (table @ '':delete'') s of
           (False, s1) \<Rightarrow>
             (\<lparr>data = None, error = Some (JsError ''Rate limit exceeded''), status = Error,
               timestamp = startTime, duration = 0, retries = 0\<rparr>,
              logMetric ''DELETE'' table 0 ''rate_limited'' (Some ''Rate limit exceeded'') s1)
         | (True, s1) \<Rightarrow>
             (case withRetry (executeDelete r mergedOptions) (read_prop (maxRetries mergedOptions)) s1 of
                (Inr res, s2) \<Rightarrow>
                  (let dur = now s2 - startTime
                   in case r_error res of
                        Some err \<Rightarrow>
                          (\<lparr>data = None, error = Some err,
                            status = (if r_retries res \<ge> or_default (read_prop (maxRetries mergedOptions)) 3
                                      then Retry_exhausted else Error),
                            timestamp = startTime, duration = dur, retries = r_retries res\<rparr>,
                           logMetric ''DELETE'' table dur ''error'' (Some (message err)) s2)
                      | None \<Rightarrow>
                          (\<lparr>data = None, error = None, status = Success,
                            timestamp = startTime, duration = dur, retries = r_retries res\<rparr>,
                           clearTable table (logMetric ''DELETE'' table dur ''success'' None s2)))
              | (Inl e, s2) \<Rightarrow>
                  (let dur = now s2 - startTime;
                       err = toError e
                   in (\<lparr>data = None, error = Some err, status = Timeout,
                        timestamp = startTime, duration = dur, retries = 0\<rparr>,
                       logMetric ''DELETE'' table dur ''timeout'' (Some (message err)) s2))))"

section \<open>The gateway: authentication\<close>

text \<open>\<^verbatim>\<open>result.error || "..."\<close> on an optional string: \<open>undefined\<close> and the empty string
  are falsy.\<close>

definition or_string :: "string option \<Rightarrow> string \<Rightarrow> string" where
  "or_string x d = (case x of None \<Rightarrow> d | Some v \<Rightarrow> if v = [] then d else v)"

text \<open>Truthiness of an optional JSON value.\<close>

fun truthy :: "json option \<Rightarrow> bool" where
  "truthy None = False"
| "truthy (Some JNull) = False"
| "truthy (Some (JBool b)) = b"
| "truthy (Some (JNum i)) = (i \<noteq> 0)"
| "truthy (Some (JStr t)) = (t \<noteq> [])"
| "truthy (Some (JArr xs)) = True"
| "truthy (Some (JObj ps)) = True"

text \<open>Reading a property of \<open>undefined\<close> or \<open>null\<close> throws a \<open>TypeError\<close> (the text of its
  message is the engine's).\<close>

definition TypeError :: thrown where
  "TypeError = ThrownError (JsError ''Cannot read properties of undefined'')"

text \<open>\<open>data.session\<close>\<close>

fun session_of :: "json \<Rightarrow> thrown + json option" where
  "session_of JNull = Inl TypeError"
| "session_of (JObj ps) = Inr (map_of ps ''session'')"
| "session_of _ = Inr None"

text \<open>The attempt of \<open>middlewareAuthSignIn\<close>: the backend is called, the reply is checked, and a session in the reply is handed to the local client.\<close>

definition executeSignIn :: "remote \<Rightarrow> world \<Rightarrow> (thrown + json) \<times> world" where
  "executeSignIn r s =
     (let (promise, s1) = send (fetch r) s;
          (res, s2) = await promise s1
      in case res of
           Rejected e \<Rightarrow> (Inl e, s2)
         | Fulfilled response \<Rightarrow>
             (case body response of
                Rejected e \<Rightarrow> (Inl e, s2)
              | Fulfilled result \<Rightarrow>
                  if \<not> ok response \<or> api_status result = ''error''
                  then (Inl (ThrownError (JsError (or_string (api_error result) ''Failed to sign in''))), s2)
                  else (case api_data result of
                          None \<Rightarrow> (Inl TypeError, s2)
                        | Some d \<Rightarrow>
                            (case session_of d of
                               Inl e \<Rightarrow> (Inl e, s2)
                             | Inr sess \<Rightarrow>
                                 if truthy sess
                                 then (let (promise2, s3) = send (auth r) s2;
                                           (res2, s4) = await promise2 s3
                                       in case res2 of
                                            Rejected e \<Rightarrow> (Inl e, s4)
                                          | Fulfilled (Some e) \<Rightarrow> (Inl e, s4)
                                          | Fulfilled None \<Rightarrow> (Inr d, s4))
                                 else (Inr d, s2)))))"

definition middlewareAuthSignIn ::
  "remote \<Rightarrow> string \<Rightarrow> string \<Rightarrow> MiddlewareOptions \<Rightarrow> world
     \<Rightarrow> json MiddlewareResponse \<times> world" where
  "middlewareAuthSignIn r email password options s =
     (let startTime = now s;
          mergedOptions = spread DEFAULT_OPTIONS options
      in case withRetry (executeSignIn r) (read_prop (maxRetries mergedOptions)) s of
           (Inr res, s2) \<Rightarrow>
             (let dur = now s2 - startTime
              in case r_error res of
                   Some err \<Rightarrow>
                     (\<lparr>data = None, error = Some err, status = Error,
                       timestamp = startTime, duration = dur, retries = r_retries res\<rparr>,
                      logMetric ''AUTH:SIGNIN'' ''auth'' dur ''error'' (Some (message err)) s2)
                 | None \<Rightarrow>
                     (\<lparr>data = r_data res, error = None, status = Success,
                       timestamp = startTime, duration = dur, retries = r_retries res\<rparr>,
                      logMetric ''AUTH:SIGNIN'' ''auth'' dur ''success'' None s2))
         | (Inl e, s2) \<Rightarrow>
             (let dur = now s2 - startTime;
                  err = toError e
              in (\<lparr>data = None, error = Some err, status = Timeout,
                   timestamp = startTime, duration = dur, retries = 0\<rparr>,
                  logMetric ''AUTH:SIGNIN'' ''auth'' dur ''timeout'' (Some (message err)) s2)))"

text \<open>The attempt of \<open>middlewareAuthSignUp\<close>.\<close>

definition executeSignUp :: "remote \<Rightarrow> world \<Rightarrow> (thrown + json) \<times> world" where
  "executeSignUp r s =
     (let (promise, s1) = send (fetch r) s;
          (res, s2) = await promise s1
      in case res of
           Rejected e \<Rightarrow> (Inl e, s2)
         | Fulfilled response \<Rightarrow>
             (case body response of
                Rejected e \<Rightarrow> (Inl e, s2)
              | Fulfilled result \<Rightarrow>
                  if \<not> ok response \<or> api_status result = ''error''
                  then (Inl (ThrownError (JsError (or_string (api_error result) ''Failed to sign up''))), s2)
                  else (case api_data result of
                          None \<Rightarrow> (Inl TypeError, s2)
                        | Some d \<Rightarrow>
                            (case session_of d of
                               Inl e \<Rightarrow> (Inl e, s2)
                             | Inr sess \<Rightarrow>
                                 if truthy sess
                                 then (let (promise2, s3) = send (auth r) s2;
                                           (res2, s4) = await promise2 s3
                                       in case res2 of
                                            Rejected e \<Rightarrow> (Inl e, s4)
                                          | Fulfilled (Some e) \<Rightarrow> (Inl e, s4)
                                          | Fulfilled None \<Rightarrow> (Inr d, s4))
                                 else (Inr d, s2)))))"

definition middlewareAuthSignUp ::
  "remote \<Rightarrow> string \<Rightarrow> string \<Rightarrow> MiddlewareOptions \<Rightarrow> world
     \<Rightarrow> json MiddlewareResponse \<times> world" where
  "middlewareAuthSignUp r email password options s =
     (let startTime = now s;
          mergedOptions = spread DEFAULT_OPTIONS options
      in case withRetry (executeSignUp r) (read_prop (maxRetries mergedOptions)) s of
           (Inr res, s2) \<Rightarrow>
             (let dur = now s2 - startTime
              in case r_error res of
                   Some err \<Rightarrow>
                     (\<lparr>data = None, error = Some err, status = Error,
                       timestamp = startTime, duration = dur, retries = r_retries res\<rparr>,
                      logMetric ''AUTH:SIGNUP'' ''auth'' dur ''error'' (Some (message err)) s2)
                 | None \<Rightarrow>
                     (\<lparr>data = r_data res, error = None, status = Success,
                       timestamp = startTime, duration = dur, retries = r_retries res\<rparr>,
                      logMetric ''AUTH:SIGNUP'' ''auth'' dur ''success'' None s2))
         | (Inl e, s2) \<Rightarrow>
             (let dur = now s2 - startTime;
                  err = toError e
              in (\<lparr>data = None, error = Some err, status = Timeout,
                   timestamp = startTime, duration = dur, retries = 0\<rparr>,
                  logMetric ''AUTH:SIGNUP'' ''auth'' dur ''timeout'' (Some (message err)) s2)))"

text \<open>The attempt of \<open>middlewareAuthSignOut\<close>: the backend is called, then the local client signs out.\<close>

definition executeSignOut :: "remote \<Rightarrow> world \<Rightarrow> (thrown + unit) \<times> world" where
  "executeSignOut r s =
     (let (promise, s1) = send (fetch r) s;
          (res, s2) = await promise s1
      in case res of
           Rejected e \<Rightarrow> (Inl e, s2)
         | Fulfilled response \<Rightarrow>
             (case body response of
                Rejected e \<Rightarrow> (Inl e, s2)
              | Fulfilled result \<Rightarrow>
                  if \<not> ok response \<or> api_status result = ''error''
                  then (Inl (ThrownError (JsError (or_string (api_error result) ''Failed to sign out''))), s2)
                  else (let (promise2, s3) = send (auth r) s2;
                            (res2, s4) = await promise2 s3
                        in case res2 of
                             Rejected e \<Rightarrow> (Inl e, s4)
                           | Fulfilled (Some e) \<Rightarrow> (Inl e, s4)
                           | Fulfilled None \<Rightarrow> (Inr (), s4))))"

definition middlewareAuthSignOut ::
  "remote \<Rightarrow> string option \<Rightarrow> MiddlewareOptions \<Rightarrow> world
     \<Rightarrow> unit MiddlewareResponse \<times> world" where
  "middlewareAuthSignOut r token options s =
     (let startTime = now s;
          mergedOptions = spread DEFAULT_OPTIONS options
      in case withRetry (executeSignOut r) (read_prop (maxRetries mergedOptions)) s of
           (Inr res, s2) \<Rightarrow>
             (let dur = now s2 - startTime
              in case r_error res of
                   Some err \<Rightarrow>
                     (\<lparr>data = None, error = Some err, status = Error,
                       timestamp = startTime, duration = dur, retries = r_retries res\<rparr>,
                      logMetric ''AUTH:SIGNOUT'' ''auth'' dur ''error'' (Some (message err)) s2)
                 | None \<Rightarrow>
                     (\<lparr>data = None, error = None, status = Success,
                       timestamp = startTime, duration = dur, retries = r_retries res\<rparr>,
                      (logMetric ''AUTH:SIGNOUT'' ''auth'' dur ''success'' None s2)\<lparr>requestCache := []\<rparr>))
         | (Inl e, s2) \<Rightarrow>
             (let dur = now s2 - startTime;
                  err = toError e
              in (\<lparr>data = None, error = Some err, status = Timeout,
                   timestamp = startTime, duration = dur, retries = 0\<rparr>,
                  logMetric ''AUTH:SIGNOUT'' ''auth'' dur ''timeout'' (Some (message err)) s2)))"

section \<open>Notions used to state the properties\<close>

subsection \<open>Attempts\<close>

text \<open>The state in which the attempt with index \<open>i\<close> starts, when every earlier attempt
  has failed: the first attempt starts at once, and the attempt after the one with index
  \<open>i\<close> starts when the timer set with the delay \<open>2 ^ i * 1000\<close> fires.\<close>

fun attempt_state :: "(world \<Rightarrow> (thrown + 'a) \<times> world) \<Rightarrow> nat \<Rightarrow> world \<Rightarrow> world" where
  "attempt_state fn 0 s = s"
| "attempt_state fn (Suc i) s =
     elapse (setTimeout_delay (2 ^ i * 1000)) (snd (fn (attempt_state fn i s)))"

text \<open>The failure of the attempt before the one with index \<open>i\<close>, as an \<open>Error\<close>.\<close>

fun last_error :: "(world \<Rightarrow> (thrown + 'a) \<times> world) \<Rightarrow> nat \<Rightarrow> world \<Rightarrow> js_error option" where
  "last_error fn 0 s = None"
| "last_error fn (Suc i) s = Some (toError (projl (fst (fn (attempt_state fn i s)))))"

text \<open>The attempt with index \<open>m\<close>: the last one that a loop with \<open>maxRetries = m\<close>
  makes when all attempts fail.\<close>

definition final_attempt ::
  "(world \<Rightarrow> (thrown + 'a) \<times> world) \<Rightarrow> int \<Rightarrow> world \<Rightarrow> (thrown + 'a) \<times> world" where
  "final_attempt fn m s = fn (attempt_state fn (nat m) s)"

text \<open>The number of retries that an operation called with the options \<open>opts\<close> hands to
  \<open>withRetry\<close>, the default of the parameter included.\<close>

definition retry_limit :: "MiddlewareOptions \<Rightarrow> int" where
  "retry_limit opts =
     (case read_prop (maxRetries (spread DEFAULT_OPTIONS opts)) of None \<Rightarrow> 3 | Some k \<Rightarrow> k)"

text \<open>The attempt function that \<open>middlewareSelect\<close> hands to \<open>withRetry\<close>.\<close>

definition select_attempt ::
  "remote \<Rightarrow> string \<Rightarrow> (string \<times> json) list option \<Rightarrow> MiddlewareOptions
     \<Rightarrow> world \<Rightarrow> (thrown + json) \<times> world" where
  "select_attempt r table filters opts =
     (if truthy_bool (read_prop (cache (spread DEFAULT_OPTIONS opts)))
      then withCache (generateCacheKey table ''select'' filters)
             (executeQuery r (spread DEFAULT_OPTIONS opts))
             (read_prop (cacheDuration (spread DEFAULT_OPTIONS opts)))
      else executeQuery r (spread DEFAULT_OPTIONS opts))"

subsection \<open>The cache\<close>

text \<open>The duration that \<open>withCache\<close> uses: its argument, or the default of the parameter.\<close>

definition cache_duration :: "int option \<Rightarrow> int" where
  "cache_duration dur = (case dur of None \<Rightarrow> 300000 | Some d \<Rightarrow> d)"

text \<open>The cache holds an entry for the key that \<open>withCache\<close> would return.\<close>

definition cache_fresh :: "string \<Rightarrow> int option \<Rightarrow> world \<Rightarrow> bool" where
  "cache_fresh key dur s =
     (case map_of (requestCache s) key of
        None \<Rightarrow> False
      | Some c \<Rightarrow> now s - entry_timestamp c < (case dur of None \<Rightarrow> 300000 | Some d \<Rightarrow> d))"

subsection \<open>The rate limiter\<close>

text \<open>The timestamps recorded for a key, and those of them within the trailing window.\<close>

definition recorded :: "string \<Rightarrow> world \<Rightarrow> int list" where
  "recorded key s = (case rateLimitMap s key of None \<Rightarrow> [] | Some ts \<Rightarrow> ts)"

definition in_window :: "string \<Rightarrow> world \<Rightarrow> int list" where
  "in_window key s = filter (\<lambda>ts. now s - ts < RATE_LIMIT_WINDOW) (recorded key s)"

text \<open>Successive admission checks of one key, made at the given times.\<close>

fun admissions :: "string \<Rightarrow> int list \<Rightarrow> world \<Rightarrow> bool list \<times> world" where
  "admissions key [] s = ([], s)"
| "admissions key (t # ts) s =
     (let (b, s1) = checkRateLimit key (s\<lparr>now := t\<rparr>);
          (bs, s2) = admissions key ts s1
      in (b # bs, s2))"

text \<open>Successive calls of operations, each started at the given time; and the calls of
  one operation on one table, by their times and remaining arguments.\<close>

fun calls_at :: "(int \<times> (world \<Rightarrow> 'a \<times> world)) list \<Rightarrow> world \<Rightarrow> 'a list \<times> world" where
  "calls_at [] s = ([], s)"
| "calls_at ((t, call) # cs) s =
     (let (x, s1) = call (s\<lparr>now := t\<rparr>);
          (xs, s2) = calls_at cs s1
      in (x # xs, s2))"

definition select_calls ::
  "string \<Rightarrow> (int \<times> remote \<times> string \<times> (string \<times> json) list option \<times> MiddlewareOptions) list
     \<Rightarrow> (int \<times> (world \<Rightarrow> json MiddlewareResponse \<times> world)) list" where
  "select_calls table args =
     map (\<lambda>(t, r, columns, filters, options). (t, middlewareSelect r table columns filters options)) args"

definition insert_calls ::
  "string \<Rightarrow> (int \<times> remote \<times> json \<times> MiddlewareOptions) list
     \<Rightarrow> (int \<times> (world \<Rightarrow> json MiddlewareResponse \<times> world)) list" where
  "insert_calls table args =
     map (\<lambda>(t, r, payload, options). (t, middlewareInsert r table payload options)) args"

definition update_calls ::
  "string \<Rightarrow> (int \<times> remote \<times> json \<times> (string \<times> json) list \<times> MiddlewareOptions) list
     \<Rightarrow> (int \<times> (world \<Rightarrow> json MiddlewareResponse \<times> world)) list" where
  "update_calls table args =
     map (\<lambda>(t, r, updates, filters, options). (t, middlewareUpdate r table updates filters options)) args"

definition delete_calls ::
  "string \<Rightarrow> (int \<times> remote \<times> (string \<times> json) list \<times> MiddlewareOptions) list
     \<Rightarrow> (int \<times> (world \<Rightarrow> unit MiddlewareResponse \<times> world)) list" where
  "delete_calls table args =
     map (\<lambda>(t, r, filters, options). (t, middlewareDelete r table filters options)) args"

subsection \<open>Concrete inputs\<close>

text \<open>Replies: a query answered with an error after 10 ms, a query answered with one row,
  a well-formed answer of the backend API.\<close>

definition pg_failure :: "nat \<times> pg_reply settled" where
  "pg_failure = (10, Fulfilled \<lparr>pg_data = JNull, pg_error = Some (ThrownOther ''unavailable'')\<rparr>)"

definition pg_rows :: "nat \<times> pg_reply settled" where
  "pg_rows = (10, Fulfilled \<lparr>pg_data = JArr [JNum 7], pg_error = None\<rparr>)"

definition http_ok :: "nat \<times> http_response settled" where
  "http_ok =
     (10, Fulfilled \<lparr>ok = True,
                     body = Fulfilled \<lparr>api_status = ''success'', api_error = None,
                                       api_data = Some (JObj [])\<rparr>\<rparr>)"

text \<open>Remote sides: one that answers every query with an error and rejects every \<open>fetch\<close>;
  one that answers every request well; one whose first two answers to queries are errors,
  and one whose first 23 are;
  one that answers the first query well, every later one with an error, and rejects every
  \<open>fetch\<close>; one whose answers to queries take 40 seconds.\<close>

definition remote_down :: remote where
  "remote_down =
     \<lparr>query = (\<lambda>n. pg_failure),
      fetch = (\<lambda>n. (10, Rejected (ThrownError (JsError ''fetch failed'')))),
      auth = (\<lambda>n. (10, Fulfilled None))\<rparr>"

definition remote_up :: remote where
  "remote_up =
     \<lparr>query = (\<lambda>n. pg_rows), fetch = (\<lambda>n. http_ok), auth = (\<lambda>n. (10, Fulfilled None))\<rparr>"

definition remote_flaky :: remote where
  "remote_flaky =
     \<lparr>query = (\<lambda>n. if n < 2 then pg_failure else pg_rows),
      fetch = (\<lambda>n. http_ok), auth = (\<lambda>n. (10, Fulfilled None))\<rparr>"

definition remote_once :: remote where
  "remote_once =
     \<lparr>query = (\<lambda>n. if n = 0 then pg_rows else pg_failure),
      fetch = (\<lambda>n. (10, Rejected (ThrownError (JsError ''fetch failed'')))),
      auth = (\<lambda>n. (10, Fulfilled None))\<rparr>"


definition remote_slow :: remote where
  "remote_slow =
     \<lparr>query = (\<lambda>n. (40000, Fulfilled \<lparr>pg_data = JArr [], pg_error = None\<rparr>)),
      fetch = (\<lambda>n. http_ok), auth = (\<lambda>n. (10, Fulfilled None))\<rparr>"

text \<open>Options: the empty options object, and \<^verbatim>\<open>{ maxRetries: 3 }\<close>.\<close>

definition no_options :: MiddlewareOptions where
  "no_options = \<lparr>logRequests = Absent, enableRetry = Absent, maxRetries = Absent,
                 timeout = Absent, cache = Absent, cacheDuration = Absent\<rparr>"

definition retry3 :: MiddlewareOptions where
  "retry3 = no_options\<lparr>maxRetries := Val 3\<rparr>"

text \<open>States: a fresh process at time 0; the state after a first read of the table
  \<open>users\<close>, which left an entry in the cache; one in which the window of a key holds a hundred timestamps that are 20
  seconds old; and the state one second after a first read of the table \<open>users\<close> in a
  fresh process.\<close>

definition world0 :: world where
  "world0 = \<lparr>now = 0, calls = 0, requestMetrics = [], requestCache = [],
             rateLimitMap = Map.empty\<rparr>"

definition users_entry :: "string \<times> cache_entry" where
  "users_entry = (''users:select:{}'', \<lparr>entry_data = JArr [JNum 7], entry_timestamp = 0\<rparr>)"

definition world_cached :: world where
  "world_cached = snd (middlewareSelect remote_once ''users'' ''*'' None no_options world0)"

definition world_full :: world where
  "world_full = world0\<lparr>now := 70000,
                       rateLimitMap := [''users:select'' \<mapsto> replicate 100 50000]\<rparr>"

definition world_read :: world where
  "world_read =
     elapse 1000 (snd (middlewareSelect remote_up ''users'' ''*'' None no_options world0))"

text \<open>A fresh process at time 500, and the state one second after a first read of the
  table \<open>users\<close> made then.\<close>

definition world_later :: world where
  "world_later = world0\<lparr>now := 500\<rparr>"

definition world_reread :: world where
  "world_reread =
     elapse 1000 (snd (middlewareSelect remote_up ''users'' ''*'' None no_options world_later))"

subsection \<open>Reachable states\<close>

text \<open>The states that a process can be in: it starts with empty maps, time passes, and
  the seven operations are called, with any arguments, against any remote side.\<close>

inductive reachable :: "world \<Rightarrow> bool" where
  start: "reachable (world0\<lparr>now := t\<rparr>)"
| tick: "reachable s \<Longrightarrow> reachable (s\<lparr>now := t\<rparr>)"
| select: "reachable s \<Longrightarrow> reachable (snd (middlewareSelect r table cols f opts s))"
| insert: "reachable s \<Longrightarrow> reachable (snd (middlewareInsert r table p opts s))"
| update: "reachable s \<Longrightarrow> reachable (snd (middlewareUpdate r table u g opts s))"
| delete: "reachable s \<Longrightarrow> reachable (snd (middlewareDelete r table g opts s))"
| signIn: "reachable s \<Longrightarrow> reachable (snd (middlewareAuthSignIn r e pw opts s))"
| signUp: "reachable s \<Longrightarrow> reachable (snd (middlewareAuthSignUp r e pw opts s))"
| signOut: "reachable s \<Longrightarrow> reachable (snd (middlewareAuthSignOut r tok opts s))"

section \<open>State components that an operation leaves alone\<close>

lemma elapse_fields [simp]:
  "now (elapse d s) = now s + d"
  "calls (elapse d s) = calls s"
  "requestCache (elapse d s) = requestCache s"
  "rateLimitMap (elapse d s) = rateLimitMap s"
  "requestMetrics (elapse d s) = requestMetrics s"
  by (simp_all add: elapse_def)

lemma logMetric_fields [simp]:
  "now (logMetric me t d st er s) = now s"
  "calls (logMetric me t d st er s) = calls s"
  "requestCache (logMetric me t d st er s) = requestCache s"
  "rateLimitMap (logMetric me t d st er s) = rateLimitMap s"
  by (simp_all add: logMetric_def Let_def)

lemma checkRateLimit_fields [simp]:
  "now (snd (checkRateLimit k s)) = now s"
  "calls (snd (checkRateLimit k s)) = calls s"
  "requestCache (snd (checkRateLimit k s)) = requestCache s"
  "requestMetrics (snd (checkRateLimit k s)) = requestMetrics s"
  by (simp_all add: checkRateLimit_def Let_def)

lemma clearTable_fields [simp]:
  "now (clearTable t s) = now s"
  "calls (clearTable t s) = calls s"
  "rateLimitMap (clearTable t s) = rateLimitMap s"
  "requestMetrics (clearTable t s) = requestMetrics s"
  by (simp_all add: clearTable_def)

lemma setTimeout_delay_pos [simp]: "1 \<le> setTimeout_delay d" "0 \<le> setTimeout_delay d"
  by (simp_all add: setTimeout_delay_def)



lemma withTimeout_fields [simp]:
  "calls (snd (withTimeout p tmo s)) = calls s"
  "requestCache (snd (withTimeout p tmo s)) = requestCache s"
  "rateLimitMap (snd (withTimeout p tmo s)) = rateLimitMap s"
  "requestMetrics (snd (withTimeout p tmo s)) = requestMetrics s"
  "now s \<le> now (snd (withTimeout p tmo s))"
  by (simp_all add: withTimeout_def)

lemma send_fields [simp]:
  "fst (send oracle s) = oracle (calls s)"
  "now (snd (send oracle s)) = now s"
  "calls (snd (send oracle s)) = Suc (calls s)"
  "requestCache (snd (send oracle s)) = requestCache s"
  "rateLimitMap (snd (send oracle s)) = rateLimitMap s"
  "requestMetrics (snd (send oracle s)) = requestMetrics s"
  by (simp_all add: send_def)

lemmas execute_defs =
  executeQuery_def executeInsert_def executeUpdate_def executeDelete_def
  send_def withTimeout_def elapse_def setTimeout_delay_def

lemma execute_calls [simp]:
  "calls (snd (executeQuery r mo s)) = Suc (calls s)"
  "calls (snd (executeInsert r mo s)) = Suc (calls s)"
  "calls (snd (executeUpdate r mo s)) = Suc (calls s)"
  "calls (snd (executeDelete r mo s)) = Suc (calls s)"
  by (simp_all add: execute_defs split: settled.splits option.splits)

lemma execute_cache [simp]:
  "requestCache (snd (executeQuery r mo s)) = requestCache s"
  "requestCache (snd (executeInsert r mo s)) = requestCache s"
  "requestCache (snd (executeUpdate r mo s)) = requestCache s"
  "requestCache (snd (executeDelete r mo s)) = requestCache s"
  by (simp_all add: execute_defs split: settled.splits option.splits)

lemma execute_now [simp]:
  "now s \<le> now (snd (executeQuery r mo s))"
  "now s \<le> now (snd (executeInsert r mo s))"
  "now s \<le> now (snd (executeUpdate r mo s))"
  "now s \<le> now (snd (executeDelete r mo s))"
  by (simp_all add: execute_defs split: settled.splits option.splits)

lemma executeSign_cache [simp]:
  "requestCache (snd (executeSignIn r s)) = requestCache s"
  "requestCache (snd (executeSignUp r s)) = requestCache s"
  "requestCache (snd (executeSignOut r s)) = requestCache s"
  by (simp_all add: executeSignIn_def executeSignUp_def executeSignOut_def send_def await_def
        elapse_def split: settled.splits option.splits sum.splits)

section \<open>The retry loop\<close>

declare withRetry_loop.simps [simp del]

lemma loop_success:
  "attempt \<le> m \<Longrightarrow> fn s = (Inr v, s1) \<Longrightarrow>
   withRetry_loop fn m attempt le s = (\<lparr>r_data = Some v, r_error = None, r_retries = attempt\<rparr>, s1)"
  by (subst withRetry_loop.simps) simp

lemma loop_failure:
  "attempt \<le> m \<Longrightarrow> fn s = (Inl e, s1) \<Longrightarrow>
   withRetry_loop fn m attempt le s =
     withRetry_loop fn m (attempt + 1) (Some (toError e))
       (if attempt < m then elapse (setTimeout_delay (2 ^ nat attempt * 1000)) s1 else s1)"
  by (subst withRetry_loop.simps) simp

lemma loop_done:
  "m < attempt \<Longrightarrow>
   withRetry_loop fn m attempt le s = (\<lparr>r_data = None, r_error = le, r_retries = m\<rparr>, s)"
  by (subst withRetry_loop.simps) simp

text \<open>While the attempts fail, the loop is at the attempt with index \<open>j\<close> in the state
  \<open>attempt_state fn j s\<close>.\<close>

lemma loop_prefix:
  "int j \<le> m \<Longrightarrow> \<forall>i<j. isl (fst (fn (attempt_state fn i s))) \<Longrightarrow>
   withRetry_loop fn m 0 None s =
     withRetry_loop fn m (int j) (last_error fn j s) (attempt_state fn j s)"
proof (induction j)
  case 0
  then show ?case by simp
next
  case (Suc j)
  from Suc.prems have jm: "int j < m" and fails: "isl (fst (fn (attempt_state fn j s)))"
    and prev: "\<forall>i<j. isl (fst (fn (attempt_state fn i s)))" by auto
  from fails obtain e s1 where step: "fn (attempt_state fn j s) = (Inl e, s1)"
    by (cases "fn (attempt_state fn j s)") (auto simp: isl_def)
  have "withRetry_loop fn m 0 None s =
        withRetry_loop fn m (int j) (last_error fn j s) (attempt_state fn j s)"
    using Suc.IH jm prev by simp
  also have "\<dots> = withRetry_loop fn m (int j + 1) (Some (toError e))
                      (elapse (setTimeout_delay (2 ^ j * 1000)) s1)"
    using loop_failure [of "int j" m fn "attempt_state fn j s" e s1] jm step by simp
  finally show ?case using step by (simp add: add.commute)
qed

lemma loop_fails_then_succeeds:
  assumes "int k \<le> m" "\<forall>i<k. isl (fst (fn (attempt_state fn i s)))"
    and "fn (attempt_state fn k s) = (Inr v, s')"
  shows "withRetry_loop fn m 0 None s = (\<lparr>r_data = Some v, r_error = None, r_retries = int k\<rparr>, s')"
  using loop_prefix [of k m fn s] loop_success [of "int k" m fn "attempt_state fn k s" v s'] assms
  by simp

lemma loop_all_fail:
  assumes "0 \<le> m" "\<forall>i\<le>nat m. isl (fst (fn (attempt_state fn i s)))"
  shows "withRetry_loop fn m 0 None s =
     (\<lparr>r_data = None, r_error = last_error fn (Suc (nat m)) s, r_retries = m\<rparr>,
      snd (fn (attempt_state fn (nat m) s)))"
proof -
  let ?s = "attempt_state fn (nat m) s"
  from assms obtain e s1 where step: "fn ?s = (Inl e, s1)"
    by (cases "fn ?s") (auto simp: isl_def)
  have "withRetry_loop fn m 0 None s = withRetry_loop fn m (int (nat m)) (last_error fn (nat m) s) ?s"
    using loop_prefix [of "nat m" m fn s] assms by simp
  also have "\<dots> = withRetry_loop fn m (m + 1) (Some (toError e)) s1"
    using loop_failure [of m m fn ?s e s1] step assms(1) by simp
  also have "\<dots> = (\<lparr>r_data = None, r_error = Some (toError e), r_retries = m\<rparr>, s1)"
    by (rule loop_done) simp
  finally show ?thesis using step by simp
qed

text \<open>What the attempts and the waiting leave alone, the loop leaves alone.\<close>

lemma loop_frame:
  "(\<And>s. f (snd (fn s)) = f s) \<Longrightarrow> (\<And>d s. f (elapse d s) = f s) \<Longrightarrow>
   f (snd (withRetry_loop fn m attempt le s)) = f s"
proof (induction fn m attempt le s rule: withRetry_loop.induct)
  case (1 fn m attempt le s)
  obtain x s1 where fs: "fn s = (x, s1)" by (cases "fn s")
  have f1: "f s1 = f s" using "1.prems"(1) [of s] fs by simp
  show ?case
  proof (cases "attempt \<le> m")
    case False
    then show ?thesis by (simp add: loop_done)
  next
    case True
    show ?thesis
    proof (cases x)
      case (Inr v)
      then show ?thesis using True fs f1 by (simp add: loop_success)
    next
      case (Inl e)
      let ?s2 = "if attempt < m then elapse (setTimeout_delay (2 ^ nat attempt * 1000)) s1 else s1"
      have "f (snd (withRetry_loop fn m (attempt + 1) (Some (toError e)) ?s2)) = f ?s2"
        using "1.IH" [OF True fs [symmetric] Inl] "1.prems" by blast
      moreover have "f ?s2 = f s" using f1 "1.prems"(2) by simp
      ultimately show ?thesis using True fs Inl by (simp add: loop_failure)
    qed
  qed
qed

text \<open>A result of the loop that carries data comes from a successful attempt.\<close>

lemma loop_data:
  "withRetry_loop fn m attempt le s = (res, s2) \<Longrightarrow> r_data res = Some v \<Longrightarrow>
   \<exists>sk. fn sk = (Inr v, s2)"
proof (induction fn m attempt le s rule: withRetry_loop.induct)
  case (1 fn m attempt le s)
  show ?case
  proof (cases "attempt \<le> m")
    case False
    then show ?thesis using "1.prems" by (auto simp: loop_done)
  next
    case True
    obtain x s1 where fs: "fn s = (x, s1)" by (cases "fn s")
    show ?thesis
    proof (cases x)
      case (Inr w)
      then show ?thesis using True fs "1.prems" by (auto simp: loop_success)
    next
      case (Inl e)
      then show ?thesis
        using "1.IH" [OF True fs [symmetric] Inl] "1.prems" True fs
        by (simp add: loop_failure)
    qed
  qed
qed

text \<open>It comes from an attempt made in a state that satisfies whatever the failed
  attempts and the waiting preserve.\<close>

lemma loop_data_inv:
  "withRetry_loop fn m attempt le s = (res, s2) \<Longrightarrow> r_data res = Some v \<Longrightarrow> I s \<Longrightarrow>
   (\<And>s. I s \<Longrightarrow> isl (fst (fn s)) \<Longrightarrow> I (snd (fn s))) \<Longrightarrow>
   (\<And>d s. 0 \<le> d \<Longrightarrow> I s \<Longrightarrow> I (elapse d s)) \<Longrightarrow>
   \<exists>sk. I sk \<and> fn sk = (Inr v, s2)"
proof (induction fn m attempt le s rule: withRetry_loop.induct)
  case (1 fn m attempt le s)
  show ?case
  proof (cases "attempt \<le> m")
    case False
    then show ?thesis using "1.prems"(1,2) by (auto simp: loop_done)
  next
    case True
    obtain x s1 where fs: "fn s = (x, s1)" by (cases "fn s")
    show ?thesis
    proof (cases x)
      case (Inr w)
      then show ?thesis using True fs "1.prems"(1,2,3) by (auto simp: loop_success)
    next
      case (Inl e)
      let ?s2 = "if attempt < m then elapse (setTimeout_delay (2 ^ nat attempt * 1000)) s1 else s1"
      have "I s1" using "1.prems"(4) [OF "1.prems"(3)] fs Inl by simp
      then have i2: "I ?s2" using "1.prems"(5) [of "setTimeout_delay (2 ^ nat attempt * 1000)" s1] by simp
      have run: "withRetry_loop fn m (attempt + 1) (Some (toError e)) ?s2 = (res, s2)"
        using "1.prems"(1) True fs Inl by (simp add: loop_failure)
      show ?thesis
        by (rule "1.IH" [OF True fs [symmetric] Inl run "1.prems"(2) i2 "1.prems"(4) "1.prems"(5)])
    qed
  qed
qed

text \<open>\<open>withRetry\<close> fulfils its promise with the result of the loop.\<close>

lemma withRetry_returns:
  "withRetry fn mr s =
     (Inr (fst (withRetry_loop fn (case mr of None \<Rightarrow> 3 | Some k \<Rightarrow> k) 0 None s)),
      snd (withRetry_loop fn (case mr of None \<Rightarrow> 3 | Some k \<Rightarrow> k) 0 None s))"
  by (simp add: withRetry_def DEFAULT_OPTIONS_def split: prod.splits option.splits)

lemma withRetry_eq:
  "withRetry_loop fn (case mr of None \<Rightarrow> 3 | Some k \<Rightarrow> k) 0 None s = (res, s2) \<Longrightarrow>
   withRetry fn mr s = (Inr res, s2)"
  by (simp add: withRetry_returns)

lemma attempt_state_calls:
  "(\<And>s. calls (snd (fn s)) = Suc (calls s)) \<Longrightarrow> calls (attempt_state fn i s) = calls s + i"
  by (induction i) simp_all

lemma attempt_state_cache:
  "(\<And>s. requestCache (snd (fn s)) = requestCache s) \<Longrightarrow>
   requestCache (attempt_state fn i s) = requestCache s"
  by (induction i) simp_all

lemma attempt_state_later:
  assumes "\<And>s. now s \<le> now (snd (fn s))"
  shows "now s \<le> now (attempt_state fn i s)"
proof (induction i)
  case 0
  then show ?case by simp
next
  case (Suc i)
  have "now (attempt_state fn i s) \<le> now (snd (fn (attempt_state fn i s)))"
    using assms by simp
  moreover have "0 \<le> setTimeout_delay (2 ^ i * 1000)" by simp
  ultimately show ?case
    using Suc.IH unfolding attempt_state.simps elapse_fields by linarith
qed


lemma loop_all_fail_always:
  assumes "0 \<le> m" "\<And>s. isl (fst (fn s))" "\<And>s. calls (snd (fn s)) = Suc (calls s)"
  shows "withRetry_loop fn m 0 None s =
           (\<lparr>r_data = None, r_error = last_error fn (Suc (nat m)) s, r_retries = m\<rparr>,
            snd (fn (attempt_state fn (nat m) s)))"
    and "calls (snd (fn (attempt_state fn (nat m) s))) = calls s + nat m + 1"
  using loop_all_fail [of m fn s] assms attempt_state_calls [of fn "nat m" s] by simp_all

lemma crud_calls:
  assumes "\<And>s. calls (snd (fn s)) = Suc (calls s)"
  shows "calls (snd (final_attempt fn m s)) = calls s + nat m + 1"
  using assms attempt_state_calls [of fn "nat m" s] by (simp add: final_attempt_def)

section \<open>The cache\<close>

lemma withCache_hit:
  "map_of (requestCache s) key = Some c \<Longrightarrow>
   now s - entry_timestamp c < (case dur of None \<Rightarrow> 300000 | Some d \<Rightarrow> d) \<Longrightarrow>
   withCache key fn dur s = (Inr (entry_data c), s)"
  by (simp add: withCache_def DEFAULT_OPTIONS_def Let_def split: option.splits)

lemma withCache_miss:
  "\<not> cache_fresh key dur s \<Longrightarrow>
   withCache key fn dur s =
     (case fn s of
        (Inl e, s1) \<Rightarrow> (Inl e, s1)
      | (Inr v, s1) \<Rightarrow>
          (Inr v, s1\<lparr>requestCache :=
             AList.update key \<lparr>entry_data = v, entry_timestamp = now s\<rparr> (requestCache s1)\<rparr>))"
  by (simp add: withCache_def cache_fresh_def DEFAULT_OPTIONS_def Let_def split: option.splits)

lemma withCache_cold:
  assumes "map_of (requestCache s) key = None"
  shows "withCache key fn dur s =
     (case fn s of
        (Inl e, s1) \<Rightarrow> (Inl e, s1)
      | (Inr v, s1) \<Rightarrow>
          (Inr v, s1\<lparr>requestCache :=
             AList.update key \<lparr>entry_data = v, entry_timestamp = now s\<rparr> (requestCache s1)\<rparr>))"
  using assms by (intro withCache_miss) (simp add: cache_fresh_def)

lemma withCache_miss_fail:
  "\<not> cache_fresh key dur s \<Longrightarrow> isl (fst (fn s)) \<Longrightarrow> withCache key fn dur s = fn s"
  by (cases "fn s") (auto simp: withCache_miss isl_def)

lemma cache_fresh_iff:
  "cache_fresh key dur s =
     (\<exists>c. map_of (requestCache s) key = Some c \<and> now s - entry_timestamp c < cache_duration dur)"
  by (simp add: cache_fresh_def cache_duration_def split: option.splits)

lemma withCache_stale:
  assumes "map_of (requestCache s) key = Some c" "cache_duration dur \<le> now s - entry_timestamp c"
  shows "withCache key fn dur s =
     (case fn s of
        (Inl e, s1) \<Rightarrow> (Inl e, s1)
      | (Inr v, s1) \<Rightarrow>
          (Inr v, s1\<lparr>requestCache :=
             AList.update key \<lparr>entry_data = v, entry_timestamp = now s\<rparr> (requestCache s1)\<rparr>))"
  using assms by (intro withCache_miss) (simp add: cache_fresh_iff)

lemma withCache_stores:
  "withCache key fn dur s = (Inr v, s2) \<Longrightarrow>
   \<exists>c. map_of (requestCache s2) key = Some c \<and> entry_data c = v"
  by (cases "cache_fresh key dur s")
     (auto simp: cache_fresh_iff cache_duration_def withCache_hit withCache_miss
        AList.update_conv' split: prod.splits sum.splits)

lemma not_fresh_later:
  "\<not> cache_fresh key dur s \<Longrightarrow> requestCache s' = requestCache s \<Longrightarrow> now s \<le> now s' \<Longrightarrow>
   \<not> cache_fresh key dur s'"
  by (auto simp: cache_fresh_def split: option.splits)

lemma checked_fresh:
  "cache_fresh key dur (snd (checkRateLimit k s)) = cache_fresh key dur s"
  by (simp add: cache_fresh_def cong: option.case_cong)

lemma fold_delete:
  "fold (\<lambda>key c. if P key then AList.delete key c else c) ks c =
     filter (\<lambda>e. \<not> (P (fst e) \<and> fst e \<in> set ks)) c"
proof (induction ks arbitrary: c)
  case Nil
  then show ?case by simp
next
  case (Cons k ks)
  have "filter (\<lambda>e. \<not> (P (fst e) \<and> fst e \<in> set ks)) (AList.delete k c) =
        filter (\<lambda>e. \<not> (P (fst e) \<and> fst e \<in> set (k # ks))) c" if "P k"
    using that by (induction c) (auto simp: AList.delete_eq)
  moreover have "filter (\<lambda>e. \<not> (P (fst e) \<and> fst e \<in> set ks)) c =
        filter (\<lambda>e. \<not> (P (fst e) \<and> fst e \<in> set (k # ks))) c" if "\<not> P k"
    using that by (induction c) auto
  ultimately show ?case by (simp add: Cons.IH)
qed

lemma clearTable_cache:
  "requestCache (clearTable t s) = filter (\<lambda>e. \<not> prefix (t @ '':'') (fst e)) (requestCache s)"
proof -
  have "filter (\<lambda>e. \<not> (P (fst e) \<and> fst e \<in> set (map fst c))) c = filter (\<lambda>e. \<not> P (fst e)) c"
    for P :: "string \<Rightarrow> bool" and c :: "(string \<times> cache_entry) list"
    by (rule filter_cong) auto
  then show ?thesis by (simp add: clearTable_def fold_delete)
qed

section \<open>The rate limiter\<close>

lemma checkRateLimit_denies:
  "RATE_LIMIT_REQUESTS \<le> length (in_window key s) \<Longrightarrow> checkRateLimit key s = (False, s)"
  by (simp add: checkRateLimit_def in_window_def recorded_def Let_def)

lemma checkRateLimit_admits:
  "length (in_window key s) < RATE_LIMIT_REQUESTS \<Longrightarrow>
   checkRateLimit key s =
     (True, s\<lparr>rateLimitMap := (rateLimitMap s)(key \<mapsto> in_window key s @ [now s])\<rparr>)"
  by (simp add: checkRateLimit_def in_window_def recorded_def Let_def)

lemma denied_iff:
  "(\<not> fst (checkRateLimit key s)) = (RATE_LIMIT_REQUESTS \<le> length (in_window key s))"
  by (simp add: checkRateLimit_def in_window_def recorded_def Let_def)

lemma admissions_append:
  "admissions key (ts @ us) s =
     (fst (admissions key ts s) @ fst (admissions key us (snd (admissions key ts s))),
      snd (admissions key us (snd (admissions key ts s))))"
  by (induction ts arbitrary: s) (simp_all add: Let_def split: prod.splits)

lemma admissions_within_window:
  assumes "\<forall>x \<in> set (recorded key s) \<union> set ts. lo \<le> x \<and> x < lo + RATE_LIMIT_WINDOW"
    and "length (recorded key s) + length ts \<le> RATE_LIMIT_REQUESTS"
  shows "fst (admissions key ts s) = replicate (length ts) True \<and>
         recorded key (snd (admissions key ts s)) = recorded key s @ ts"
  using assms
proof (induction ts arbitrary: s)
  case Nil
  then show ?case by simp
next
  case (Cons t ts)
  let ?s = "s\<lparr>now := t\<rparr>"
  have rec: "recorded key ?s = recorded key s" by (simp add: recorded_def)
  have "\<forall>x \<in> set (recorded key s). t - x < RATE_LIMIT_WINDOW"
  proof
    fix x assume "x \<in> set (recorded key s)"
    then have "lo \<le> x" and "t < lo + RATE_LIMIT_WINDOW" using Cons.prems(1) by auto
    then show "t - x < RATE_LIMIT_WINDOW" by linarith
  qed
  then have win: "in_window key ?s = recorded key s"
    by (simp add: in_window_def rec)
  have "length (in_window key ?s) < RATE_LIMIT_REQUESTS" using Cons.prems(2) win by simp
  then have c: "checkRateLimit key ?s =
      (True, ?s\<lparr>rateLimitMap := (rateLimitMap ?s)(key \<mapsto> recorded key s @ [t])\<rparr>)"
    using checkRateLimit_admits [of key ?s] win by simp
  let ?s1 = "?s\<lparr>rateLimitMap := (rateLimitMap ?s)(key \<mapsto> recorded key s @ [t])\<rparr>"
  have rec1: "recorded key ?s1 = recorded key s @ [t]" by (simp add: recorded_def)
  have p1: "\<forall>x \<in> set (recorded key ?s1) \<union> set ts. lo \<le> x \<and> x < lo + RATE_LIMIT_WINDOW"
    unfolding rec1 using Cons.prems(1) by auto
  have p2: "length (recorded key ?s1) + length ts \<le> RATE_LIMIT_REQUESTS"
    unfolding rec1 using Cons.prems(2) by simp
  have "fst (admissions key ts ?s1) = replicate (length ts) True \<and>
        recorded key (snd (admissions key ts ?s1)) = recorded key ?s1 @ ts"
    by (rule Cons.IH [OF p1 p2])
  then have "fst (admissions key ts ?s1) = replicate (length ts) True \<and>
        recorded key (snd (admissions key ts ?s1)) = recorded key s @ t # ts"
    unfolding rec1 by simp
  then show ?case using c by (auto simp: Let_def split: prod.splits)
qed

lemma hundred_and_first:
  assumes "recorded key s = []" "length ts = 100"
    and "\<forall>x \<in> set (ts @ [t']). lo \<le> x \<and> x < lo + RATE_LIMIT_WINDOW"
  shows "fst (admissions key (ts @ [t']) s) = replicate 100 True @ [False]"
proof -
  let ?s1 = "snd (admissions key ts s)"
  have run: "fst (admissions key ts s) = replicate (length ts) True \<and>
             recorded key ?s1 = recorded key s @ ts"
    using assms by (intro admissions_within_window [where lo = lo])
      (auto simp: RATE_LIMIT_REQUESTS_def)
  let ?s2 = "?s1\<lparr>now := t'\<rparr>"
  have "recorded key ?s2 = ts" using run assms(1) by (simp add: recorded_def)
  moreover have "\<forall>x \<in> set ts. t' - x < RATE_LIMIT_WINDOW"
  proof
    fix x assume "x \<in> set ts"
    then have "lo \<le> x" and "t' < lo + RATE_LIMIT_WINDOW" using assms(3) by auto
    then show "t' - x < RATE_LIMIT_WINDOW" by linarith
  qed
  ultimately have "in_window key ?s2 = ts" by (simp add: in_window_def)
  then have "checkRateLimit key ?s2 = (False, ?s2)"
    using assms(2) by (intro checkRateLimit_denies) (simp add: RATE_LIMIT_REQUESTS_def)
  then show ?thesis using run assms(2) by (simp add: admissions_append Let_def)
qed

section \<open>The gateway operations in terms of the loop\<close>

lemma spread_maxRetries [simp]:
  "maxRetries opts = Val m \<Longrightarrow> read_prop (maxRetries (spread DEFAULT_OPTIONS opts)) = Some m"
  by (simp add: spread_def)

text \<open>An admitted call of a CRUD operation, in terms of the result of the loop; and a call
  that is not admitted.\<close>

lemma select_admitted:
  assumes "fst (checkRateLimit (t @ '':select'') s)"
    and "withRetry_loop (select_attempt r t f opts) (retry_limit opts) 0 None
           (snd (checkRateLimit (t @ '':select'') s)) = (res, s2)"
  shows "middlewareSelect r t c f opts s =
     (case r_error res of
        Some err \<Rightarrow>
          (\<lparr>data = None, error = Some err,
            status = (if r_retries res \<ge> or_default (read_prop (maxRetries (spread DEFAULT_OPTIONS opts))) 3
                      then Retry_exhausted else Error),
            timestamp = now s, duration = now s2 - now s, retries = r_retries res\<rparr>,
           logMetric ''SELECT'' t (now s2 - now s) ''error'' (Some (message err)) s2)
      | None \<Rightarrow>
          (\<lparr>data = r_data res, error = None, status = Success,
            timestamp = now s, duration = now s2 - now s, retries = r_retries res\<rparr>,
           logMetric ''SELECT'' t (now s2 - now s) ''success'' None s2))"
proof -
  obtain b s1 where c: "checkRateLimit (t @ '':select'') s = (b, s1)"
    by (cases "checkRateLimit (t @ '':select'') s")
  with assms(1) have b: "b = True" by simp
  have w: "withRetry (select_attempt r t f opts)
             (read_prop (maxRetries (spread DEFAULT_OPTIONS opts))) s1 = (Inr res, s2)"
    using assms(2) c by (simp add: withRetry_eq retry_limit_def)
  show ?thesis
    using w by (simp add: middlewareSelect_def select_attempt_def c b Let_def split: option.splits)
qed

lemma select_denied:
  assumes "\<not> fst (checkRateLimit (t @ '':select'') s)"
  shows "middlewareSelect r t c f opts s =
     (\<lparr>data = None, error = Some (JsError ''Rate limit exceeded''), status = Error,
       timestamp = now s, duration = 0, retries = 0\<rparr>,
      logMetric ''SELECT'' t 0 ''rate_limited'' (Some ''Rate limit exceeded'') s)"
proof -
  have "checkRateLimit (t @ '':select'') s = (False, s)"
    using assms by (simp add: checkRateLimit_def Let_def split: if_splits)
  then show ?thesis by (simp add: middlewareSelect_def Let_def)
qed

lemma insert_admitted:
  assumes "fst (checkRateLimit (t @ '':insert'') s)"
    and "withRetry_loop (executeInsert r (spread DEFAULT_OPTIONS opts)) (retry_limit opts) 0 None
           (snd (checkRateLimit (t @ '':insert'') s)) = (res, s2)"
  shows "middlewareInsert r t p opts s =
     (case r_error res of
        Some err \<Rightarrow>
          (\<lparr>data = None, error = Some err,
            status = (if r_retries res \<ge> or_default (read_prop (maxRetries (spread DEFAULT_OPTIONS opts))) 3
                      then Retry_exhausted else Error),
            timestamp = now s, duration = now s2 - now s, retries = r_retries res\<rparr>,
           logMetric ''INSERT'' t (now s2 - now s) ''error'' (Some (message err)) s2)
      | None \<Rightarrow>
          (\<lparr>data = r_data res, error = None, status = Success,
            timestamp = now s, duration = now s2 - now s, retries = r_retries res\<rparr>,
           clearTable t (logMetric ''INSERT'' t (now s2 - now s) ''success'' None s2)))"
proof -
  obtain b s1 where c: "checkRateLimit (t @ '':insert'') s = (b, s1)"
    by (cases "checkRateLimit (t @ '':insert'') s")
  with assms(1) have b: "b = True" by simp
  have w: "withRetry (executeInsert r (spread DEFAULT_OPTIONS opts))
             (read_prop (maxRetries (spread DEFAULT_OPTIONS opts))) s1 = (Inr res, s2)"
    using assms(2) c by (simp add: withRetry_eq retry_limit_def)
  show ?thesis
    using w by (simp add: middlewareInsert_def c b Let_def split: option.splits)
qed

lemma insert_denied:
  assumes "\<not> fst (checkRateLimit (t @ '':insert'') s)"
  shows "middlewareInsert r t p opts s =
     (\<lparr>data = None, error = Some (JsError ''Rate limit exceeded''), status = Error,
       timestamp = now s, duration = 0, retries = 0\<rparr>,
      logMetric ''INSERT'' t 0 ''rate_limited'' (Some ''Rate limit exceeded'') s)"
proof -
  have "checkRateLimit (t @ '':insert'') s = (False, s)"
    using assms by (simp add: checkRateLimit_def Let_def split: if_splits)
  then show ?thesis by (simp add: middlewareInsert_def Let_def)
qed

lemma update_admitted:
  assumes "fst (checkRateLimit (t @ '':update'') s)"
    and "withRetry_loop (executeUpdate r (spread DEFAULT_OPTIONS opts)) (retry_limit opts) 0 None
           (snd (checkRateLimit (t @ '':update'') s)) = (res, s2)"
  shows "middlewareUpdate r t u f opts s =
     (case r_error res of
        Some err \<Rightarrow>
          (\<lparr>data = None, error = Some err,
            status = (if r_retries res \<ge> or_default (read_prop (maxRetries (spread DEFAULT_OPTIONS opts))) 3
                      then Retry_exhausted else Error),
            timestamp = now s, duration = now s2 - now s, retries = r_retries res\<rparr>,
           logMetric ''UPDATE'' t (now s2 - now s) ''error'' (Some (message err)) s2)
      | None \<Rightarrow>
          (\<lparr>data = r_data res, error = None, status = Success,
            timestamp = now s, duration = now s2 - now s, retries = r_retries res\<rparr>,
           clearTable t (logMetric ''UPDATE'' t (now s2 - now s) ''success'' None s2)))"
proof -
  obtain b s1 where c: "checkRateLimit (t @ '':update'') s = (b, s1)"
    by (cases "checkRateLimit (t @ '':update'') s")
  with assms(1) have b: "b = True" by simp
  have w: "withRetry (executeUpdate r (spread DEFAULT_OPTIONS opts))
             (read_prop (maxRetries (spread DEFAULT_OPTIONS opts))) s1 = (Inr res, s2)"
    using assms(2) c by (simp add: withRetry_eq retry_limit_def)
  show ?thesis
    using w by (simp add: middlewareUpdate_def c b Let_def split: option.splits)
qed

lemma update_denied:
  assumes "\<not> fst (checkRateLimit (t @ '':update'') s)"
  shows "middlewareUpdate r t u f opts s =
     (\<lparr>data = None, error = Some (JsError ''Rate limit exceeded''), status = Error,
       timestamp = now s, duration = 0, retries = 0\<rparr>,
      logMetric ''UPDATE'' t 0 ''rate_limited'' (Some ''Rate limit exceeded'') s)"
proof -
  have "checkRateLimit (t @ '':update'') s = (False, s)"
    using assms by (simp add: checkRateLimit_def Let_def split: if_splits)
  then show ?thesis by (simp add: middlewareUpdate_def Let_def)
qed

lemma delete_admitted:
  assumes "fst (checkRateLimit (t @ '':delete'') s)"
    and "withRetry_loop (executeDelete r (spread DEFAULT_OPTIONS opts)) (retry_limit opts) 0 None
           (snd (checkRateLimit (t @ '':delete'') s)) = (res, s2)"
  shows "middlewareDelete r t f opts s =
     (case r_error res of
        Some err \<Rightarrow>
          (\<lparr>data = None, error = Some err,
            status = (if r_retries res \<ge> or_default (read_prop (maxRetries (spread DEFAULT_OPTIONS opts))) 3
                      then Retry_exhausted else Error),
            timestamp = now s, duration = now s2 - now s, retries = r_retries res\<rparr>,
           logMetric ''DELETE'' t (now s2 - now s) ''error'' (Some (message err)) s2)
      | None \<Rightarrow>
          (\<lparr>data = None, error = None, status = Success,
            timestamp = now s, duration = now s2 - now s, retries = r_retries res\<rparr>,
           clearTable t (logMetric ''DELETE'' t (now s2 - now s) ''success'' None s2)))"
proof -
  obtain b s1 where c: "checkRateLimit (t @ '':delete'') s = (b, s1)"
    by (cases "checkRateLimit (t @ '':delete'') s")
  with assms(1) have b: "b = True" by simp
  have w: "withRetry (executeDelete r (spread DEFAULT_OPTIONS opts))
             (read_prop (maxRetries (spread DEFAULT_OPTIONS opts))) s1 = (Inr res, s2)"
    using assms(2) c by (simp add: withRetry_eq retry_limit_def)
  show ?thesis
    using w by (simp add: middlewareDelete_def c b Let_def split: option.splits)
qed

lemma delete_denied:
  assumes "\<not> fst (checkRateLimit (t @ '':delete'') s)"
  shows "middlewareDelete r t f opts s =
     (\<lparr>data = None, error = Some (JsError ''Rate limit exceeded''), status = Error,
       timestamp = now s, duration = 0, retries = 0\<rparr>,
      logMetric ''DELETE'' t 0 ''rate_limited'' (Some ''Rate limit exceeded'') s)"
proof -
  have "checkRateLimit (t @ '':delete'') s = (False, s)"
    using assms by (simp add: checkRateLimit_def Let_def split: if_splits)
  then show ?thesis by (simp add: middlewareDelete_def Let_def)
qed

text \<open>A call of an authentication operation, in terms of the result of the loop.\<close>

lemma signIn_result:
  assumes "withRetry_loop (executeSignIn r) (retry_limit opts) 0 None s = (res, s2)"
  shows "middlewareAuthSignIn r e pw opts s =
     (case r_error res of
        Some err \<Rightarrow>
          (\<lparr>data = None, error = Some err, status = Error,
            timestamp = now s, duration = now s2 - now s, retries = r_retries res\<rparr>,
           logMetric ''AUTH:SIGNIN'' ''auth'' (now s2 - now s) ''error'' (Some (message err)) s2)
      | None \<Rightarrow>
          (\<lparr>data = r_data res, error = None, status = Success,
            timestamp = now s, duration = now s2 - now s, retries = r_retries res\<rparr>,
           logMetric ''AUTH:SIGNIN'' ''auth'' (now s2 - now s) ''success'' None s2))"
proof -
  have w: "withRetry (executeSignIn r)
             (read_prop (maxRetries (spread DEFAULT_OPTIONS opts))) s = (Inr res, s2)"
    using assms by (simp add: withRetry_eq retry_limit_def)
  show ?thesis
    using w by (simp add: middlewareAuthSignIn_def Let_def split: option.splits)
qed

lemma signUp_result:
  assumes "withRetry_loop (executeSignUp r) (retry_limit opts) 0 None s = (res, s2)"
  shows "middlewareAuthSignUp r e pw opts s =
     (case r_error res of
        Some err \<Rightarrow>
          (\<lparr>data = None, error = Some err, status = Error,
            timestamp = now s, duration = now s2 - now s, retries = r_retries res\<rparr>,
           logMetric ''AUTH:SIGNUP'' ''auth'' (now s2 - now s) ''error'' (Some (message err)) s2)
      | None \<Rightarrow>
          (\<lparr>data = r_data res, error = None, status = Success,
            timestamp = now s, duration = now s2 - now s, retries = r_retries res\<rparr>,
           logMetric ''AUTH:SIGNUP'' ''auth'' (now s2 - now s) ''success'' None s2))"
proof -
  have w: "withRetry (executeSignUp r)
             (read_prop (maxRetries (spread DEFAULT_OPTIONS opts))) s = (Inr res, s2)"
    using assms by (simp add: withRetry_eq retry_limit_def)
  show ?thesis
    using w by (simp add: middlewareAuthSignUp_def Let_def split: option.splits)
qed

lemma signOut_result:
  assumes "withRetry_loop (executeSignOut r) (retry_limit opts) 0 None s = (res, s2)"
  shows "middlewareAuthSignOut r tok opts s =
     (case r_error res of
        Some err \<Rightarrow>
          (\<lparr>data = None, error = Some err, status = Error,
            timestamp = now s, duration = now s2 - now s, retries = r_retries res\<rparr>,
           logMetric ''AUTH:SIGNOUT'' ''auth'' (now s2 - now s) ''error'' (Some (message err)) s2)
      | None \<Rightarrow>
          (\<lparr>data = None, error = None, status = Success,
            timestamp = now s, duration = now s2 - now s, retries = r_retries res\<rparr>,
           (logMetric ''AUTH:SIGNOUT'' ''auth'' (now s2 - now s) ''success'' None s2)\<lparr>requestCache := []\<rparr>))"
proof -
  have w: "withRetry (executeSignOut r)
             (read_prop (maxRetries (spread DEFAULT_OPTIONS opts))) s = (Inr res, s2)"
    using assms by (simp add: withRetry_eq retry_limit_def)
  show ?thesis
    using w by (simp add: middlewareAuthSignOut_def Let_def split: option.splits)
qed

section \<open>Calls in which every attempt fails\<close>

text \<open>The number of retries in force when the options give one, and the test
  \<^verbatim>\<open>retries >= (mergedOptions.maxRetries || 3)\<close> when all retries are used.\<close>

lemma retry_limit_Val: "maxRetries opts = Val m \<Longrightarrow> retry_limit opts = m"
  by (simp add: retry_limit_def)

lemma exhausted_test:
  "retry_limit opts = m \<Longrightarrow>
   (or_default (read_prop (maxRetries (spread DEFAULT_OPTIONS opts))) 3 \<le> m) = (m \<noteq> 0)"
  by (auto simp: retry_limit_def split: option.splits)

lemma select_attempt_fails:
  assumes "\<And>s. isl (fst (executeQuery r (spread DEFAULT_OPTIONS opts) s))"
    and "\<not> (truthy_bool (read_prop (cache (spread DEFAULT_OPTIONS opts))) \<and>
            cache_fresh (generateCacheKey t ''select'' f)
              (read_prop (cacheDuration (spread DEFAULT_OPTIONS opts))) s)"
  shows "attempt_state (select_attempt r t f opts) i s =
           attempt_state (executeQuery r (spread DEFAULT_OPTIONS opts)) i s
         \<and> select_attempt r t f opts (attempt_state (executeQuery r (spread DEFAULT_OPTIONS opts)) i s) =
           executeQuery r (spread DEFAULT_OPTIONS opts)
             (attempt_state (executeQuery r (spread DEFAULT_OPTIONS opts)) i s)"
proof -
  let ?mo = "spread DEFAULT_OPTIONS opts"
  let ?q = "executeQuery r ?mo"
  have same: "select_attempt r t f opts (attempt_state ?q j s) = ?q (attempt_state ?q j s)" for j
  proof (cases "truthy_bool (read_prop (cache ?mo))")
    case False
    then show ?thesis by (simp add: select_attempt_def)
  next
    case True
    then have "\<not> cache_fresh (generateCacheKey t ''select'' f) (read_prop (cacheDuration ?mo)) s"
      using assms(2) by simp
    then have "\<not> cache_fresh (generateCacheKey t ''select'' f) (read_prop (cacheDuration ?mo))
                 (attempt_state ?q j s)"
      by (rule not_fresh_later) (simp_all add: attempt_state_cache attempt_state_later)
    then show ?thesis using True assms(1) by (simp add: select_attempt_def withCache_miss_fail)
  qed
  have "attempt_state (select_attempt r t f opts) i s = attempt_state ?q i s"
    by (induction i) (simp_all add: same)
  then show ?thesis using same by simp
qed

lemma select_all_fail:
  assumes "retry_limit opts = m" "0 \<le> m"
    and "fst (checkRateLimit (t @ '':select'') s)"
    and "\<And>s'. isl (fst (executeQuery r (spread DEFAULT_OPTIONS opts) s'))"
    and "\<not> (truthy_bool (read_prop (cache (spread DEFAULT_OPTIONS opts))) \<and>
            cache_fresh (generateCacheKey t ''select'' f)
              (read_prop (cacheDuration (spread DEFAULT_OPTIONS opts))) s)"
  shows "middlewareSelect r t c f opts s =
     (let L = final_attempt (executeQuery r (spread DEFAULT_OPTIONS opts)) m
                (snd (checkRateLimit (t @ '':select'') s));
          err = toError (projl (fst L))
      in (\<lparr>data = None, error = Some err,
           status = (if m = 0 then Error else Retry_exhausted),
           timestamp = now s, duration = now (snd L) - now s, retries = m\<rparr>,
          logMetric ''SELECT'' t (now (snd L) - now s) ''error'' (Some (message err)) (snd L)))"
proof -
  let ?q = "executeQuery r (spread DEFAULT_OPTIONS opts)"
  let ?a = "select_attempt r t f opts"
  let ?s1 = "snd (checkRateLimit (t @ '':select'') s)"
  have lim: "retry_limit opts = m" by (rule assms(1))
  have nf: "\<not> (truthy_bool (read_prop (cache (spread DEFAULT_OPTIONS opts))) \<and>
            cache_fresh (generateCacheKey t ''select'' f)
              (read_prop (cacheDuration (spread DEFAULT_OPTIONS opts))) ?s1)"
    using assms(5) by (simp add: cache_fresh_def split: option.splits)
  note same = select_attempt_fails [of r opts t f ?s1, OF assms(4) nf]
  have fails: "\<forall>i\<le>nat m. isl (fst (?a (attempt_state ?a i ?s1)))"
    using same assms(4) by simp
  have "withRetry_loop ?a m 0 None ?s1 =
          (\<lparr>r_data = None, r_error = last_error ?a (Suc (nat m)) ?s1, r_retries = m\<rparr>,
           snd (?a (attempt_state ?a (nat m) ?s1)))"
    using loop_all_fail [of m ?a ?s1] assms(2) fails by simp
  then have "withRetry_loop ?a m 0 None ?s1 =
          (\<lparr>r_data = None, r_error = last_error ?q (Suc (nat m)) ?s1, r_retries = m\<rparr>,
           snd (?q (attempt_state ?q (nat m) ?s1)))"
    using same by simp
  then show ?thesis
    using select_admitted [OF assms(3), of r f opts _ _ c] assms(1,2)
    by (simp add: lim exhausted_test [OF lim] final_attempt_def Let_def)
qed

lemma insert_all_fail:
  assumes "retry_limit opts = m" "0 \<le> m"
    and "fst (checkRateLimit (t @ '':insert'') s)"
    and "\<And>s'. isl (fst (executeInsert r (spread DEFAULT_OPTIONS opts) s'))"
  shows "middlewareInsert r t p opts s =
     (let L = final_attempt (executeInsert r (spread DEFAULT_OPTIONS opts)) m (snd (checkRateLimit (t @ '':insert'') s));
          err = toError (projl (fst L))
      in (\<lparr>data = None, error = Some err,
           status = (if m = 0 then Error else Retry_exhausted),
           timestamp = now s, duration = now (snd L) - now s, retries = m\<rparr>,
          logMetric ''INSERT'' t (now (snd L) - now s) ''error'' (Some (message err)) (snd L)))"
proof -
  have lim: "retry_limit opts = m" by (rule assms(1))
  show ?thesis
    using insert_admitted [OF assms(3), of r opts _ _ p ]
      loop_all_fail_always(1) [of m "executeInsert r (spread DEFAULT_OPTIONS opts)", OF assms(2) assms(4)] assms(1,2)
    by (simp add: lim exhausted_test [OF lim] final_attempt_def Let_def)
qed

lemma update_all_fail:
  assumes "retry_limit opts = m" "0 \<le> m"
    and "fst (checkRateLimit (t @ '':update'') s)"
    and "\<And>s'. isl (fst (executeUpdate r (spread DEFAULT_OPTIONS opts) s'))"
  shows "middlewareUpdate r t u f opts s =
     (let L = final_attempt (executeUpdate r (spread DEFAULT_OPTIONS opts)) m (snd (checkRateLimit (t @ '':update'') s));
          err = toError (projl (fst L))
      in (\<lparr>data = None, error = Some err,
           status = (if m = 0 then Error else Retry_exhausted),
           timestamp = now s, duration = now (snd L) - now s, retries = m\<rparr>,
          logMetric ''UPDATE'' t (now (snd L) - now s) ''error'' (Some (message err)) (snd L)))"
proof -
  have lim: "retry_limit opts = m" by (rule assms(1))
  show ?thesis
    using update_admitted [OF assms(3), of r opts _ _ u f ]
      loop_all_fail_always(1) [of m "executeUpdate r (spread DEFAULT_OPTIONS opts)", OF assms(2) assms(4)] assms(1,2)
    by (simp add: lim exhausted_test [OF lim] final_attempt_def Let_def)
qed

lemma delete_all_fail:
  assumes "retry_limit opts = m" "0 \<le> m"
    and "fst (checkRateLimit (t @ '':delete'') s)"
    and "\<And>s'. isl (fst (executeDelete r (spread DEFAULT_OPTIONS opts) s'))"
  shows "middlewareDelete r t f opts s =
     (let L = final_attempt (executeDelete r (spread DEFAULT_OPTIONS opts)) m (snd (checkRateLimit (t @ '':delete'') s));
          err = toError (projl (fst L))
      in (\<lparr>data = None, error = Some err,
           status = (if m = 0 then Error else Retry_exhausted),
           timestamp = now s, duration = now (snd L) - now s, retries = m\<rparr>,
          logMetric ''DELETE'' t (now (snd L) - now s) ''error'' (Some (message err)) (snd L)))"
proof -
  have lim: "retry_limit opts = m" by (rule assms(1))
  show ?thesis
    using delete_admitted [OF assms(3), of r opts _ _ f ]
      loop_all_fail_always(1) [of m "executeDelete r (spread DEFAULT_OPTIONS opts)", OF assms(2) assms(4)] assms(1,2)
    by (simp add: lim exhausted_test [OF lim] final_attempt_def Let_def)
qed

lemma signIn_all_fail:
  assumes "retry_limit opts = m" "0 \<le> m"
    and "\<And>s'. isl (fst (executeSignIn r s'))"
  shows "middlewareAuthSignIn r e pw opts s =
     (let L = final_attempt (executeSignIn r) m s;
          err = toError (projl (fst L))
      in (\<lparr>data = None, error = Some err, status = Error,
           timestamp = now s, duration = now (snd L) - now s, retries = m\<rparr>,
          logMetric ''AUTH:SIGNIN'' ''auth'' (now (snd L) - now s) ''error'' (Some (message err)) (snd L)))"
proof -
  have lim: "retry_limit opts = m" by (rule assms(1))
  have "withRetry_loop (executeSignIn r) m 0 None s =
          (\<lparr>r_data = None, r_error = last_error (executeSignIn r) (Suc (nat m)) s, r_retries = m\<rparr>,
           snd (executeSignIn r (attempt_state (executeSignIn r) (nat m) s)))"
    using loop_all_fail [of m "executeSignIn r" s] assms(2,3) by simp
  then show ?thesis
    using signIn_result [of r opts s _ _ e pw ]
    by (simp add: lim exhausted_test [OF lim] final_attempt_def Let_def)
qed

lemma signUp_all_fail:
  assumes "retry_limit opts = m" "0 \<le> m"
    and "\<And>s'. isl (fst (executeSignUp r s'))"
  shows "middlewareAuthSignUp r e pw opts s =
     (let L = final_attempt (executeSignUp r) m s;
          err = toError (projl (fst L))
      in (\<lparr>data = None, error = Some err, status = Error,
           timestamp = now s, duration = now (snd L) - now s, retries = m\<rparr>,
          logMetric ''AUTH:SIGNUP'' ''auth'' (now (snd L) - now s) ''error'' (Some (message err)) (snd L)))"
proof -
  have lim: "retry_limit opts = m" by (rule assms(1))
  have "withRetry_loop (executeSignUp r) m 0 None s =
          (\<lparr>r_data = None, r_error = last_error (executeSignUp r) (Suc (nat m)) s, r_retries = m\<rparr>,
           snd (executeSignUp r (attempt_state (executeSignUp r) (nat m) s)))"
    using loop_all_fail [of m "executeSignUp r" s] assms(2,3) by simp
  then show ?thesis
    using signUp_result [of r opts s _ _ e pw ]
    by (simp add: lim exhausted_test [OF lim] final_attempt_def Let_def)
qed

lemma signOut_all_fail:
  assumes "retry_limit opts = m" "0 \<le> m"
    and "\<And>s'. isl (fst (executeSignOut r s'))"
  shows "middlewareAuthSignOut r tok opts s =
     (let L = final_attempt (executeSignOut r) m s;
          err = toError (projl (fst L))
      in (\<lparr>data = None, error = Some err, status = Error,
           timestamp = now s, duration = now (snd L) - now s, retries = m\<rparr>,
          logMetric ''AUTH:SIGNOUT'' ''auth'' (now (snd L) - now s) ''error'' (Some (message err)) (snd L)))"
proof -
  have lim: "retry_limit opts = m" by (rule assms(1))
  have "withRetry_loop (executeSignOut r) m 0 None s =
          (\<lparr>r_data = None, r_error = last_error (executeSignOut r) (Suc (nat m)) s, r_retries = m\<rparr>,
           snd (executeSignOut r (attempt_state (executeSignOut r) (nat m) s)))"
    using loop_all_fail [of m "executeSignOut r" s] assms(2,3) by simp
  then show ?thesis
    using signOut_result [of r opts s _ _ tok ]
    by (simp add: lim exhausted_test [OF lim] final_attempt_def Let_def)
qed

section \<open>Evaluation at concrete inputs\<close>

lemmas eval_defs0 =
  withRetry_def withRetry_loop.simps execute_defs await_def
  checkRateLimit_def logMetric_def clearTable_def
  DEFAULT_OPTIONS_def spread_def no_options_def retry3_def world0_def
  users_entry_def remote_down_def remote_up_def remote_flaky_def remote_once_def pg_failure_def pg_rows_def
  http_ok_def RATE_LIMIT_REQUESTS_def RATE_LIMIT_WINDOW_def Let_def

text \<open>The state after the first read.\<close>

lemma world_cached_eq:
  "world_cached =
     \<lparr>now = 10, calls = 1,
      requestMetrics = [\<lparr>m_method = ''SELECT'', m_table = ''users'', m_timestamp = 10,
                         m_duration = 10, m_status = ''success'', m_error = None\<rparr>],
      requestCache = [users_entry],
      rateLimitMap = [''users:select'' \<mapsto> [0]]\<rparr>"
  by (simp add: world_cached_def middlewareSelect_def withCache_def generateCacheKey_def
        eval_defs0)

lemmas eval_defs = eval_defs0 world_cached_eq

lemma down_fails:
  "isl (fst (executeQuery remote_down mo s))"
  "isl (fst (executeInsert remote_down mo s))"
  "isl (fst (executeUpdate remote_down mo s))"
  "isl (fst (executeDelete remote_down mo s))"
  "isl (fst (executeSignIn remote_down s))"
  "isl (fst (executeSignUp remote_down s))"
  "isl (fst (executeSignOut remote_down s))"
  by (simp_all add: executeSignIn_def executeSignUp_def executeSignOut_def eval_defs)

lemma world_full_window:
  "in_window ''users:select'' world_full = replicate 100 50000"
  "recorded ''users:select'' world_full = replicate 100 50000"
  by (simp_all add: in_window_def recorded_def world_full_def world0_def RATE_LIMIT_WINDOW_def)

lemma users_key: "generateCacheKey ''users'' ''select'' None = ''users:select:{}''"
  by (simp add: generateCacheKey_def)

lemma first_read:
  "data (fst (middlewareSelect remote_up ''users'' ''*'' None no_options world0)) =
     Some (JArr [JNum 7])"
  "now world_read = 1010"
  "calls world_read = 1"
  "map_of (requestCache world_read) ''users:select:{}'' =
     Some \<lparr>entry_data = JArr [JNum 7], entry_timestamp = 0\<rparr>"
  "fst (checkRateLimit ''users:select'' world_read)"
  by (simp_all add: world_read_def middlewareSelect_def withCache_def users_key eval_defs)

lemma later_read:
  "map_of (requestCache world_later) ''users:select:{}'' = None"
  "fst (checkRateLimit ''users:select'' world_later)"
  "fst (executeQuery remote_up (spread DEFAULT_OPTIONS no_options)
          (snd (checkRateLimit ''users:select'' world_later))) = Inr (JArr [JNum 7])"
  "now world_later = 500"
  "now world_reread = 1510"
  "requestCache world_reread =
     requestCache (snd (middlewareSelect remote_up ''users'' ''*'' None no_options world_later))"
  "fst (checkRateLimit ''users:select'' world_reread)"
  by (simp_all add: world_later_def world_reread_def middlewareSelect_def withCache_def users_key
        eval_defs)

lemma digit_chars:
  "char_of (49::nat) = CHR ''1''" "char_of (50::nat) = CHR ''2''"
  by code_simp+

section \<open>Invalidation of the cache by mutations\<close>

lemma insert_cache:
  "(status (fst (middlewareInsert r t p opts s)) = Success \<longrightarrow>
      requestCache (snd (middlewareInsert r t p opts s)) =
        filter (\<lambda>e. \<not> prefix (t @ '':'') (fst e)) (requestCache s))
   \<and> (status (fst (middlewareInsert r t p opts s)) \<noteq> Success \<longrightarrow>
      requestCache (snd (middlewareInsert r t p opts s)) = requestCache s)"
proof (cases "fst (checkRateLimit (t @ '':insert'') s)")
  case False
  then show ?thesis by (simp add: insert_denied)
next
  case True
  obtain res s2 where L: "withRetry_loop (executeInsert r (spread DEFAULT_OPTIONS opts)) (retry_limit opts) 0 None
       (snd (checkRateLimit (t @ '':insert'') s)) = (res, s2)"
    by (cases "withRetry_loop (executeInsert r (spread DEFAULT_OPTIONS opts)) (retry_limit opts) 0 None
       (snd (checkRateLimit (t @ '':insert'') s))")
  have "requestCache (snd (withRetry_loop (executeInsert r (spread DEFAULT_OPTIONS opts)) (retry_limit opts) 0 None
       (snd (checkRateLimit (t @ '':insert'') s)))) =
       requestCache (snd (checkRateLimit (t @ '':insert'') s))"
    by (rule loop_frame) simp_all
  then have c2: "requestCache s2 = requestCache s" using L by simp
  show ?thesis
    by (cases "r_error res") (simp_all add: insert_admitted [OF True L] clearTable_cache c2)
qed

lemma update_cache:
  "(status (fst (middlewareUpdate r t u g opts s)) = Success \<longrightarrow>
      requestCache (snd (middlewareUpdate r t u g opts s)) =
        filter (\<lambda>e. \<not> prefix (t @ '':'') (fst e)) (requestCache s))
   \<and> (status (fst (middlewareUpdate r t u g opts s)) \<noteq> Success \<longrightarrow>
      requestCache (snd (middlewareUpdate r t u g opts s)) = requestCache s)"
proof (cases "fst (checkRateLimit (t @ '':update'') s)")
  case False
  then show ?thesis by (simp add: update_denied)
next
  case True
  obtain res s2 where L: "withRetry_loop (executeUpdate r (spread DEFAULT_OPTIONS opts)) (retry_limit opts) 0 None
       (snd (checkRateLimit (t @ '':update'') s)) = (res, s2)"
    by (cases "withRetry_loop (executeUpdate r (spread DEFAULT_OPTIONS opts)) (retry_limit opts) 0 None
       (snd (checkRateLimit (t @ '':update'') s))")
  have "requestCache (snd (withRetry_loop (executeUpdate r (spread DEFAULT_OPTIONS opts)) (retry_limit opts) 0 None
       (snd (checkRateLimit (t @ '':update'') s)))) =
       requestCache (snd (checkRateLimit (t @ '':update'') s))"
    by (rule loop_frame) simp_all
  then have c2: "requestCache s2 = requestCache s" using L by simp
  show ?thesis
    by (cases "r_error res") (simp_all add: update_admitted [OF True L] clearTable_cache c2)
qed

lemma delete_cache:
  "(status (fst (middlewareDelete r t g opts s)) = Success \<longrightarrow>
      requestCache (snd (middlewareDelete r t g opts s)) =
        filter (\<lambda>e. \<not> prefix (t @ '':'') (fst e)) (requestCache s))
   \<and> (status (fst (middlewareDelete r t g opts s)) \<noteq> Success \<longrightarrow>
      requestCache (snd (middlewareDelete r t g opts s)) = requestCache s)"
proof (cases "fst (checkRateLimit (t @ '':delete'') s)")
  case False
  then show ?thesis by (simp add: delete_denied)
next
  case True
  obtain res s2 where L: "withRetry_loop (executeDelete r (spread DEFAULT_OPTIONS opts)) (retry_limit opts) 0 None
       (snd (checkRateLimit (t @ '':delete'') s)) = (res, s2)"
    by (cases "withRetry_loop (executeDelete r (spread DEFAULT_OPTIONS opts)) (retry_limit opts) 0 None
       (snd (checkRateLimit (t @ '':delete'') s))")
  have "requestCache (snd (withRetry_loop (executeDelete r (spread DEFAULT_OPTIONS opts)) (retry_limit opts) 0 None
       (snd (checkRateLimit (t @ '':delete'') s)))) =
       requestCache (snd (checkRateLimit (t @ '':delete'') s))"
    by (rule loop_frame) simp_all
  then have c2: "requestCache s2 = requestCache s" using L by simp
  show ?thesis
    by (cases "r_error res") (simp_all add: delete_admitted [OF True L] clearTable_cache c2)
qed

text \<open>
  Claim C1, amended. When \<open>middlewareInsert\<close>, \<open>middlewareUpdate\<close> or \<open>middlewareDelete\<close>
  on a table \<open>T\<close> returns with status \<open>success\<close>, the request cache holds no entry whose
  key starts with \<open>T:\<close> (it holds exactly the entries it had for other prefixes). When
  the call returns with any other status (the rate limit was hit, or every attempt
  failed), the request cache is as it was before the call.
\<close>

theorem mutation_invalidates_on_success:
  "(status (fst (middlewareInsert r t p opts s)) = Success \<longrightarrow>
      filter (\<lambda>e. prefix (t @ '':'') (fst e)) (requestCache (snd (middlewareInsert r t p opts s))) = [] \<and>
      requestCache (snd (middlewareInsert r t p opts s)) =
        filter (\<lambda>e. \<not> prefix (t @ '':'') (fst e)) (requestCache s))
   \<and> (status (fst (middlewareInsert r t p opts s)) \<noteq> Success \<longrightarrow>
      requestCache (snd (middlewareInsert r t p opts s)) = requestCache s)
   \<and> (status (fst (middlewareUpdate r t u g opts s)) = Success \<longrightarrow>
      filter (\<lambda>e. prefix (t @ '':'') (fst e)) (requestCache (snd (middlewareUpdate r t u g opts s))) = [] \<and>
      requestCache (snd (middlewareUpdate r t u g opts s)) =
        filter (\<lambda>e. \<not> prefix (t @ '':'') (fst e)) (requestCache s))
   \<and> (status (fst (middlewareUpdate r t u g opts s)) \<noteq> Success \<longrightarrow>
      requestCache (snd (middlewareUpdate r t u g opts s)) = requestCache s)
   \<and> (status (fst (middlewareDelete r t g opts s)) = Success \<longrightarrow>
      filter (\<lambda>e. prefix (t @ '':'') (fst e)) (requestCache (snd (middlewareDelete r t g opts s))) = [] \<and>
      requestCache (snd (middlewareDelete r t g opts s)) =
        filter (\<lambda>e. \<not> prefix (t @ '':'') (fst e)) (requestCache s))
   \<and> (status (fst (middlewareDelete r t g opts s)) \<noteq> Success \<longrightarrow>
      requestCache (snd (middlewareDelete r t g opts s)) = requestCache s)"
  using insert_cache [of r t p opts s] update_cache [of r t u g opts s]
    delete_cache [of r t g opts s]
  by simp

text \<open>An insert that succeeds empties the cache of \<open>users\<close>; a delete whose attempts all fail
  leaves the entry where it is.\<close>

theorem mutation_invalidates_on_success_witness:
  "status (fst (middlewareInsert remote_up ''users'' JNull no_options world_cached)) = Success
   \<and> requestCache world_cached = [users_entry]
   \<and> requestCache (snd (middlewareInsert remote_up ''users'' JNull no_options world_cached)) = []
   \<and> status (fst (middlewareDelete remote_once ''users'' [] no_options world_cached)) \<noteq> Success
   \<and> requestCache (snd (middlewareDelete remote_once ''users'' [] no_options world_cached)) =
       [users_entry]"
proof -
  have a: "status (fst (middlewareInsert remote_up ''users'' JNull no_options world_cached)) = Success"
    by (simp add: middlewareInsert_def eval_defs)
  have b: "status (fst (middlewareDelete remote_once ''users'' [] no_options world_cached)) \<noteq> Success"
    by (simp add: middlewareDelete_def eval_defs)
  have c: "requestCache world_cached = [users_entry]" by (simp add: world_cached_eq)
  have d: "prefix ''users:'' (fst users_entry)" by (simp add: users_entry_def)
  show ?thesis
    using mutation_invalidates_on_success
      [where r = remote_up and t = "''users''" and p = JNull and opts = no_options
         and s = world_cached]
      mutation_invalidates_on_success
      [where r = remote_once and t = "''users''" and g = "[]" and opts = no_options
         and s = world_cached]
      a b c d
    by simp
qed

text \<open>A first read of \<open>users\<close> leaves the entry \<open>users:select:{}\<close> in the cache. Then an
  insert into \<open>users\<close> with the default options, every query answered with an error:
  after four attempts the call returns \<open>retry_exhausted\<close>, and the cache still holds the
  entry.\<close>

theorem mutation_invalidates_counterexample:
  "requestCache world_cached = [users_entry]
   \<and> status (fst (middlewareInsert remote_once ''users'' JNull no_options world_cached)) = Retry_exhausted
   \<and> retries (fst (middlewareInsert remote_once ''users'' JNull no_options world_cached)) = 3
   \<and> requestCache (snd (middlewareInsert remote_once ''users'' JNull no_options world_cached)) =
       [users_entry]
   \<and> prefix ''users:'' (fst users_entry)"
  by (simp add: middlewareInsert_def eval_defs)

section \<open>Sign-out and the cache\<close>







section \<open>Exhausted retries\<close>

text \<open>
  Claim C3, amended. Let \<open>m \<ge> 0\<close> be the number of retries in force for a call: the
  \<open>maxRetries\<close> of its options, or the default 3 when the options give none. When every
  attempt fails, an admitted call of \<open>middlewareSelect\<close> (with no fresh cache entry to
  answer from), \<open>middlewareInsert\<close>, \<open>middlewareUpdate\<close> or \<open>middlewareDelete\<close> sends
  exactly \<open>m + 1\<close> queries and returns the failure of the last attempt with
  \<open>retries = m\<close>, and with status \<open>retry_exhausted\<close> when \<open>m \<ge> 1\<close>. The three
  authentication operations also stop after the attempt with index \<open>m\<close> and return its
  failure with \<open>retries = m\<close>, with status \<open>error\<close>.
\<close>

theorem retry_exhaustion:
  assumes "retry_limit opts = m" and "0 \<le> m"
  shows
   "(fst (checkRateLimit (t @ '':select'') s) \<and>
     (\<forall>s'. isl (fst (executeQuery r (spread DEFAULT_OPTIONS opts) s'))) \<and>
     \<not> (truthy_bool (read_prop (cache (spread DEFAULT_OPTIONS opts))) \<and>
        cache_fresh (generateCacheKey t ''select'' f)
          (read_prop (cacheDuration (spread DEFAULT_OPTIONS opts))) s) \<longrightarrow>
     (let R = middlewareSelect r t c f opts s;
          L = final_attempt (executeQuery r (spread DEFAULT_OPTIONS opts)) m
                (snd (checkRateLimit (t @ '':select'') s))
      in retries (fst R) = m \<and> data (fst R) = None \<and>
         error (fst R) = Some (toError (projl (fst L))) \<and>
         calls (snd R) = calls s + nat m + 1 \<and>
         (1 \<le> m \<longrightarrow> status (fst R) = Retry_exhausted)))
    \<and> (fst (checkRateLimit (t @ '':insert'') s) \<and>
     (\<forall>s'. isl (fst (executeInsert r (spread DEFAULT_OPTIONS opts) s'))) \<longrightarrow>
     (let R = middlewareInsert r t p opts s;
          L = final_attempt (executeInsert r (spread DEFAULT_OPTIONS opts)) m
                (snd (checkRateLimit (t @ '':insert'') s))
      in retries (fst R) = m \<and> data (fst R) = None \<and>
         error (fst R) = Some (toError (projl (fst L))) \<and>
         calls (snd R) = calls s + nat m + 1 \<and>
         (1 \<le> m \<longrightarrow> status (fst R) = Retry_exhausted)))
    \<and> (fst (checkRateLimit (t @ '':update'') s) \<and>
     (\<forall>s'. isl (fst (executeUpdate r (spread DEFAULT_OPTIONS opts) s'))) \<longrightarrow>
     (let R = middlewareUpdate r t u g opts s;
          L = final_attempt (executeUpdate r (spread DEFAULT_OPTIONS opts)) m
                (snd (checkRateLimit (t @ '':update'') s))
      in retries (fst R) = m \<and> data (fst R) = None \<and>
         error (fst R) = Some (toError (projl (fst L))) \<and>
         calls (snd R) = calls s + nat m + 1 \<and>
         (1 \<le> m \<longrightarrow> status (fst R) = Retry_exhausted)))
    \<and> (fst (checkRateLimit (t @ '':delete'') s) \<and>
     (\<forall>s'. isl (fst (executeDelete r (spread DEFAULT_OPTIONS opts) s'))) \<longrightarrow>
     (let R = middlewareDelete r t g opts s;
          L = final_attempt (executeDelete r (spread DEFAULT_OPTIONS opts)) m
                (snd (checkRateLimit (t @ '':delete'') s))
      in retries (fst R) = m \<and> data (fst R) = None \<and>
         error (fst R) = Some (toError (projl (fst L))) \<and>
         calls (snd R) = calls s + nat m + 1 \<and>
         (1 \<le> m \<longrightarrow> status (fst R) = Retry_exhausted)))
    \<and> ((\<forall>s'. isl (fst (executeSignIn r s'))) \<longrightarrow>
     (let R = middlewareAuthSignIn r e pw opts s;
          L = final_attempt (executeSignIn r) m s
      in status (fst R) = Error \<and> retries (fst R) = m \<and> data (fst R) = None \<and>
         error (fst R) = Some (toError (projl (fst L))) \<and> calls (snd R) = calls (snd L)))
    \<and> ((\<forall>s'. isl (fst (executeSignUp r s'))) \<longrightarrow>
     (let R = middlewareAuthSignUp r e pw opts s;
          L = final_attempt (executeSignUp r) m s
      in status (fst R) = Error \<and> retries (fst R) = m \<and> data (fst R) = None \<and>
         error (fst R) = Some (toError (projl (fst L))) \<and> calls (snd R) = calls (snd L)))
    \<and> ((\<forall>s'. isl (fst (executeSignOut r s'))) \<longrightarrow>
     (let R = middlewareAuthSignOut r tok opts s;
          L = final_attempt (executeSignOut r) m s
      in status (fst R) = Error \<and> retries (fst R) = m \<and> data (fst R) = None \<and>
         error (fst R) = Some (toError (projl (fst L))) \<and> calls (snd R) = calls (snd L)))"
proof -
  note a = assms
  show ?thesis
    using select_all_fail [OF a, of t s r f c] insert_all_fail [OF a, of t s r p]
      update_all_fail [OF a, of t s r u g] delete_all_fail [OF a, of t s r g]
      signIn_all_fail [OF a, of r e pw s] signUp_all_fail [OF a, of r e pw s]
      signOut_all_fail [OF a, of r tok s]
    by (simp add: Let_def crud_calls)
qed

text \<open>Calls without options (so with three retries) against a remote side that is down:
  an insert sends four queries and reports \<open>retry_exhausted\<close>, a sign-out reports
  \<open>error\<close>.\<close>

theorem retry_exhaustion_witness:
  "retry_limit no_options = 3 \<and> (0::int) \<le> 3
   \<and> fst (checkRateLimit ''users:insert'' world0)
   \<and> (\<forall>s'. isl (fst (executeInsert remote_down (spread DEFAULT_OPTIONS no_options) s')))
   \<and> status (fst (middlewareInsert remote_down ''users'' JNull no_options world0)) = Retry_exhausted
   \<and> retries (fst (middlewareInsert remote_down ''users'' JNull no_options world0)) = 3
   \<and> calls (snd (middlewareInsert remote_down ''users'' JNull no_options world0)) = 4
   \<and> (\<forall>s'. isl (fst (executeSignOut remote_down s')))
   \<and> status (fst (middlewareAuthSignOut remote_down None no_options world0)) = Error
   \<and> retries (fst (middlewareAuthSignOut remote_down None no_options world0)) = 3"
proof -
  have h1: "retry_limit no_options = 3"
    by (simp add: retry_limit_def no_options_def spread_def DEFAULT_OPTIONS_def)
  have h2: "(0::int) \<le> 3" by simp
  have h3: "fst (checkRateLimit ''users:insert'' world0)"
    by (simp add: checkRateLimit_def world0_def RATE_LIMIT_REQUESTS_def)
  have h4: "calls world0 = 0" by (simp add: world0_def)
  show ?thesis
    using retry_exhaustion [OF h1 h2, where r = remote_down and t = "''users''" and s = world0
        and p = JNull and tok = None]
      h1 h3 h4 down_fails
    by (simp add: Let_def)
qed

text \<open>A sign-in with \<open>maxRetries = 3\<close>, every \<open>fetch\<close> rejected: four attempts, the last
  failure in the envelope, \<open>retries = 3\<close>, and the status is \<open>error\<close>, not
  \<open>retry_exhausted\<close>.\<close>

theorem retry_exhaustion_counterexample:
  "retries (fst (middlewareAuthSignIn remote_down ''a@b.c'' ''pw'' retry3 world0)) = 3
   \<and> calls (snd (middlewareAuthSignIn remote_down ''a@b.c'' ''pw'' retry3 world0)) = 4
   \<and> error (fst (middlewareAuthSignIn remote_down ''a@b.c'' ''pw'' retry3 world0)) =
       Some (JsError ''fetch failed'')
   \<and> status (fst (middlewareAuthSignIn remote_down ''a@b.c'' ''pw'' retry3 world0)) = Error
   \<and> status (fst (middlewareAuthSignIn remote_down ''a@b.c'' ''pw'' retry3 world0)) \<noteq> Retry_exhausted"
  by (simp add: middlewareAuthSignIn_def executeSignIn_def eval_defs)

text \<open>With \<open>maxRetries = 0\<close> the comparison \<^verbatim>\<open>retries >= (mergedOptions.maxRetries || 3)\<close>
  of the CRUD operations compares with 3, and the single failed attempt is reported with
  status \<open>error\<close>.\<close>

lemma zero_retries_status:
  "status (fst (middlewareSelect remote_down ''users'' ''*'' None
                  (no_options\<lparr>maxRetries := Val 0\<rparr>) world0)) = Error
   \<and> calls (snd (middlewareSelect remote_down ''users'' ''*'' None
                  (no_options\<lparr>maxRetries := Val 0\<rparr>) world0)) = 1"
  by (simp add: middlewareSelect_def withCache_def generateCacheKey_def eval_defs)

section \<open>Cache keys and the order of filter properties\<close>

lemma same_pairs_same_order:
  "mset xs = mset ys \<Longrightarrow> map fst xs = map fst ys \<Longrightarrow> distinct (map fst xs) \<Longrightarrow> xs = ys"
proof (induction xs arbitrary: ys)
  case Nil
  then show ?case by simp
next
  case (Cons x xs)
  from Cons.prems(2) obtain y ys' where ys: "ys = y # ys'" by (cases ys) auto
  have "x \<in> set (y # ys')" using Cons.prems(1) ys by (metis list.set_intros(1) mset_eq_setD)
  moreover have "x \<notin> set ys'"
  proof
    assume "x \<in> set ys'"
    then have "fst x \<in> set (map fst ys')" by force
    then have "fst x \<in> set (map fst xs)" using Cons.prems(2) ys by simp
    then show False using Cons.prems(3) by simp
  qed
  ultimately have xy: "x = y" by simp
  then have "mset xs = mset ys'" using Cons.prems(1) ys by simp
  then have "xs = ys'" using Cons.prems(2,3) ys by (intro Cons.IH) simp_all
  then show ?case using xy ys by simp
qed

text \<open>
  Claim C4, amended. For every table name and operation name, two filter maps that hold
  the same key-value pairs and enumerate their (distinct) keys in the same order get the
  same cache key. The key is \<open>table:operation:\<close> followed by the JSON text of the filter
  object, whose properties are written in enumeration order; nothing sorts them.
\<close>

theorem cache_key_same_order:
  assumes "mset f1 = mset f2" and "map fst f1 = map fst f2" and "distinct (map fst f1)"
  shows "generateCacheKey table operation (Some f1) = generateCacheKey table operation (Some f2)
    \<and> generateCacheKey table operation (Some f1) =
        table @ '':'' @ operation @ '':'' @ stringify (JObj f1)"
  using same_pairs_same_order [OF assms] by (simp add: generateCacheKey_def)

text \<open>The key of the filter \<^verbatim>\<open>{ a: 1, b: 2 }\<close>.\<close>

theorem cache_key_same_order_witness:
  "mset [(''a'', JNum 1), (''b'', JNum 2)] = mset [(''a'', JNum 1), (''b'', JNum 2)]
   \<and> distinct (map fst [(''a'', JNum 1), (''b'', JNum 2)])
   \<and> generateCacheKey ''users'' ''select'' (Some [(''a'', JNum 1), (''b'', JNum 2)]) =
       ''users:select:'' @ stringify (JObj [(''a'', JNum 1), (''b'', JNum 2)])"
proof -
  have h1: "mset [(''a'', JNum 1), (''b'', JNum 2)] = mset [(''a'', JNum 1), (''b'', JNum 2)]"
    by simp
  have h2: "map fst [(''a'', JNum 1), (''b'', JNum 2)] = map fst [(''a'', JNum 1), (''b'', JNum 2)]"
    by simp
  have h3: "distinct (map fst [(''a'', JNum 1), (''b'', JNum 2)])" by simp
  show ?thesis
    using cache_key_same_order [OF h1 h2 h3, of "''users''" "''select''"] h3 by simp
qed

text \<open>The filters \<^verbatim>\<open>{ a: 1, b: 2 }\<close> and \<^verbatim>\<open>{ b: 2, a: 1 }\<close> hold the same pairs and get
  different keys.\<close>

theorem cache_key_order_counterexample:
  "mset [(''a'', JNum 1), (''b'', JNum 2)] = mset [(''b'', JNum 2), (''a'', JNum 1)]
   \<and> generateCacheKey ''users'' ''select'' (Some [(''a'', JNum 1), (''b'', JNum 2)]) =
       ''users:select:{\"a\":1,\"b\":2}''
   \<and> generateCacheKey ''users'' ''select'' (Some [(''b'', JNum 2), (''a'', JNum 1)]) =
       ''users:select:{\"b\":2,\"a\":1}''
   \<and> generateCacheKey ''users'' ''select'' (Some [(''a'', JNum 1), (''b'', JNum 2)]) \<noteq>
       generateCacheKey ''users'' ''select'' (Some [(''b'', JNum 2), (''a'', JNum 1)])"
  by (simp add: generateCacheKey_def quote_def quote_char_def string_of_int_def digit_chars)

section \<open>Cached reads\<close>

lemma select_hit:
  assumes "fst (checkRateLimit (t @ '':select'') s)"
    and "truthy_bool (read_prop (cache (spread DEFAULT_OPTIONS opts)))"
    and "map_of (requestCache s) (generateCacheKey t ''select'' f) = Some c"
    and "now s - entry_timestamp c <
           cache_duration (read_prop (cacheDuration (spread DEFAULT_OPTIONS opts)))"
    and "0 \<le> retry_limit opts"
  shows "middlewareSelect r t cols f opts s =
     (\<lparr>data = Some (entry_data c), error = None, status = Success, timestamp = now s,
       duration = 0, retries = 0\<rparr>,
      logMetric ''SELECT'' t 0 ''success'' None (snd (checkRateLimit (t @ '':select'') s)))"
proof -
  let ?s1 = "snd (checkRateLimit (t @ '':select'') s)"
  have "select_attempt r t f opts ?s1 = (Inr (entry_data c), ?s1)"
    using assms(2,3,4) by (simp add: select_attempt_def withCache_hit cache_duration_def)
  then have "withRetry_loop (select_attempt r t f opts) (retry_limit opts) 0 None ?s1 =
      (\<lparr>r_data = Some (entry_data c), r_error = None, r_retries = 0\<rparr>, ?s1)"
    using assms(5) by (simp add: loop_success)
  from select_admitted [OF assms(1) this] show ?thesis by simp
qed

lemma select_populates:
  assumes "truthy_bool (read_prop (cache (spread DEFAULT_OPTIONS opts)))"
    and "data (fst (middlewareSelect r t cols f opts s)) = Some v"
  shows "\<exists>c. map_of (requestCache (snd (middlewareSelect r t cols f opts s)))
               (generateCacheKey t ''select'' f) = Some c \<and> entry_data c = v"
proof (cases "fst (checkRateLimit (t @ '':select'') s)")
  case False
  then show ?thesis using assms(2) by (simp add: select_denied)
next
  case True
  let ?s1 = "snd (checkRateLimit (t @ '':select'') s)"
  obtain res s2 where L:
    "withRetry_loop (select_attempt r t f opts) (retry_limit opts) 0 None ?s1 = (res, s2)"
    by (cases "withRetry_loop (select_attempt r t f opts) (retry_limit opts) 0 None ?s1")
  have d: "r_data res = Some v"
    using assms(2) by (cases "r_error res") (simp_all add: select_admitted [OF True L])
  then obtain sk where "select_attempt r t f opts sk = (Inr v, s2)"
    using loop_data [OF L] by blast
  then have "\<exists>c. map_of (requestCache s2) (generateCacheKey t ''select'' f) = Some c \<and>
                 entry_data c = v"
    using assms(1) by (simp add: select_attempt_def withCache_stores)
  then show ?thesis
    using d assms(2) by (cases "r_error res") (simp_all add: select_admitted [OF True L])
qed

lemma select_populates_miss:
  assumes "truthy_bool (read_prop (cache (spread DEFAULT_OPTIONS opts)))"
    and "\<not> cache_fresh (generateCacheKey t ''select'' f)
             (read_prop (cacheDuration (spread DEFAULT_OPTIONS opts))) s"
    and "data (fst (middlewareSelect r t cols f opts s)) = Some v"
  shows "\<exists>c. map_of (requestCache (snd (middlewareSelect r t cols f opts s)))
               (generateCacheKey t ''select'' f) = Some c \<and> entry_data c = v \<and>
             now s \<le> entry_timestamp c \<and>
             entry_timestamp c \<le> now (snd (middlewareSelect r t cols f opts s))"
proof (cases "fst (checkRateLimit (t @ '':select'') s)")
  case False
  then show ?thesis using assms(3) by (simp add: select_denied)
next
  case True
  let ?s1 = "snd (checkRateLimit (t @ '':select'') s)"
  let ?key = "generateCacheKey t ''select'' f"
  let ?dur = "read_prop (cacheDuration (spread DEFAULT_OPTIONS opts))"
  let ?q = "executeQuery r (spread DEFAULT_OPTIONS opts)"
  let ?a = "select_attempt r t f opts"
  let ?I = "\<lambda>sk. \<not> cache_fresh ?key ?dur sk \<and> now s \<le> now sk"
  have a: "?a = withCache ?key ?q ?dur" using assms(1) by (simp add: select_attempt_def)
  obtain res s2 where L: "withRetry_loop ?a (retry_limit opts) 0 None ?s1 = (res, s2)"
    by (cases "withRetry_loop ?a (retry_limit opts) 0 None ?s1")
  have d: "r_data res = Some v"
    using assms(3) by (cases "r_error res") (simp_all add: select_admitted [OF True L])
  have i1: "?I ?s1" using assms(2) by (simp add: checked_fresh)
  have keep: "?I (snd (?a s'))" if "?I s'" "isl (fst (?a s'))" for s'
  proof -
    obtain x s1 where q: "?q s' = (x, s1)" by (cases "?q s'")
    have "?a s' = (case ?q s' of
        (Inl e, s1) \<Rightarrow> (Inl e, s1)
      | (Inr v, s1) \<Rightarrow>
          (Inr v, s1\<lparr>requestCache :=
             AList.update ?key \<lparr>entry_data = v, entry_timestamp = now s'\<rparr> (requestCache s1)\<rparr>))"
      unfolding a using that(1) by (intro withCache_miss) simp
    then have e: "?a s' = ?q s'" using that(2) q by (cases x) simp_all
    have "now s' \<le> now (snd (?q s'))" by simp
    moreover have "now s \<le> now s'" using that(1) by simp
    ultimately have le: "now s \<le> now (snd (?q s'))" by (rule order_trans [rotated])
    have "\<not> cache_fresh ?key ?dur s'" using that(1) by simp
    then have "\<not> cache_fresh ?key ?dur (snd (?q s'))"
      by (rule not_fresh_later) simp_all
    then show ?thesis using le e by simp
  qed
  have wait: "?I (elapse d s')" if "0 \<le> d" "?I s'" for d s'
  proof -
    have "\<not> cache_fresh ?key ?dur s'" using that(2) by simp
    then have "\<not> cache_fresh ?key ?dur (elapse d s')"
      by (rule not_fresh_later) (use that(1) in simp_all)
    then show ?thesis using that by simp
  qed
  have "\<exists>sk. ?I sk \<and> ?a sk = (Inr v, s2)"
    by (rule loop_data_inv [of ?a "retry_limit opts" 0 None ?s1 res s2 v ?I, OF L d i1 keep wait])
  then obtain sk where sk: "?I sk" "?a sk = (Inr v, s2)" by blast
  obtain x s1' where q: "?q sk = (x, s1')" by (cases "?q sk")
  have "?a sk = (case ?q sk of
        (Inl e, s1) \<Rightarrow> (Inl e, s1)
      | (Inr v, s1) \<Rightarrow>
          (Inr v, s1\<lparr>requestCache :=
             AList.update ?key \<lparr>entry_data = v, entry_timestamp = now sk\<rparr> (requestCache s1)\<rparr>))"
    unfolding a using sk(1) by (intro withCache_miss) simp
  then have s2: "s2 = s1'\<lparr>requestCache :=
             AList.update ?key \<lparr>entry_data = v, entry_timestamp = now sk\<rparr> (requestCache s1')\<rparr>"
    using sk(2) q by (cases x) simp_all
  have "now sk \<le> now (snd (?q sk))" by simp
  then have le: "now sk \<le> now s2" using q s2 by simp
  have m: "map_of (requestCache s2) ?key = Some \<lparr>entry_data = v, entry_timestamp = now sk\<rparr>"
    using s2 by (simp add: AList.update_conv')
  have st: "requestCache (snd (middlewareSelect r t cols f opts s)) = requestCache s2 \<and>
            now (snd (middlewareSelect r t cols f opts s)) = now s2"
    by (cases "r_error res") (simp_all add: select_admitted [OF True L])
  show ?thesis using m le sk(1) st by simp
qed

lemma select_attempt_miss:
  assumes "truthy_bool (read_prop (cache (spread DEFAULT_OPTIONS opts)))"
    and "\<not> cache_fresh (generateCacheKey t ''select'' f)
             (read_prop (cacheDuration (spread DEFAULT_OPTIONS opts))) s"
  shows "\<not> cache_fresh (generateCacheKey t ''select'' f)
             (read_prop (cacheDuration (spread DEFAULT_OPTIONS opts)))
             (attempt_state (executeQuery r (spread DEFAULT_OPTIONS opts)) j s)"
    and "\<forall>i<j. isl (fst (executeQuery r (spread DEFAULT_OPTIONS opts)
                  (attempt_state (executeQuery r (spread DEFAULT_OPTIONS opts)) i s))) \<Longrightarrow>
         attempt_state (select_attempt r t f opts) j s =
           attempt_state (executeQuery r (spread DEFAULT_OPTIONS opts)) j s"
proof -
  let ?key = "generateCacheKey t ''select'' f"
  let ?dur = "read_prop (cacheDuration (spread DEFAULT_OPTIONS opts))"
  let ?q = "executeQuery r (spread DEFAULT_OPTIONS opts)"
  let ?a = "select_attempt r t f opts"
  have a: "?a = withCache ?key ?q ?dur" using assms(1) by (simp add: select_attempt_def)
  show nf: "\<not> cache_fresh ?key ?dur (attempt_state ?q j s)" for j
    using assms(2) by (rule not_fresh_later) (simp_all add: attempt_state_cache attempt_state_later)
  show "attempt_state ?a j s = attempt_state ?q j s"
    if "\<forall>i<j. isl (fst (?q (attempt_state ?q i s)))"
    using that
  proof (induction j)
    case 0
    then show ?case by simp
  next
    case (Suc j)
    have e: "attempt_state ?a j s = attempt_state ?q j s" using Suc by simp
    have "isl (fst (?q (attempt_state ?q j s)))" using Suc.prems by simp
    then have "?a (attempt_state ?q j s) = ?q (attempt_state ?q j s)"
      using nf [of j] by (simp add: a withCache_miss_fail)
    then show ?case using e by simp
  qed
qed

lemma select_first_read:
  assumes "fst (checkRateLimit (t @ '':select'') s)"
    and "truthy_bool (read_prop (cache (spread DEFAULT_OPTIONS opts)))"
    and "\<not> cache_fresh (generateCacheKey t ''select'' f)
             (read_prop (cacheDuration (spread DEFAULT_OPTIONS opts))) s"
    and "int k \<le> retry_limit opts"
    and "\<forall>i<k. isl (fst (executeQuery r (spread DEFAULT_OPTIONS opts)
                  (attempt_state (executeQuery r (spread DEFAULT_OPTIONS opts)) i
                     (snd (checkRateLimit (t @ '':select'') s)))))"
    and "executeQuery r (spread DEFAULT_OPTIONS opts)
           (attempt_state (executeQuery r (spread DEFAULT_OPTIONS opts)) k
              (snd (checkRateLimit (t @ '':select'') s))) = (Inr v, s')"
  shows "middlewareSelect r t cols f opts s =
     (\<lparr>data = Some v, error = None, status = Success, timestamp = now s,
       duration = now s' - now s, retries = int k\<rparr>,
      logMetric ''SELECT'' t (now s' - now s) ''success'' None
        (s'\<lparr>requestCache :=
             AList.update (generateCacheKey t ''select'' f)
               \<lparr>entry_data = v,
                entry_timestamp = now (attempt_state (executeQuery r (spread DEFAULT_OPTIONS opts)) k
                                         (snd (checkRateLimit (t @ '':select'') s)))\<rparr>
               (requestCache s')\<rparr>))"
proof -
  let ?s1 = "snd (checkRateLimit (t @ '':select'') s)"
  let ?key = "generateCacheKey t ''select'' f"
  let ?dur = "read_prop (cacheDuration (spread DEFAULT_OPTIONS opts))"
  let ?q = "executeQuery r (spread DEFAULT_OPTIONS opts)"
  let ?a = "select_attempt r t f opts"
  have a: "?a = withCache ?key ?q ?dur" using assms(2) by (simp add: select_attempt_def)
  have nf1: "\<not> cache_fresh ?key ?dur ?s1" using assms(3) by (simp add: checked_fresh)
  note miss = select_attempt_miss [where opts = opts and t = t and f = f and s = ?s1 and r = r,
      OF assms(2) nf1]
  have same: "attempt_state ?a j ?s1 = attempt_state ?q j ?s1" if "j \<le> k" for j
    using that assms(5) by (intro miss(2)) simp
  have fails: "\<forall>i<k. isl (fst (?a (attempt_state ?a i ?s1)))"
  proof (intro allI impI)
    fix i assume i: "i < k"
    then have "isl (fst (?q (attempt_state ?q i ?s1)))" using assms(5) by simp
    then have "?a (attempt_state ?q i ?s1) = ?q (attempt_state ?q i ?s1)"
      using miss(1) [of i] by (simp add: a withCache_miss_fail)
    then show "isl (fst (?a (attempt_state ?a i ?s1)))"
      using same [of i] i \<open>isl (fst (?q (attempt_state ?q i ?s1)))\<close> by simp
  qed
  have "?a (attempt_state ?q k ?s1) =
      (Inr v, s'\<lparr>requestCache :=
             AList.update ?key \<lparr>entry_data = v, entry_timestamp = now (attempt_state ?q k ?s1)\<rparr>
               (requestCache s')\<rparr>)"
    using miss(1) [of k] assms(6) by (simp add: a withCache_miss)
  then have "?a (attempt_state ?a k ?s1) =
      (Inr v, s'\<lparr>requestCache :=
             AList.update ?key \<lparr>entry_data = v, entry_timestamp = now (attempt_state ?q k ?s1)\<rparr>
               (requestCache s')\<rparr>)"
    using same [of k] by simp
  then have "withRetry_loop ?a (retry_limit opts) 0 None ?s1 =
      (\<lparr>r_data = Some v, r_error = None, r_retries = int k\<rparr>,
       s'\<lparr>requestCache :=
             AList.update ?key \<lparr>entry_data = v, entry_timestamp = now (attempt_state ?q k ?s1)\<rparr>
               (requestCache s')\<rparr>)"
    using assms(4) fails by (intro loop_fails_then_succeeds) simp_all
  from select_admitted [OF assms(1) this] show ?thesis by simp
qed

lemma select_round_trip:
  assumes "truthy_bool (read_prop (cache (spread DEFAULT_OPTIONS opts)))"
    and "\<not> cache_fresh (generateCacheKey t ''select'' f)
             (read_prop (cacheDuration (spread DEFAULT_OPTIONS opts))) s"
    and "data (fst (middlewareSelect r t cols f opts s)) = Some v"
    and "map_of (requestCache s2) (generateCacheKey t ''select'' f) =
         map_of (requestCache (snd (middlewareSelect r t cols f opts s)))
           (generateCacheKey t ''select'' f)"
    and "fst (checkRateLimit (t @ '':select'') s2)"
    and "truthy_bool (read_prop (cache (spread DEFAULT_OPTIONS opts2)))"
    and "0 \<le> retry_limit opts2"
    and "now s2 - now s < cache_duration (read_prop (cacheDuration (spread DEFAULT_OPTIONS opts2)))"
  shows "data (fst (middlewareSelect r2 t cols2 f opts2 s2)) = Some v \<and>
         error (fst (middlewareSelect r2 t cols2 f opts2 s2)) = None \<and>
         status (fst (middlewareSelect r2 t cols2 f opts2 s2)) = Success \<and>
         retries (fst (middlewareSelect r2 t cols2 f opts2 s2)) = 0 \<and>
         calls (snd (middlewareSelect r2 t cols2 f opts2 s2)) = calls s2 \<and>
         requestCache (snd (middlewareSelect r2 t cols2 f opts2 s2)) = requestCache s2"
proof -
  obtain c where c: "map_of (requestCache (snd (middlewareSelect r t cols f opts s)))
               (generateCacheKey t ''select'' f) = Some c" "entry_data c = v"
             "now s \<le> entry_timestamp c"
    using select_populates_miss [OF assms(1,2,3)] by blast
  have m: "map_of (requestCache s2) (generateCacheKey t ''select'' f) = Some c"
    using c(1) assms(4) by simp
  have "now s2 - entry_timestamp c <
          cache_duration (read_prop (cacheDuration (spread DEFAULT_OPTIONS opts2)))"
    using c(3) assms(8) by linarith
  from select_hit [OF assms(5,6) m this assms(7), of r2 cols2] show ?thesis
    using c(2) by simp
qed


text \<open>
  Claim C5. \<open>withCache\<close>: when the cache holds an entry for the key and
  \<open>now - timestamp\<close> is strictly less than the duration, the stored payload is returned,
  the underlying function is not run and the state does not change. When
  \<open>now - timestamp\<close> is at least the duration, the underlying function runs in the state
  that still holds the entry, and when it returns a value the entry is overwritten with
  that value and the time of the call. When the cache holds no entry for the key, the
  underlying function runs, and when it returns a value an entry is stored with that value
  and the time at which \<open>withCache\<close> was called. For the gateway: a \<open>middlewareSelect\<close>
  with caching on that returns data leaves an entry with that data under the key of its
  table and filters; when the cache held no entry within the duration at the call, the
  timestamp of that entry lies between the time of the call and the time of the return,
  and it is the time at which the successful attempt started (the time of the call when
  the first attempt succeeds); an admitted \<open>middlewareSelect\<close> that finds such an entry
  within the duration returns its data with status \<open>success\<close> and \<open>retries = 0\<close>, sending
  no request and leaving the cache as it is. So a read that returned data, repeated for
  the same table and filters while the entry is still there and less than the duration
  after the first call, returns the same data with \<open>retries = 0\<close> and sends no request.
  (The payload \<open>null\<close> of a successful read is the value \<open>Some JNull\<close>; \<open>None\<close> is the
  \<open>data: null\<close> of an envelope that reports a failure.)
\<close>

theorem cached_read:
  "(map_of (requestCache s) key = Some c \<and> now s - entry_timestamp c < cache_duration dur \<longrightarrow>
      withCache key fn dur s = (Inr (entry_data c), s))
   \<and> (map_of (requestCache s) key = Some c \<and> cache_duration dur \<le> now s - entry_timestamp c \<longrightarrow>
      withCache key fn dur s =
        (case fn s of
           (Inl e, s1) \<Rightarrow> (Inl e, s1)
         | (Inr v, s1) \<Rightarrow>
             (Inr v, s1\<lparr>requestCache :=
                AList.update key \<lparr>entry_data = v, entry_timestamp = now s\<rparr> (requestCache s1)\<rparr>)) \<and>
      (\<forall>v s1. fn s = (Inr v, s1) \<longrightarrow>
         map_of (requestCache (snd (withCache key fn dur s))) key =
           Some \<lparr>entry_data = v, entry_timestamp = now s\<rparr>))
   \<and> (map_of (requestCache s) key = None \<longrightarrow>
      withCache key fn dur s =
        (case fn s of
           (Inl e, s1) \<Rightarrow> (Inl e, s1)
         | (Inr v, s1) \<Rightarrow>
             (Inr v, s1\<lparr>requestCache :=
                AList.update key \<lparr>entry_data = v, entry_timestamp = now s\<rparr> (requestCache s1)\<rparr>)) \<and>
      (\<forall>v s1. fn s = (Inr v, s1) \<longrightarrow>
         map_of (requestCache (snd (withCache key fn dur s))) key =
           Some \<lparr>entry_data = v, entry_timestamp = now s\<rparr>))
   \<and> (truthy_bool (read_prop (cache (spread DEFAULT_OPTIONS opts))) \<and>
      data (fst (middlewareSelect r t cols f opts s)) = Some v \<longrightarrow>
      (\<exists>c'. map_of (requestCache (snd (middlewareSelect r t cols f opts s)))
               (generateCacheKey t ''select'' f) = Some c' \<and> entry_data c' = v))
   \<and> (truthy_bool (read_prop (cache (spread DEFAULT_OPTIONS opts))) \<and>
      \<not> cache_fresh (generateCacheKey t ''select'' f)
          (read_prop (cacheDuration (spread DEFAULT_OPTIONS opts))) s \<and>
      data (fst (middlewareSelect r t cols f opts s)) = Some v \<longrightarrow>
      (\<exists>c'. map_of (requestCache (snd (middlewareSelect r t cols f opts s)))
               (generateCacheKey t ''select'' f) = Some c' \<and> entry_data c' = v \<and>
             now s \<le> entry_timestamp c' \<and>
             entry_timestamp c' \<le> now (snd (middlewareSelect r t cols f opts s))))
   \<and> (fst (checkRateLimit (t @ '':select'') s) \<and>
      truthy_bool (read_prop (cache (spread DEFAULT_OPTIONS opts))) \<and>
      \<not> cache_fresh (generateCacheKey t ''select'' f)
          (read_prop (cacheDuration (spread DEFAULT_OPTIONS opts))) s \<and>
      int k \<le> retry_limit opts \<and>
      (\<forall>i<k. isl (fst (executeQuery r (spread DEFAULT_OPTIONS opts)
                  (attempt_state (executeQuery r (spread DEFAULT_OPTIONS opts)) i
                     (snd (checkRateLimit (t @ '':select'') s)))))) \<and>
      fst (executeQuery r (spread DEFAULT_OPTIONS opts)
             (attempt_state (executeQuery r (spread DEFAULT_OPTIONS opts)) k
                (snd (checkRateLimit (t @ '':select'') s)))) = Inr v \<longrightarrow>
      data (fst (middlewareSelect r t cols f opts s)) = Some v \<and>
      error (fst (middlewareSelect r t cols f opts s)) = None \<and>
      status (fst (middlewareSelect r t cols f opts s)) = Success \<and>
      retries (fst (middlewareSelect r t cols f opts s)) = int k \<and>
      map_of (requestCache (snd (middlewareSelect r t cols f opts s)))
        (generateCacheKey t ''select'' f) =
        Some \<lparr>entry_data = v,
              entry_timestamp = now (attempt_state (executeQuery r (spread DEFAULT_OPTIONS opts)) k
                                       (snd (checkRateLimit (t @ '':select'') s)))\<rparr> \<and>
      (k = 0 \<longrightarrow>
        map_of (requestCache (snd (middlewareSelect r t cols f opts s)))
          (generateCacheKey t ''select'' f) = Some \<lparr>entry_data = v, entry_timestamp = now s\<rparr>))
   \<and> (fst (checkRateLimit (t @ '':select'') s) \<and>
      truthy_bool (read_prop (cache (spread DEFAULT_OPTIONS opts))) \<and>
      0 \<le> retry_limit opts \<and>
      map_of (requestCache s) (generateCacheKey t ''select'' f) = Some c \<and>
      now s - entry_timestamp c <
        cache_duration (read_prop (cacheDuration (spread DEFAULT_OPTIONS opts))) \<longrightarrow>
      data (fst (middlewareSelect r t cols f opts s)) = Some (entry_data c) \<and>
      error (fst (middlewareSelect r t cols f opts s)) = None \<and>
      status (fst (middlewareSelect r t cols f opts s)) = Success \<and>
      retries (fst (middlewareSelect r t cols f opts s)) = 0 \<and>
      calls (snd (middlewareSelect r t cols f opts s)) = calls s \<and>
      requestCache (snd (middlewareSelect r t cols f opts s)) = requestCache s)
   \<and> (truthy_bool (read_prop (cache (spread DEFAULT_OPTIONS opts))) \<and>
      \<not> cache_fresh (generateCacheKey t ''select'' f)
          (read_prop (cacheDuration (spread DEFAULT_OPTIONS opts))) s \<and>
      data (fst (middlewareSelect r t cols f opts s)) = Some v \<and>
      map_of (requestCache s2) (generateCacheKey t ''select'' f) =
        map_of (requestCache (snd (middlewareSelect r t cols f opts s)))
          (generateCacheKey t ''select'' f) \<and>
      fst (checkRateLimit (t @ '':select'') s2) \<and>
      truthy_bool (read_prop (cache (spread DEFAULT_OPTIONS opts2))) \<and>
      0 \<le> retry_limit opts2 \<and>
      now s2 - now s < cache_duration (read_prop (cacheDuration (spread DEFAULT_OPTIONS opts2))) \<longrightarrow>
      data (fst (middlewareSelect r2 t cols2 f opts2 s2)) = Some v \<and>
      error (fst (middlewareSelect r2 t cols2 f opts2 s2)) = None \<and>
      status (fst (middlewareSelect r2 t cols2 f opts2 s2)) = Success \<and>
      retries (fst (middlewareSelect r2 t cols2 f opts2 s2)) = 0 \<and>
      calls (snd (middlewareSelect r2 t cols2 f opts2 s2)) = calls s2 \<and>
      requestCache (snd (middlewareSelect r2 t cols2 f opts2 s2)) = requestCache s2)"
proof -
  let ?key = "generateCacheKey t ''select'' f"
  let ?q = "executeQuery r (spread DEFAULT_OPTIONS opts)"
  let ?s1 = "snd (checkRateLimit (t @ '':select'') s)"
  let ?R = "middlewareSelect r t cols f opts s"
  have hit: "map_of (requestCache s) key = Some c \<and> now s - entry_timestamp c < cache_duration dur \<longrightarrow>
      withCache key fn dur s = (Inr (entry_data c), s)"
    by (simp add: withCache_hit cache_duration_def)
  have stale: "map_of (requestCache s) key = Some c \<and> cache_duration dur \<le> now s - entry_timestamp c \<longrightarrow>
      withCache key fn dur s =
        (case fn s of
           (Inl e, s1) \<Rightarrow> (Inl e, s1)
         | (Inr v, s1) \<Rightarrow>
             (Inr v, s1\<lparr>requestCache :=
                AList.update key \<lparr>entry_data = v, entry_timestamp = now s\<rparr> (requestCache s1)\<rparr>)) \<and>
      (\<forall>v s1. fn s = (Inr v, s1) \<longrightarrow>
         map_of (requestCache (snd (withCache key fn dur s))) key =
           Some \<lparr>entry_data = v, entry_timestamp = now s\<rparr>)"
    by (simp add: withCache_stale AList.update_conv')
  have cold: "map_of (requestCache s) key = None \<longrightarrow>
      withCache key fn dur s =
        (case fn s of
           (Inl e, s1) \<Rightarrow> (Inl e, s1)
         | (Inr v, s1) \<Rightarrow>
             (Inr v, s1\<lparr>requestCache :=
                AList.update key \<lparr>entry_data = v, entry_timestamp = now s\<rparr> (requestCache s1)\<rparr>)) \<and>
      (\<forall>v s1. fn s = (Inr v, s1) \<longrightarrow>
         map_of (requestCache (snd (withCache key fn dur s))) key =
           Some \<lparr>entry_data = v, entry_timestamp = now s\<rparr>)"
    by (simp add: withCache_cold AList.update_conv')
  have pop: "truthy_bool (read_prop (cache (spread DEFAULT_OPTIONS opts))) \<and>
      data (fst ?R) = Some v \<longrightarrow>
      (\<exists>c'. map_of (requestCache (snd ?R)) ?key = Some c' \<and> entry_data c' = v)"
    using select_populates [of opts r t cols f s v] by simp
  have miss: "truthy_bool (read_prop (cache (spread DEFAULT_OPTIONS opts))) \<and>
      \<not> cache_fresh ?key (read_prop (cacheDuration (spread DEFAULT_OPTIONS opts))) s \<and>
      data (fst ?R) = Some v \<longrightarrow>
      (\<exists>c'. map_of (requestCache (snd ?R)) ?key = Some c' \<and> entry_data c' = v \<and>
             now s \<le> entry_timestamp c' \<and> entry_timestamp c' \<le> now (snd ?R))"
    using select_populates_miss [of opts t f s r cols v] by simp
  have first: "fst (checkRateLimit (t @ '':select'') s) \<and>
      truthy_bool (read_prop (cache (spread DEFAULT_OPTIONS opts))) \<and>
      \<not> cache_fresh ?key (read_prop (cacheDuration (spread DEFAULT_OPTIONS opts))) s \<and>
      int k \<le> retry_limit opts \<and>
      (\<forall>i<k. isl (fst (?q (attempt_state ?q i ?s1)))) \<and>
      fst (?q (attempt_state ?q k ?s1)) = Inr v \<longrightarrow>
      data (fst ?R) = Some v \<and> error (fst ?R) = None \<and> status (fst ?R) = Success \<and>
      retries (fst ?R) = int k \<and>
      map_of (requestCache (snd ?R)) ?key =
        Some \<lparr>entry_data = v, entry_timestamp = now (attempt_state ?q k ?s1)\<rparr> \<and>
      (k = 0 \<longrightarrow>
        map_of (requestCache (snd ?R)) ?key = Some \<lparr>entry_data = v, entry_timestamp = now s\<rparr>)"
  proof (intro impI)
    assume h: "fst (checkRateLimit (t @ '':select'') s) \<and>
      truthy_bool (read_prop (cache (spread DEFAULT_OPTIONS opts))) \<and>
      \<not> cache_fresh ?key (read_prop (cacheDuration (spread DEFAULT_OPTIONS opts))) s \<and>
      int k \<le> retry_limit opts \<and>
      (\<forall>i<k. isl (fst (?q (attempt_state ?q i ?s1)))) \<and>
      fst (?q (attempt_state ?q k ?s1)) = Inr v"
    obtain s' where q: "?q (attempt_state ?q k ?s1) = (Inr v, s')"
      using h by (cases "?q (attempt_state ?q k ?s1)") simp
    have e: "?R =
     (\<lparr>data = Some v, error = None, status = Success, timestamp = now s,
       duration = now s' - now s, retries = int k\<rparr>,
      logMetric ''SELECT'' t (now s' - now s) ''success'' None
        (s'\<lparr>requestCache :=
             AList.update ?key
               \<lparr>entry_data = v, entry_timestamp = now (attempt_state ?q k ?s1)\<rparr>
               (requestCache s')\<rparr>))"
      using h q by (intro select_first_read) simp_all
    show "data (fst ?R) = Some v \<and> error (fst ?R) = None \<and> status (fst ?R) = Success \<and>
      retries (fst ?R) = int k \<and>
      map_of (requestCache (snd ?R)) ?key =
        Some \<lparr>entry_data = v, entry_timestamp = now (attempt_state ?q k ?s1)\<rparr> \<and>
      (k = 0 \<longrightarrow>
        map_of (requestCache (snd ?R)) ?key = Some \<lparr>entry_data = v, entry_timestamp = now s\<rparr>)"
      unfolding e by (simp add: AList.update_conv')
  qed
  have gate: "fst (checkRateLimit (t @ '':select'') s) \<and>
      truthy_bool (read_prop (cache (spread DEFAULT_OPTIONS opts))) \<and>
      0 \<le> retry_limit opts \<and>
      map_of (requestCache s) ?key = Some c \<and>
      now s - entry_timestamp c <
        cache_duration (read_prop (cacheDuration (spread DEFAULT_OPTIONS opts))) \<longrightarrow>
      data (fst ?R) = Some (entry_data c) \<and> error (fst ?R) = None \<and>
      status (fst ?R) = Success \<and> retries (fst ?R) = 0 \<and>
      calls (snd ?R) = calls s \<and> requestCache (snd ?R) = requestCache s"
  proof (intro impI)
    assume h: "fst (checkRateLimit (t @ '':select'') s) \<and>
      truthy_bool (read_prop (cache (spread DEFAULT_OPTIONS opts))) \<and>
      0 \<le> retry_limit opts \<and>
      map_of (requestCache s) ?key = Some c \<and>
      now s - entry_timestamp c <
        cache_duration (read_prop (cacheDuration (spread DEFAULT_OPTIONS opts)))"
    then have e: "?R =
     (\<lparr>data = Some (entry_data c), error = None, status = Success, timestamp = now s,
       duration = 0, retries = 0\<rparr>,
      logMetric ''SELECT'' t 0 ''success'' None (snd (checkRateLimit (t @ '':select'') s)))"
      by (intro select_hit) simp_all
    show "data (fst ?R) = Some (entry_data c) \<and> error (fst ?R) = None \<and>
      status (fst ?R) = Success \<and> retries (fst ?R) = 0 \<and>
      calls (snd ?R) = calls s \<and> requestCache (snd ?R) = requestCache s"
      unfolding e by simp
  qed
  have trip: "truthy_bool (read_prop (cache (spread DEFAULT_OPTIONS opts))) \<and>
      \<not> cache_fresh ?key (read_prop (cacheDuration (spread DEFAULT_OPTIONS opts))) s \<and>
      data (fst ?R) = Some v \<and>
      map_of (requestCache s2) ?key = map_of (requestCache (snd ?R)) ?key \<and>
      fst (checkRateLimit (t @ '':select'') s2) \<and>
      truthy_bool (read_prop (cache (spread DEFAULT_OPTIONS opts2))) \<and>
      0 \<le> retry_limit opts2 \<and>
      now s2 - now s < cache_duration (read_prop (cacheDuration (spread DEFAULT_OPTIONS opts2))) \<longrightarrow>
      data (fst (middlewareSelect r2 t cols2 f opts2 s2)) = Some v \<and>
      error (fst (middlewareSelect r2 t cols2 f opts2 s2)) = None \<and>
      status (fst (middlewareSelect r2 t cols2 f opts2 s2)) = Success \<and>
      retries (fst (middlewareSelect r2 t cols2 f opts2 s2)) = 0 \<and>
      calls (snd (middlewareSelect r2 t cols2 f opts2 s2)) = calls s2 \<and>
      requestCache (snd (middlewareSelect r2 t cols2 f opts2 s2)) = requestCache s2"
    using select_round_trip [where opts = opts and t = t and f = f and s = s and r = r
        and cols = cols and v = v and ?s2.0 = s2 and ?opts2.0 = opts2 and ?r2.0 = r2
        and ?cols2.0 = cols2]
    by simp
  show ?thesis
    by (intro conjI hit stale cold pop miss first gate trip)
qed

text \<open>A first read of \<open>users\<close> in a fresh process fetches one row; the same read one second
  later returns the same data with \<open>retries = 0\<close> and sends nothing. A first read at time
  500 stores its entry under the timestamp 500, and a read one second later, against a
  remote side that is down, returns the stored row.\<close>

theorem cached_read_witness:
  "fst (checkRateLimit ''users:select'' world_read)
   \<and> map_of (requestCache world_read) ''users:select:{}'' =
       Some \<lparr>entry_data = JArr [JNum 7], entry_timestamp = 0\<rparr>
   \<and> now world_read - 0 < cache_duration (read_prop (cacheDuration (spread DEFAULT_OPTIONS no_options)))
   \<and> data (fst (middlewareSelect remote_up ''users'' ''*'' None no_options world_read)) =
       data (fst (middlewareSelect remote_up ''users'' ''*'' None no_options world0))
   \<and> retries (fst (middlewareSelect remote_up ''users'' ''*'' None no_options world_read)) = 0
   \<and> calls (snd (middlewareSelect remote_up ''users'' ''*'' None no_options world_read)) =
       calls world_read
   \<and> now world_later = 500
   \<and> map_of (requestCache world_later) ''users:select:{}'' = None
   \<and> fst (checkRateLimit ''users:select'' world_later)
   \<and> fst (executeQuery remote_up (spread DEFAULT_OPTIONS no_options)
            (snd (checkRateLimit ''users:select'' world_later))) = Inr (JArr [JNum 7])
   \<and> data (fst (middlewareSelect remote_up ''users'' ''*'' None no_options world_later)) =
       Some (JArr [JNum 7])
   \<and> map_of (requestCache (snd (middlewareSelect remote_up ''users'' ''*'' None no_options
                                   world_later))) ''users:select:{}'' =
       Some \<lparr>entry_data = JArr [JNum 7], entry_timestamp = 500\<rparr>
   \<and> now world_reread - now world_later <
       cache_duration (read_prop (cacheDuration (spread DEFAULT_OPTIONS no_options)))
   \<and> fst (checkRateLimit ''users:select'' world_reread)
   \<and> data (fst (middlewareSelect remote_down ''users'' ''id'' None no_options world_reread)) =
       Some (JArr [JNum 7])
   \<and> status (fst (middlewareSelect remote_down ''users'' ''id'' None no_options world_reread)) =
       Success
   \<and> retries (fst (middlewareSelect remote_down ''users'' ''id'' None no_options world_reread)) = 0
   \<and> calls (snd (middlewareSelect remote_down ''users'' ''id'' None no_options world_reread)) =
       calls world_reread"
proof -
  have h1: "truthy_bool (read_prop (cache (spread DEFAULT_OPTIONS no_options)))"
    by (simp add: spread_def DEFAULT_OPTIONS_def no_options_def)
  have h2: "0 \<le> retry_limit no_options"
    by (simp add: retry_limit_def spread_def DEFAULT_OPTIONS_def no_options_def)
  have h3: "now world_read - 0 <
      cache_duration (read_prop (cacheDuration (spread DEFAULT_OPTIONS no_options)))"
    by (simp add: first_read cache_duration_def spread_def DEFAULT_OPTIONS_def no_options_def)
  have h4: "\<not> cache_fresh ''users:select:{}''
              (read_prop (cacheDuration (spread DEFAULT_OPTIONS no_options))) world_later"
    by (simp add: cache_fresh_def later_read)
  have h5: "now world_reread - now world_later <
      cache_duration (read_prop (cacheDuration (spread DEFAULT_OPTIONS no_options)))"
    by (simp add: later_read cache_duration_def spread_def DEFAULT_OPTIONS_def no_options_def)
  have h6: "map_of (requestCache world_reread) ''users:select:{}'' =
      map_of (requestCache (snd (middlewareSelect remote_up ''users'' ''*'' None no_options
                                   world_later))) ''users:select:{}''"
    by (simp add: later_read)
  note a = cached_read [where s = world_read and t = "''users''" and f = None
        and opts = no_options and r = remote_up and cols = "''*''"
        and c = "\<lparr>entry_data = JArr [JNum 7], entry_timestamp = 0\<rparr>"
        and key = "''users:select:{}''" and dur = None and fn = "executeQuery remote_up DEFAULT_OPTIONS"
        and v = "JArr [JNum 7]" and k = 0 and ?s2.0 = world_read and ?opts2.0 = no_options
        and ?r2.0 = remote_up and ?cols2.0 = "''*''"]
  note b = cached_read [where s = world_later and t = "''users''" and f = None
        and opts = no_options and r = remote_up and cols = "''*''"
        and c = "\<lparr>entry_data = JArr [JNum 7], entry_timestamp = 0\<rparr>"
        and key = "''users:select:{}''" and dur = None and fn = "executeQuery remote_up DEFAULT_OPTIONS"
        and v = "JArr [JNum 7]" and k = 0 and ?s2.0 = world_reread and ?opts2.0 = no_options
        and ?r2.0 = remote_down and ?cols2.0 = "''id''"]
  have A: "fst (checkRateLimit ''users:select'' world_read)
   \<and> map_of (requestCache world_read) ''users:select:{}'' =
       Some \<lparr>entry_data = JArr [JNum 7], entry_timestamp = 0\<rparr>
   \<and> now world_read - 0 < cache_duration (read_prop (cacheDuration (spread DEFAULT_OPTIONS no_options)))
   \<and> data (fst (middlewareSelect remote_up ''users'' ''*'' None no_options world_read)) =
       data (fst (middlewareSelect remote_up ''users'' ''*'' None no_options world0))
   \<and> retries (fst (middlewareSelect remote_up ''users'' ''*'' None no_options world_read)) = 0
   \<and> calls (snd (middlewareSelect remote_up ''users'' ''*'' None no_options world_read)) =
       calls world_read"
    using a [THEN conjunct2, THEN conjunct2, THEN conjunct2, THEN conjunct2, THEN conjunct2,
             THEN conjunct2, THEN conjunct1]
      h1 h2 h3 first_read
    by (simp add: users_key)
  have B1: "data (fst (middlewareSelect remote_up ''users'' ''*'' None no_options world_later)) =
       Some (JArr [JNum 7])
   \<and> map_of (requestCache (snd (middlewareSelect remote_up ''users'' ''*'' None no_options
                                   world_later))) ''users:select:{}'' =
       Some \<lparr>entry_data = JArr [JNum 7], entry_timestamp = 500\<rparr>"
    using b [THEN conjunct2, THEN conjunct2, THEN conjunct2, THEN conjunct2, THEN conjunct2,
             THEN conjunct1]
      h1 h2 h4 later_read(2,3,4)
    by (simp add: users_key)
  have B2: "data (fst (middlewareSelect remote_down ''users'' ''id'' None no_options world_reread)) =
       Some (JArr [JNum 7])
   \<and> status (fst (middlewareSelect remote_down ''users'' ''id'' None no_options world_reread)) =
       Success
   \<and> retries (fst (middlewareSelect remote_down ''users'' ''id'' None no_options world_reread)) = 0
   \<and> calls (snd (middlewareSelect remote_down ''users'' ''id'' None no_options world_reread)) =
       calls world_reread"
    using b [THEN conjunct2, THEN conjunct2, THEN conjunct2, THEN conjunct2, THEN conjunct2,
             THEN conjunct2, THEN conjunct2]
      h1 h2 h4 h5 h6 B1 later_read(7)
    by (simp add: users_key)
  show ?thesis
    using A B1 B2 h5 later_read(1,2,3,4,7) by simp
qed


section \<open>The operations change the rate windows only through the admission check\<close>

lemma execute_rate [simp]:
  "rateLimitMap (snd (executeQuery r mo s)) = rateLimitMap s"
  "rateLimitMap (snd (executeInsert r mo s)) = rateLimitMap s"
  "rateLimitMap (snd (executeUpdate r mo s)) = rateLimitMap s"
  "rateLimitMap (snd (executeDelete r mo s)) = rateLimitMap s"
  by (simp_all add: execute_defs split: settled.splits option.splits)

lemma executeSign_rate [simp]:
  "rateLimitMap (snd (executeSignIn r s)) = rateLimitMap s"
  "rateLimitMap (snd (executeSignUp r s)) = rateLimitMap s"
  "rateLimitMap (snd (executeSignOut r s)) = rateLimitMap s"
  by (simp_all add: executeSignIn_def executeSignUp_def executeSignOut_def send_def await_def
        elapse_def split: settled.splits option.splits sum.splits)

lemma withCache_rate:
  "(\<And>s. rateLimitMap (snd (fn s)) = rateLimitMap s) \<Longrightarrow>
   rateLimitMap (snd (withCache key fn dur s)) = rateLimitMap s"
proof -
  assume a: "\<And>s. rateLimitMap (snd (fn s)) = rateLimitMap s"
  obtain x s1 where fs: "fn s = (x, s1)" by (cases "fn s")
  then have "rateLimitMap s1 = rateLimitMap s" using a [of s] by simp
  then show ?thesis
    using fs by (auto simp: withCache_def Let_def split: option.splits sum.splits)
qed

lemma select_attempt_rate [simp]:
  "rateLimitMap (snd (select_attempt r t f opts s)) = rateLimitMap s"
  by (simp add: select_attempt_def withCache_rate)

lemma loop_rate:
  "(\<And>s. rateLimitMap (snd (fn s)) = rateLimitMap s) \<Longrightarrow>
   withRetry_loop fn m 0 None s = (res, s2) \<Longrightarrow> rateLimitMap s2 = rateLimitMap s"
  using loop_frame [of rateLimitMap fn m 0 None s] by simp

lemma gateway_rate:
  "rateLimitMap (snd (middlewareSelect r t c f opts s)) =
     rateLimitMap (snd (checkRateLimit (t @ '':select'') s))"
  "rateLimitMap (snd (middlewareInsert r t p opts s)) =
     rateLimitMap (snd (checkRateLimit (t @ '':insert'') s))"
  "rateLimitMap (snd (middlewareUpdate r t u g opts s)) =
     rateLimitMap (snd (checkRateLimit (t @ '':update'') s))"
  "rateLimitMap (snd (middlewareDelete r t g opts s)) =
     rateLimitMap (snd (checkRateLimit (t @ '':delete'') s))"
  "rateLimitMap (snd (middlewareAuthSignIn r e pw opts s)) = rateLimitMap s"
  "rateLimitMap (snd (middlewareAuthSignUp r e pw opts s)) = rateLimitMap s"
  "rateLimitMap (snd (middlewareAuthSignOut r tok opts s)) = rateLimitMap s"
proof -
  show "rateLimitMap (snd (middlewareSelect r t c f opts s)) =
     rateLimitMap (snd (checkRateLimit (t @ '':select'') s))"
  proof (cases "fst (checkRateLimit (t @ '':select'') s)")
    case False
    then have "snd (checkRateLimit (t @ '':select'') s) = s"
      by (simp add: checkRateLimit_def Let_def split: if_splits)
    then show ?thesis using False by (simp add: select_denied)
  next
    case True
    obtain res s2 where L: "withRetry_loop (select_attempt r t f opts) (retry_limit opts) 0 None
        (snd (checkRateLimit (t @ '':select'') s)) = (res, s2)"
      by (cases "withRetry_loop (select_attempt r t f opts) (retry_limit opts) 0 None
        (snd (checkRateLimit (t @ '':select'') s))")
    have "rateLimitMap s2 = rateLimitMap (snd (checkRateLimit (t @ '':select'') s))"
      by (rule loop_rate [OF _ L]) simp
    then show ?thesis
      by (cases "r_error res") (simp_all add: select_admitted [OF True L])
  qed
  show "rateLimitMap (snd (middlewareInsert r t p opts s)) =
     rateLimitMap (snd (checkRateLimit (t @ '':insert'') s))"
  proof (cases "fst (checkRateLimit (t @ '':insert'') s)")
    case False
    then have "snd (checkRateLimit (t @ '':insert'') s) = s"
      by (simp add: checkRateLimit_def Let_def split: if_splits)
    then show ?thesis using False by (simp add: insert_denied)
  next
    case True
    obtain res s2 where L: "withRetry_loop (executeInsert r (spread DEFAULT_OPTIONS opts))
        (retry_limit opts) 0 None (snd (checkRateLimit (t @ '':insert'') s)) = (res, s2)"
      by (cases "withRetry_loop (executeInsert r (spread DEFAULT_OPTIONS opts))
        (retry_limit opts) 0 None (snd (checkRateLimit (t @ '':insert'') s))")
    have "rateLimitMap s2 = rateLimitMap (snd (checkRateLimit (t @ '':insert'') s))"
      by (rule loop_rate [OF _ L]) simp
    then show ?thesis
      by (cases "r_error res") (simp_all add: insert_admitted [OF True L])
  qed
  show "rateLimitMap (snd (middlewareUpdate r t u g opts s)) =
     rateLimitMap (snd (checkRateLimit (t @ '':update'') s))"
  proof (cases "fst (checkRateLimit (t @ '':update'') s)")
    case False
    then have "snd (checkRateLimit (t @ '':update'') s) = s"
      by (simp add: checkRateLimit_def Let_def split: if_splits)
    then show ?thesis using False by (simp add: update_denied)
  next
    case True
    obtain res s2 where L: "withRetry_loop (executeUpdate r (spread DEFAULT_OPTIONS opts))
        (retry_limit opts) 0 None (snd (checkRateLimit (t @ '':update'') s)) = (res, s2)"
      by (cases "withRetry_loop (executeUpdate r (spread DEFAULT_OPTIONS opts))
        (retry_limit opts) 0 None (snd (checkRateLimit (t @ '':update'') s))")
    have "rateLimitMap s2 = rateLimitMap (snd (checkRateLimit (t @ '':update'') s))"
      by (rule loop_rate [OF _ L]) simp
    then show ?thesis
      by (cases "r_error res") (simp_all add: update_admitted [OF True L])
  qed
  show "rateLimitMap (snd (middlewareDelete r t g opts s)) =
     rateLimitMap (snd (checkRateLimit (t @ '':delete'') s))"
  proof (cases "fst (checkRateLimit (t @ '':delete'') s)")
    case False
    then have "snd (checkRateLimit (t @ '':delete'') s) = s"
      by (simp add: checkRateLimit_def Let_def split: if_splits)
    then show ?thesis using False by (simp add: delete_denied)
  next
    case True
    obtain res s2 where L: "withRetry_loop (executeDelete r (spread DEFAULT_OPTIONS opts))
        (retry_limit opts) 0 None (snd (checkRateLimit (t @ '':delete'') s)) = (res, s2)"
      by (cases "withRetry_loop (executeDelete r (spread DEFAULT_OPTIONS opts))
        (retry_limit opts) 0 None (snd (checkRateLimit (t @ '':delete'') s))")
    have "rateLimitMap s2 = rateLimitMap (snd (checkRateLimit (t @ '':delete'') s))"
      by (rule loop_rate [OF _ L]) simp
    then show ?thesis
      by (cases "r_error res") (simp_all add: delete_admitted [OF True L])
  qed
  show "rateLimitMap (snd (middlewareAuthSignIn r e pw opts s)) = rateLimitMap s"
  proof -
    obtain res s2 where L: "withRetry_loop (executeSignIn r) (retry_limit opts) 0 None s = (res, s2)"
      by (cases "withRetry_loop (executeSignIn r) (retry_limit opts) 0 None s")
    have "rateLimitMap s2 = rateLimitMap s" by (rule loop_rate [OF _ L]) simp
    then show ?thesis by (cases "r_error res") (simp_all add: signIn_result [OF L])
  qed
  show "rateLimitMap (snd (middlewareAuthSignUp r e pw opts s)) = rateLimitMap s"
  proof -
    obtain res s2 where L: "withRetry_loop (executeSignUp r) (retry_limit opts) 0 None s = (res, s2)"
      by (cases "withRetry_loop (executeSignUp r) (retry_limit opts) 0 None s")
    have "rateLimitMap s2 = rateLimitMap s" by (rule loop_rate [OF _ L]) simp
    then show ?thesis by (cases "r_error res") (simp_all add: signUp_result [OF L])
  qed
  show "rateLimitMap (snd (middlewareAuthSignOut r tok opts s)) = rateLimitMap s"
  proof -
    obtain res s2 where L: "withRetry_loop (executeSignOut r) (retry_limit opts) 0 None s = (res, s2)"
      by (cases "withRetry_loop (executeSignOut r) (retry_limit opts) 0 None s")
    have "rateLimitMap s2 = rateLimitMap s" by (rule loop_rate [OF _ L]) simp
    then show ?thesis by (cases "r_error res") (simp_all add: signOut_result [OF L])
  qed
qed

lemma recorded_cong: "rateLimitMap s' = rateLimitMap s \<Longrightarrow> recorded key s' = recorded key s"
  by (simp add: recorded_def)

section \<open>Admission\<close>

text \<open>A run of calls changes the rate windows as the run of their admission checks does.\<close>

lemma check_rate_cong:
  "rateLimitMap s = rateLimitMap s' \<Longrightarrow>
   rateLimitMap (snd (checkRateLimit key (s\<lparr>now := t\<rparr>))) =
   rateLimitMap (snd (checkRateLimit key (s'\<lparr>now := t\<rparr>)))"
  by (simp add: checkRateLimit_def Let_def)

lemma calls_at_rate:
  assumes "\<forall>c \<in> set cs. \<forall>s. rateLimitMap (snd (snd c s)) = rateLimitMap (snd (checkRateLimit key s))"
    and "rateLimitMap s = rateLimitMap s'"
  shows "rateLimitMap (snd (calls_at cs s)) = rateLimitMap (snd (admissions key (map fst cs) s'))"
  using assms
proof (induction cs arbitrary: s s')
  case Nil
  then show ?case by simp
next
  case (Cons c cs)
  obtain t call where c: "c = (t, call)" by (cases c)
  let ?s1 = "snd (call (s\<lparr>now := t\<rparr>))"
  let ?s1' = "snd (checkRateLimit key (s'\<lparr>now := t\<rparr>))"
  have "rateLimitMap ?s1 = rateLimitMap (snd (checkRateLimit key (s\<lparr>now := t\<rparr>)))"
    using Cons.prems(1) c by simp
  also have "\<dots> = rateLimitMap ?s1'" using Cons.prems(2) by (rule check_rate_cong)
  finally have r: "rateLimitMap ?s1 = rateLimitMap ?s1'" .
  have rest: "\<forall>c \<in> set cs. \<forall>s. rateLimitMap (snd (snd c s)) = rateLimitMap (snd (checkRateLimit key s))"
    using Cons.prems(1) by simp
  have "rateLimitMap (snd (calls_at cs ?s1)) = rateLimitMap (snd (admissions key (map fst cs) ?s1'))"
    by (rule Cons.IH [OF rest r])
  then show ?case by (simp add: c Let_def case_prod_beta)
qed

lemma calls_hundred:
  assumes "\<forall>c \<in> set cs. \<forall>s. rateLimitMap (snd (snd c s)) = rateLimitMap (snd (checkRateLimit key s))"
    and "recorded key s = []" "length cs = 100"
    and "\<forall>x \<in> set (map fst cs @ [t']). lo \<le> x \<and> x < lo + RATE_LIMIT_WINDOW"
  shows "recorded key (snd (calls_at cs s)) = map fst cs"
    and "\<not> fst (checkRateLimit key ((snd (calls_at cs s))\<lparr>now := t'\<rparr>))"
proof -
  let ?S = "snd (calls_at cs s)"
  have "fst (admissions key (map fst cs) s) = replicate (length (map fst cs)) True \<and>
        recorded key (snd (admissions key (map fst cs) s)) = recorded key s @ map fst cs"
    using assms(2,3,4) by (intro admissions_within_window [where lo = lo])
      (auto simp: RATE_LIMIT_REQUESTS_def)
  then have "recorded key (snd (admissions key (map fst cs) s)) = map fst cs"
    using assms(2) by simp
  moreover have "recorded key ?S = recorded key (snd (admissions key (map fst cs) s))"
    by (rule recorded_cong) (rule calls_at_rate [OF assms(1) refl])
  ultimately show rec: "recorded key ?S = map fst cs" by simp
  have "\<forall>x \<in> set (map fst cs). t' - x < RATE_LIMIT_WINDOW"
  proof
    fix x assume "x \<in> set (map fst cs)"
    then have "lo \<le> x" and "t' < lo + RATE_LIMIT_WINDOW" using assms(4) by auto
    then show "t' - x < RATE_LIMIT_WINDOW" by linarith
  qed
  moreover have "recorded key (?S\<lparr>now := t'\<rparr>) = map fst cs" using rec by (simp add: recorded_def)
  ultimately have "in_window key (?S\<lparr>now := t'\<rparr>) = map fst cs" by (simp add: in_window_def)
  then show "\<not> fst (checkRateLimit key (?S\<lparr>now := t'\<rparr>))"
    using assms(3) by (simp add: denied_iff RATE_LIMIT_REQUESTS_def)
qed

lemma calls_times [simp]:
  "map fst (select_calls t a1) = map fst a1"
  "map fst (insert_calls t a2) = map fst a2"
  "map fst (update_calls t a3) = map fst a3"
  "map fst (delete_calls t a4) = map fst a4"
  by (simp_all add: select_calls_def insert_calls_def update_calls_def delete_calls_def
        comp_def case_prod_beta)

lemma calls_length [simp]:
  "length (select_calls t a1) = length a1"
  "length (insert_calls t a2) = length a2"
  "length (update_calls t a3) = length a3"
  "length (delete_calls t a4) = length a4"
  by (simp_all add: select_calls_def insert_calls_def update_calls_def delete_calls_def)

lemma calls_rate:
  "\<forall>c \<in> set (select_calls t a1). \<forall>s.
     rateLimitMap (snd (snd c s)) = rateLimitMap (snd (checkRateLimit (t @ '':select'') s))"
  "\<forall>c \<in> set (insert_calls t a2). \<forall>s.
     rateLimitMap (snd (snd c s)) = rateLimitMap (snd (checkRateLimit (t @ '':insert'') s))"
  "\<forall>c \<in> set (update_calls t a3). \<forall>s.
     rateLimitMap (snd (snd c s)) = rateLimitMap (snd (checkRateLimit (t @ '':update'') s))"
  "\<forall>c \<in> set (delete_calls t a4). \<forall>s.
     rateLimitMap (snd (snd c s)) = rateLimitMap (snd (checkRateLimit (t @ '':delete'') s))"
  by (auto simp: select_calls_def insert_calls_def update_calls_def delete_calls_def gateway_rate)

lemma admitted_records:
  assumes "length (in_window key s) < RATE_LIMIT_REQUESTS"
    and "rateLimitMap s' = rateLimitMap (snd (checkRateLimit key s))"
  shows "recorded key s' = in_window key s @ [now s]"
  using assms by (simp add: checkRateLimit_admits recorded_def)

lemma select_hundred_and_first:
  assumes "recorded (t @ '':select'') s = []" "length a = 100"
    and "\<forall>x \<in> set (map fst a @ [t']). lo \<le> x \<and> x < lo + RATE_LIMIT_WINDOW"
  shows "recorded (t @ '':select'') (snd (calls_at (select_calls t a) s)) = map fst a \<and>
     middlewareSelect r t c f opts ((snd (calls_at (select_calls t a) s))\<lparr>now := t'\<rparr>) =
       (\<lparr>data = None, error = Some (JsError ''Rate limit exceeded''), status = Error,
         timestamp = t', duration = 0, retries = 0\<rparr>,
        logMetric ''SELECT'' t 0 ''rate_limited'' (Some ''Rate limit exceeded'')
          ((snd (calls_at (select_calls t a) s))\<lparr>now := t'\<rparr>))"
  using calls_hundred [OF calls_rate(1), of t s a t' lo] assms
    select_denied [of t "(snd (calls_at (select_calls t a) s))\<lparr>now := t'\<rparr>" r c f opts]
  by simp

lemma insert_hundred_and_first:
  assumes "recorded (t @ '':insert'') s = []" "length a = 100"
    and "\<forall>x \<in> set (map fst a @ [t']). lo \<le> x \<and> x < lo + RATE_LIMIT_WINDOW"
  shows "recorded (t @ '':insert'') (snd (calls_at (insert_calls t a) s)) = map fst a \<and>
     middlewareInsert r t p opts ((snd (calls_at (insert_calls t a) s))\<lparr>now := t'\<rparr>) =
       (\<lparr>data = None, error = Some (JsError ''Rate limit exceeded''), status = Error,
         timestamp = t', duration = 0, retries = 0\<rparr>,
        logMetric ''INSERT'' t 0 ''rate_limited'' (Some ''Rate limit exceeded'')
          ((snd (calls_at (insert_calls t a) s))\<lparr>now := t'\<rparr>))"
  using calls_hundred [OF calls_rate(2), of t s a t' lo] assms
    insert_denied [of t "(snd (calls_at (insert_calls t a) s))\<lparr>now := t'\<rparr>" r p opts]
  by simp

lemma update_hundred_and_first:
  assumes "recorded (t @ '':update'') s = []" "length a = 100"
    and "\<forall>x \<in> set (map fst a @ [t']). lo \<le> x \<and> x < lo + RATE_LIMIT_WINDOW"
  shows "recorded (t @ '':update'') (snd (calls_at (update_calls t a) s)) = map fst a \<and>
     middlewareUpdate r t u g opts ((snd (calls_at (update_calls t a) s))\<lparr>now := t'\<rparr>) =
       (\<lparr>data = None, error = Some (JsError ''Rate limit exceeded''), status = Error,
         timestamp = t', duration = 0, retries = 0\<rparr>,
        logMetric ''UPDATE'' t 0 ''rate_limited'' (Some ''Rate limit exceeded'')
          ((snd (calls_at (update_calls t a) s))\<lparr>now := t'\<rparr>))"
  using calls_hundred [OF calls_rate(3), of t s a t' lo] assms
    update_denied [of t "(snd (calls_at (update_calls t a) s))\<lparr>now := t'\<rparr>" r u g opts]
  by simp

lemma delete_hundred_and_first:
  assumes "recorded (t @ '':delete'') s = []" "length a = 100"
    and "\<forall>x \<in> set (map fst a @ [t']). lo \<le> x \<and> x < lo + RATE_LIMIT_WINDOW"
  shows "recorded (t @ '':delete'') (snd (calls_at (delete_calls t a) s)) = map fst a \<and>
     middlewareDelete r t g opts ((snd (calls_at (delete_calls t a) s))\<lparr>now := t'\<rparr>) =
       (\<lparr>data = None, error = Some (JsError ''Rate limit exceeded''), status = Error,
         timestamp = t', duration = 0, retries = 0\<rparr>,
        logMetric ''DELETE'' t 0 ''rate_limited'' (Some ''Rate limit exceeded'')
          ((snd (calls_at (delete_calls t a) s))\<lparr>now := t'\<rparr>))"
  using calls_hundred [OF calls_rate(4), of t s a t' lo] assms
    delete_denied [of t "(snd (calls_at (delete_calls t a) s))\<lparr>now := t'\<rparr>" r g opts]
  by simp

text \<open>
  Claim C6. At an admission check of a key, when the number of recorded timestamps within
  the trailing window of 60 seconds is at or above 100, the check answers \<open>false\<close> and
  changes nothing, and the gateway call returns at once with status \<open>error\<close>,
  \<open>retries = 0\<close> and \<open>duration = 0\<close>, having sent no request (it only logs the metric
  \<open>rate_limited\<close>); otherwise the check records the current time after the timestamps
  within the window and answers \<open>true\<close>. Of 101 checks of a fresh key made within one
  window, the first hundred are admitted and the last is denied. A gateway call leaves the
  rate windows as its admission check made them, so an admitted call of \<open>middlewareSelect\<close>,
  \<open>middlewareInsert\<close>, \<open>middlewareUpdate\<close> or \<open>middlewareDelete\<close> leaves its time recorded
  after the timestamps within the window. Hence, of 101 calls of one of these operations
  on one table, with any arguments and against any remote sides, started within one window
  from a state with nothing recorded for the key: the first hundred leave their times
  recorded, and the 101st returns at once with status \<open>error\<close>, \<open>retries = 0\<close> and
  \<open>duration = 0\<close>, having sent no request.
\<close>

theorem rate_limit_admission:
  "(RATE_LIMIT_REQUESTS \<le> length (in_window key s) \<longrightarrow> checkRateLimit key s = (False, s))
    \<and> (length (in_window key s) < RATE_LIMIT_REQUESTS \<longrightarrow>
        checkRateLimit key s =
          (True, s\<lparr>rateLimitMap := (rateLimitMap s)(key \<mapsto> in_window key s @ [now s])\<rparr>))
    \<and> (RATE_LIMIT_REQUESTS \<le> length (in_window (t @ '':select'') s) \<longrightarrow>
        middlewareSelect r t c f opts s =
          (\<lparr>data = None, error = Some (JsError ''Rate limit exceeded''), status = Error,
            timestamp = now s, duration = 0, retries = 0\<rparr>,
           logMetric ''SELECT'' t 0 ''rate_limited'' (Some ''Rate limit exceeded'') s) \<and>
        calls (snd (middlewareSelect r t c f opts s)) = calls s)
    \<and> (RATE_LIMIT_REQUESTS \<le> length (in_window (t @ '':insert'') s) \<longrightarrow>
        middlewareInsert r t p opts s =
          (\<lparr>data = None, error = Some (JsError ''Rate limit exceeded''), status = Error,
            timestamp = now s, duration = 0, retries = 0\<rparr>,
           logMetric ''INSERT'' t 0 ''rate_limited'' (Some ''Rate limit exceeded'') s) \<and>
        calls (snd (middlewareInsert r t p opts s)) = calls s)
    \<and> (RATE_LIMIT_REQUESTS \<le> length (in_window (t @ '':update'') s) \<longrightarrow>
        middlewareUpdate r t u g opts s =
          (\<lparr>data = None, error = Some (JsError ''Rate limit exceeded''), status = Error,
            timestamp = now s, duration = 0, retries = 0\<rparr>,
           logMetric ''UPDATE'' t 0 ''rate_limited'' (Some ''Rate limit exceeded'') s) \<and>
        calls (snd (middlewareUpdate r t u g opts s)) = calls s)
    \<and> (RATE_LIMIT_REQUESTS \<le> length (in_window (t @ '':delete'') s) \<longrightarrow>
        middlewareDelete r t g opts s =
          (\<lparr>data = None, error = Some (JsError ''Rate limit exceeded''), status = Error,
            timestamp = now s, duration = 0, retries = 0\<rparr>,
           logMetric ''DELETE'' t 0 ''rate_limited'' (Some ''Rate limit exceeded'') s) \<and>
        calls (snd (middlewareDelete r t g opts s)) = calls s)
    \<and> (recorded key s = [] \<and> length ts = 100 \<and>
        (\<forall>x \<in> set (ts @ [t']). lo \<le> x \<and> x < lo + RATE_LIMIT_WINDOW) \<longrightarrow>
        fst (admissions key (ts @ [t']) s) = replicate 100 True @ [False])
    \<and> rateLimitMap (snd (middlewareSelect r t c f opts s)) =
        rateLimitMap (snd (checkRateLimit (t @ '':select'') s))
    \<and> rateLimitMap (snd (middlewareInsert r t p opts s)) =
        rateLimitMap (snd (checkRateLimit (t @ '':insert'') s))
    \<and> rateLimitMap (snd (middlewareUpdate r t u g opts s)) =
        rateLimitMap (snd (checkRateLimit (t @ '':update'') s))
    \<and> rateLimitMap (snd (middlewareDelete r t g opts s)) =
        rateLimitMap (snd (checkRateLimit (t @ '':delete'') s))
    \<and> (length (in_window (t @ '':select'') s) < RATE_LIMIT_REQUESTS \<longrightarrow>
        recorded (t @ '':select'') (snd (middlewareSelect r t c f opts s)) =
          in_window (t @ '':select'') s @ [now s])
    \<and> (length (in_window (t @ '':insert'') s) < RATE_LIMIT_REQUESTS \<longrightarrow>
        recorded (t @ '':insert'') (snd (middlewareInsert r t p opts s)) =
          in_window (t @ '':insert'') s @ [now s])
    \<and> (length (in_window (t @ '':update'') s) < RATE_LIMIT_REQUESTS \<longrightarrow>
        recorded (t @ '':update'') (snd (middlewareUpdate r t u g opts s)) =
          in_window (t @ '':update'') s @ [now s])
    \<and> (length (in_window (t @ '':delete'') s) < RATE_LIMIT_REQUESTS \<longrightarrow>
        recorded (t @ '':delete'') (snd (middlewareDelete r t g opts s)) =
          in_window (t @ '':delete'') s @ [now s])
    \<and> (recorded (t @ '':select'') s = [] \<and> length a1 = 100 \<and>
        (\<forall>x \<in> set (map fst a1 @ [t']). lo \<le> x \<and> x < lo + RATE_LIMIT_WINDOW) \<longrightarrow>
        recorded (t @ '':select'') (snd (calls_at (select_calls t a1) s)) = map fst a1 \<and>
        middlewareSelect r t c f opts ((snd (calls_at (select_calls t a1) s))\<lparr>now := t'\<rparr>) =
          (\<lparr>data = None, error = Some (JsError ''Rate limit exceeded''), status = Error,
            timestamp = t', duration = 0, retries = 0\<rparr>,
           logMetric ''SELECT'' t 0 ''rate_limited'' (Some ''Rate limit exceeded'')
             ((snd (calls_at (select_calls t a1) s))\<lparr>now := t'\<rparr>)) \<and>
        calls (snd (middlewareSelect r t c f opts ((snd (calls_at (select_calls t a1) s))\<lparr>now := t'\<rparr>))) =
          calls (snd (calls_at (select_calls t a1) s)))
    \<and> (recorded (t @ '':insert'') s = [] \<and> length a2 = 100 \<and>
        (\<forall>x \<in> set (map fst a2 @ [t']). lo \<le> x \<and> x < lo + RATE_LIMIT_WINDOW) \<longrightarrow>
        recorded (t @ '':insert'') (snd (calls_at (insert_calls t a2) s)) = map fst a2 \<and>
        middlewareInsert r t p opts ((snd (calls_at (insert_calls t a2) s))\<lparr>now := t'\<rparr>) =
          (\<lparr>data = None, error = Some (JsError ''Rate limit exceeded''), status = Error,
            timestamp = t', duration = 0, retries = 0\<rparr>,
           logMetric ''INSERT'' t 0 ''rate_limited'' (Some ''Rate limit exceeded'')
             ((snd (calls_at (insert_calls t a2) s))\<lparr>now := t'\<rparr>)) \<and>
        calls (snd (middlewareInsert r t p opts ((snd (calls_at (insert_calls t a2) s))\<lparr>now := t'\<rparr>))) =
          calls (snd (calls_at (insert_calls t a2) s)))
    \<and> (recorded (t @ '':update'') s = [] \<and> length a3 = 100 \<and>
        (\<forall>x \<in> set (map fst a3 @ [t']). lo \<le> x \<and> x < lo + RATE_LIMIT_WINDOW) \<longrightarrow>
        recorded (t @ '':update'') (snd (calls_at (update_calls t a3) s)) = map fst a3 \<and>
        middlewareUpdate r t u g opts ((snd (calls_at (update_calls t a3) s))\<lparr>now := t'\<rparr>) =
          (\<lparr>data = None, error = Some (JsError ''Rate limit exceeded''), status = Error,
            timestamp = t', duration = 0, retries = 0\<rparr>,
           logMetric ''UPDATE'' t 0 ''rate_limited'' (Some ''Rate limit exceeded'')
             ((snd (calls_at (update_calls t a3) s))\<lparr>now := t'\<rparr>)) \<and>
        calls (snd (middlewareUpdate r t u g opts ((snd (calls_at (update_calls t a3) s))\<lparr>now := t'\<rparr>))) =
          calls (snd (calls_at (update_calls t a3) s)))
    \<and> (recorded (t @ '':delete'') s = [] \<and> length a4 = 100 \<and>
        (\<forall>x \<in> set (map fst a4 @ [t']). lo \<le> x \<and> x < lo + RATE_LIMIT_WINDOW) \<longrightarrow>
        recorded (t @ '':delete'') (snd (calls_at (delete_calls t a4) s)) = map fst a4 \<and>
        middlewareDelete r t g opts ((snd (calls_at (delete_calls t a4) s))\<lparr>now := t'\<rparr>) =
          (\<lparr>data = None, error = Some (JsError ''Rate limit exceeded''), status = Error,
            timestamp = t', duration = 0, retries = 0\<rparr>,
           logMetric ''DELETE'' t 0 ''rate_limited'' (Some ''Rate limit exceeded'')
             ((snd (calls_at (delete_calls t a4) s))\<lparr>now := t'\<rparr>)) \<and>
        calls (snd (middlewareDelete r t g opts ((snd (calls_at (delete_calls t a4) s))\<lparr>now := t'\<rparr>))) =
          calls (snd (calls_at (delete_calls t a4) s)))"
proof -
  have deny: "(RATE_LIMIT_REQUESTS \<le> length (in_window key s) \<longrightarrow> checkRateLimit key s = (False, s))"
    using checkRateLimit_denies [of key s] by simp
  have admit: "(length (in_window key s) < RATE_LIMIT_REQUESTS \<longrightarrow>
        checkRateLimit key s =
          (True, s\<lparr>rateLimitMap := (rateLimitMap s)(key \<mapsto> in_window key s @ [now s])\<rparr>))"
    using checkRateLimit_admits [of key s] by simp
  have sd: "(RATE_LIMIT_REQUESTS \<le> length (in_window (t @ '':select'') s) \<longrightarrow>
        middlewareSelect r t c f opts s =
          (\<lparr>data = None, error = Some (JsError ''Rate limit exceeded''), status = Error,
            timestamp = now s, duration = 0, retries = 0\<rparr>,
           logMetric ''SELECT'' t 0 ''rate_limited'' (Some ''Rate limit exceeded'') s) \<and>
        calls (snd (middlewareSelect r t c f opts s)) = calls s)"
    using select_denied [of t s r c f opts] by (simp add: denied_iff)
  have idn: "(RATE_LIMIT_REQUESTS \<le> length (in_window (t @ '':insert'') s) \<longrightarrow>
        middlewareInsert r t p opts s =
          (\<lparr>data = None, error = Some (JsError ''Rate limit exceeded''), status = Error,
            timestamp = now s, duration = 0, retries = 0\<rparr>,
           logMetric ''INSERT'' t 0 ''rate_limited'' (Some ''Rate limit exceeded'') s) \<and>
        calls (snd (middlewareInsert r t p opts s)) = calls s)"
    using insert_denied [of t s r p opts] by (simp add: denied_iff)
  have ud: "(RATE_LIMIT_REQUESTS \<le> length (in_window (t @ '':update'') s) \<longrightarrow>
        middlewareUpdate r t u g opts s =
          (\<lparr>data = None, error = Some (JsError ''Rate limit exceeded''), status = Error,
            timestamp = now s, duration = 0, retries = 0\<rparr>,
           logMetric ''UPDATE'' t 0 ''rate_limited'' (Some ''Rate limit exceeded'') s) \<and>
        calls (snd (middlewareUpdate r t u g opts s)) = calls s)"
    using update_denied [of t s r u g opts] by (simp add: denied_iff)
  have dd: "(RATE_LIMIT_REQUESTS \<le> length (in_window (t @ '':delete'') s) \<longrightarrow>
        middlewareDelete r t g opts s =
          (\<lparr>data = None, error = Some (JsError ''Rate limit exceeded''), status = Error,
            timestamp = now s, duration = 0, retries = 0\<rparr>,
           logMetric ''DELETE'' t 0 ''rate_limited'' (Some ''Rate limit exceeded'') s) \<and>
        calls (snd (middlewareDelete r t g opts s)) = calls s)"
    using delete_denied [of t s r g opts] by (simp add: denied_iff)
  have adm101: "(recorded key s = [] \<and> length ts = 100 \<and>
        (\<forall>x \<in> set (ts @ [t']). lo \<le> x \<and> x < lo + RATE_LIMIT_WINDOW) \<longrightarrow>
        fst (admissions key (ts @ [t']) s) = replicate 100 True @ [False])"
    using hundred_and_first [where key = key and s = s and ts = ts and lo = lo and t' = t'] by simp
  have sr: "rateLimitMap (snd (middlewareSelect r t c f opts s)) =
        rateLimitMap (snd (checkRateLimit (t @ '':select'') s))"
    by (rule gateway_rate)
  have ir: "rateLimitMap (snd (middlewareInsert r t p opts s)) =
        rateLimitMap (snd (checkRateLimit (t @ '':insert'') s))"
    by (rule gateway_rate)
  have ur: "rateLimitMap (snd (middlewareUpdate r t u g opts s)) =
        rateLimitMap (snd (checkRateLimit (t @ '':update'') s))"
    by (rule gateway_rate)
  have dr: "rateLimitMap (snd (middlewareDelete r t g opts s)) =
        rateLimitMap (snd (checkRateLimit (t @ '':delete'') s))"
    by (rule gateway_rate)
  have sa: "(length (in_window (t @ '':select'') s) < RATE_LIMIT_REQUESTS \<longrightarrow>
        recorded (t @ '':select'') (snd (middlewareSelect r t c f opts s)) =
          in_window (t @ '':select'') s @ [now s])"
    using admitted_records [OF _ gateway_rate(1)] by simp
  have ia: "(length (in_window (t @ '':insert'') s) < RATE_LIMIT_REQUESTS \<longrightarrow>
        recorded (t @ '':insert'') (snd (middlewareInsert r t p opts s)) =
          in_window (t @ '':insert'') s @ [now s])"
    using admitted_records [OF _ gateway_rate(2)] by simp
  have ua: "(length (in_window (t @ '':update'') s) < RATE_LIMIT_REQUESTS \<longrightarrow>
        recorded (t @ '':update'') (snd (middlewareUpdate r t u g opts s)) =
          in_window (t @ '':update'') s @ [now s])"
    using admitted_records [OF _ gateway_rate(3)] by simp
  have da: "(length (in_window (t @ '':delete'') s) < RATE_LIMIT_REQUESTS \<longrightarrow>
        recorded (t @ '':delete'') (snd (middlewareDelete r t g opts s)) =
          in_window (t @ '':delete'') s @ [now s])"
    using admitted_records [OF _ gateway_rate(4)] by simp
  have sh: "(recorded (t @ '':select'') s = [] \<and> length a1 = 100 \<and>
        (\<forall>x \<in> set (map fst a1 @ [t']). lo \<le> x \<and> x < lo + RATE_LIMIT_WINDOW) \<longrightarrow>
        recorded (t @ '':select'') (snd (calls_at (select_calls t a1) s)) = map fst a1 \<and>
        middlewareSelect r t c f opts ((snd (calls_at (select_calls t a1) s))\<lparr>now := t'\<rparr>) =
          (\<lparr>data = None, error = Some (JsError ''Rate limit exceeded''), status = Error,
            timestamp = t', duration = 0, retries = 0\<rparr>,
           logMetric ''SELECT'' t 0 ''rate_limited'' (Some ''Rate limit exceeded'')
             ((snd (calls_at (select_calls t a1) s))\<lparr>now := t'\<rparr>)) \<and>
        calls (snd (middlewareSelect r t c f opts ((snd (calls_at (select_calls t a1) s))\<lparr>now := t'\<rparr>))) =
          calls (snd (calls_at (select_calls t a1) s)))"
    using select_hundred_and_first [of t s a1 t' lo r c f opts] by simp
  have ih: "(recorded (t @ '':insert'') s = [] \<and> length a2 = 100 \<and>
        (\<forall>x \<in> set (map fst a2 @ [t']). lo \<le> x \<and> x < lo + RATE_LIMIT_WINDOW) \<longrightarrow>
        recorded (t @ '':insert'') (snd (calls_at (insert_calls t a2) s)) = map fst a2 \<and>
        middlewareInsert r t p opts ((snd (calls_at (insert_calls t a2) s))\<lparr>now := t'\<rparr>) =
          (\<lparr>data = None, error = Some (JsError ''Rate limit exceeded''), status = Error,
            timestamp = t', duration = 0, retries = 0\<rparr>,
           logMetric ''INSERT'' t 0 ''rate_limited'' (Some ''Rate limit exceeded'')
             ((snd (calls_at (insert_calls t a2) s))\<lparr>now := t'\<rparr>)) \<and>
        calls (snd (middlewareInsert r t p opts ((snd (calls_at (insert_calls t a2) s))\<lparr>now := t'\<rparr>))) =
          calls (snd (calls_at (insert_calls t a2) s)))"
    using insert_hundred_and_first [of t s a2 t' lo r p opts] by simp
  have uh: "(recorded (t @ '':update'') s = [] \<and> length a3 = 100 \<and>
        (\<forall>x \<in> set (map fst a3 @ [t']). lo \<le> x \<and> x < lo + RATE_LIMIT_WINDOW) \<longrightarrow>
        recorded (t @ '':update'') (snd (calls_at (update_calls t a3) s)) = map fst a3 \<and>
        middlewareUpdate r t u g opts ((snd (calls_at (update_calls t a3) s))\<lparr>now := t'\<rparr>) =
          (\<lparr>data = None, error = Some (JsError ''Rate limit exceeded''), status = Error,
            timestamp = t', duration = 0, retries = 0\<rparr>,
           logMetric ''UPDATE'' t 0 ''rate_limited'' (Some ''Rate limit exceeded'')
             ((snd (calls_at (update_calls t a3) s))\<lparr>now := t'\<rparr>)) \<and>
        calls (snd (middlewareUpdate r t u g opts ((snd (calls_at (update_calls t a3) s))\<lparr>now := t'\<rparr>))) =
          calls (snd (calls_at (update_calls t a3) s)))"
    using update_hundred_and_first [of t s a3 t' lo r u g opts] by simp
  have dh: "(recorded (t @ '':delete'') s = [] \<and> length a4 = 100 \<and>
        (\<forall>x \<in> set (map fst a4 @ [t']). lo \<le> x \<and> x < lo + RATE_LIMIT_WINDOW) \<longrightarrow>
        recorded (t @ '':delete'') (snd (calls_at (delete_calls t a4) s)) = map fst a4 \<and>
        middlewareDelete r t g opts ((snd (calls_at (delete_calls t a4) s))\<lparr>now := t'\<rparr>) =
          (\<lparr>data = None, error = Some (JsError ''Rate limit exceeded''), status = Error,
            timestamp = t', duration = 0, retries = 0\<rparr>,
           logMetric ''DELETE'' t 0 ''rate_limited'' (Some ''Rate limit exceeded'')
             ((snd (calls_at (delete_calls t a4) s))\<lparr>now := t'\<rparr>)) \<and>
        calls (snd (middlewareDelete r t g opts ((snd (calls_at (delete_calls t a4) s))\<lparr>now := t'\<rparr>))) =
          calls (snd (calls_at (delete_calls t a4) s)))"
    using delete_hundred_and_first [of t s a4 t' lo r g opts] by simp
  show ?thesis
    by (intro conjI deny admit sd idn ud dd adm101 sr ir ur dr sa ia ua da sh ih uh dh)
qed

text \<open>A key with a hundred timestamps in the window is denied, and a select on it returns at
  once; a fresh key is admitted, and a select on it leaves its time recorded; of 101 checks
  of a fresh key between times 5 and 9 the last is denied; after a hundred inserts into
  \<open>users\<close> at time 5, an insert at time 9 is denied.\<close>

theorem rate_limit_admission_witness:
  "RATE_LIMIT_REQUESTS \<le> length (in_window ''users:select'' world_full)
   \<and> checkRateLimit ''users:select'' world_full = (False, world_full)
   \<and> status (fst (middlewareSelect remote_up ''users'' ''*'' None no_options world_full)) = Error
   \<and> retries (fst (middlewareSelect remote_up ''users'' ''*'' None no_options world_full)) = 0
   \<and> calls (snd (middlewareSelect remote_up ''users'' ''*'' None no_options world_full)) =
        calls world_full
   \<and> length (in_window ''users:select'' world0) < RATE_LIMIT_REQUESTS
   \<and> fst (checkRateLimit ''users:select'' world0)
   \<and> fst (admissions ''users:select'' (replicate 100 5 @ [9]) world0) =
        replicate 100 True @ [False]
   \<and> recorded ''users:select''
         (snd (middlewareSelect remote_up ''users'' ''*'' None no_options world0)) = [0]
   \<and> recorded ''users:insert'' world0 = []
   \<and> recorded ''users:insert'' (snd (calls_at (insert_calls ''users'' (replicate 100 (5, remote_up, JNull, no_options))) world0)) = replicate 100 5
   \<and> status (fst (middlewareInsert remote_up ''users'' JNull no_options
                      ((snd (calls_at (insert_calls ''users'' (replicate 100 (5, remote_up, JNull, no_options))) world0))\<lparr>now := 9\<rparr>))) = Error
   \<and> retries (fst (middlewareInsert remote_up ''users'' JNull no_options
                      ((snd (calls_at (insert_calls ''users'' (replicate 100 (5, remote_up, JNull, no_options))) world0))\<lparr>now := 9\<rparr>))) = 0
   \<and> calls (snd (middlewareInsert remote_up ''users'' JNull no_options
                      ((snd (calls_at (insert_calls ''users'' (replicate 100 (5, remote_up, JNull, no_options))) world0))\<lparr>now := 9\<rparr>))) = calls (snd (calls_at (insert_calls ''users'' (replicate 100 (5, remote_up, JNull, no_options))) world0))"
proof -
  have h1: "RATE_LIMIT_REQUESTS \<le> length (in_window ''users:select'' world_full)"
    by (simp add: world_full_window RATE_LIMIT_REQUESTS_def)
  have h2: "length (in_window ''users:select'' world0) < RATE_LIMIT_REQUESTS"
    by (simp add: in_window_def recorded_def world0_def RATE_LIMIT_REQUESTS_def)
  have h2': "in_window ''users:select'' world0 = []" "now world0 = 0"
    by (simp_all add: in_window_def recorded_def world0_def)
  have h3: "recorded ''users:select'' world0 = []" by (simp add: recorded_def world0_def)
  have h4: "length (replicate 100 (5::int)) = 100" by simp
  have h5: "\<forall>x \<in> set (replicate 100 5 @ [9]). (0::int) \<le> x \<and> x < 0 + RATE_LIMIT_WINDOW"
    by (simp add: RATE_LIMIT_WINDOW_def)
  have h6: "recorded ''users:insert'' world0 = []" by (simp add: recorded_def world0_def)
  have h7: "length (replicate 100 (5::int, remote_up, JNull, no_options)) = 100" by simp
  have h8: "\<forall>x \<in> set (map fst (replicate 100 (5::int, remote_up, JNull, no_options)) @ [9]).
              0 \<le> x \<and> x < 0 + RATE_LIMIT_WINDOW"
    by (simp add: RATE_LIMIT_WINDOW_def)
  note a = rate_limit_admission [where key = "''users:select''" and s = world_full
        and t = "''users''" and r = remote_up and c = "''*''" and f = None and opts = no_options
        and p = JNull and u = JNull and g = "[]" and ts = "[]" and t' = 0 and lo = 0
        and ?a1.0 = "[]" and ?a2.0 = "[]" and ?a3.0 = "[]" and ?a4.0 = "[]"]
  note b = rate_limit_admission [where key = "''users:select''" and s = world0
        and t = "''users''" and r = remote_up and c = "''*''" and f = None and opts = no_options
        and p = JNull and u = JNull and g = "[]" and ts = "replicate 100 5" and t' = 9 and lo = 0
        and ?a1.0 = "[]" and ?a2.0 = "replicate 100 (5, remote_up, JNull, no_options)"
        and ?a3.0 = "[]" and ?a4.0 = "[]"]
  have A: "checkRateLimit ''users:select'' world_full = (False, world_full)"
    using a [THEN conjunct1] h1 by simp
  have B: "status (fst (middlewareSelect remote_up ''users'' ''*'' None no_options world_full)) = Error
   \<and> retries (fst (middlewareSelect remote_up ''users'' ''*'' None no_options world_full)) = 0
   \<and> calls (snd (middlewareSelect remote_up ''users'' ''*'' None no_options world_full)) =
        calls world_full"
    using a [THEN conjunct2, THEN conjunct2, THEN conjunct1] h1 by simp
  have C: "fst (checkRateLimit ''users:select'' world0)"
    using b [THEN conjunct2, THEN conjunct1] h2 by simp
  have D: "fst (admissions ''users:select'' (replicate 100 5 @ [9]) world0) =
        replicate 100 True @ [False]"
    using b [THEN conjunct2, THEN conjunct2, THEN conjunct2, THEN conjunct2, THEN conjunct2, THEN conjunct2, THEN conjunct1] h3 h4 h5 by simp
  have E: "recorded ''users:select''
         (snd (middlewareSelect remote_up ''users'' ''*'' None no_options world0)) = [0]"
    using b [THEN conjunct2, THEN conjunct2, THEN conjunct2, THEN conjunct2, THEN conjunct2, THEN conjunct2, THEN conjunct2, THEN conjunct2, THEN conjunct2, THEN conjunct2, THEN conjunct2, THEN conjunct1] h2 h2' by simp
  have F: "recorded ''users:insert'' (snd (calls_at (insert_calls ''users'' (replicate 100 (5, remote_up, JNull, no_options))) world0)) = replicate 100 5
   \<and> status (fst (middlewareInsert remote_up ''users'' JNull no_options
                      ((snd (calls_at (insert_calls ''users'' (replicate 100 (5, remote_up, JNull, no_options))) world0))\<lparr>now := 9\<rparr>))) = Error
   \<and> retries (fst (middlewareInsert remote_up ''users'' JNull no_options
                      ((snd (calls_at (insert_calls ''users'' (replicate 100 (5, remote_up, JNull, no_options))) world0))\<lparr>now := 9\<rparr>))) = 0
   \<and> calls (snd (middlewareInsert remote_up ''users'' JNull no_options
                      ((snd (calls_at (insert_calls ''users'' (replicate 100 (5, remote_up, JNull, no_options))) world0))\<lparr>now := 9\<rparr>))) = calls (snd (calls_at (insert_calls ''users'' (replicate 100 (5, remote_up, JNull, no_options))) world0))"
    using b [THEN conjunct2, THEN conjunct2, THEN conjunct2, THEN conjunct2, THEN conjunct2, THEN conjunct2, THEN conjunct2, THEN conjunct2, THEN conjunct2, THEN conjunct2, THEN conjunct2, THEN conjunct2, THEN conjunct2, THEN conjunct2, THEN conjunct2, THEN conjunct2, THEN conjunct1] h6 h7 h8 by simp
  show ?thesis
    using h1 h2 h6 A B C D E F by simp
qed

section \<open>Backoff\<close>




section \<open>Pruning of the rate window\<close>

lemma check_bounded:
  assumes "\<forall>key. length (recorded key s) \<le> RATE_LIMIT_REQUESTS"
  shows "length (recorded key (snd (checkRateLimit k s))) \<le> RATE_LIMIT_REQUESTS"
proof (cases "length (in_window k s) < RATE_LIMIT_REQUESTS")
  case True
  then show ?thesis
    using assms by (cases "key = k") (simp_all add: checkRateLimit_admits recorded_def)
next
  case False
  then show ?thesis using assms by (simp add: checkRateLimit_denies)
qed

lemma reachable_bounded:
  "reachable s \<Longrightarrow> \<forall>key. length (recorded key s) \<le> RATE_LIMIT_REQUESTS"
proof (induction rule: reachable.induct)
  case (start t)
  then show ?case by (simp add: recorded_def world0_def)
next
  case (tick s t)
  then show ?case by (simp add: recorded_def)
next
  case (select s r table cols f opts)
  then show ?case
    using check_bounded [of s _ "table @ '':select''"]
    by (simp add: recorded_cong [OF gateway_rate(1)])
next
  case (insert s r table p opts)
  then show ?case
    using check_bounded [of s _ "table @ '':insert''"]
    by (simp add: recorded_cong [OF gateway_rate(2)])
next
  case (update s r table u g opts)
  then show ?case
    using check_bounded [of s _ "table @ '':update''"]
    by (simp add: recorded_cong [OF gateway_rate(3)])
next
  case (delete s r table g opts)
  then show ?case
    using check_bounded [of s _ "table @ '':delete''"]
    by (simp add: recorded_cong [OF gateway_rate(4)])
next
  case (signIn s r e pw opts)
  then show ?case by (simp add: recorded_cong [OF gateway_rate(5)])
next
  case (signUp s r e pw opts)
  then show ?case by (simp add: recorded_cong [OF gateway_rate(6)])
next
  case (signOut s r tok opts)
  then show ?case by (simp add: recorded_cong [OF gateway_rate(7)])
qed

subsection \<open>The window after a check\<close>

lemma check_pruned:
  assumes "length (recorded key s) \<le> RATE_LIMIT_REQUESTS"
  shows "filter (\<lambda>ts. \<not> now s - ts < RATE_LIMIT_WINDOW)
           (recorded key (snd (checkRateLimit key s))) = []"
proof (cases "length (in_window key s) < RATE_LIMIT_REQUESTS")
  case True
  have "filter (\<lambda>ts. \<not> now s - ts < RATE_LIMIT_WINDOW) (in_window key s) = []"
    by (simp add: in_window_def)
  then show ?thesis
    using True by (simp add: checkRateLimit_admits recorded_def RATE_LIMIT_WINDOW_def)
next
  case False
  let ?P = "\<lambda>ts. now s - ts < RATE_LIMIT_WINDOW"
  have full: "length (recorded key s) \<le> length (filter ?P (recorded key s))"
    using False assms by (simp add: in_window_def)
  have "\<forall>x \<in> set (recorded key s). ?P x"
  proof (rule ccontr)
    assume "\<not> (\<forall>x \<in> set (recorded key s). ?P x)"
    then obtain x where "x \<in> set (recorded key s)" "\<not> ?P x" by blast
    then have "length (filter ?P (recorded key s)) < length (recorded key s)"
      by (rule length_filter_less)
    then show False using full by simp
  qed
  then have "filter (\<lambda>ts. \<not> now s - ts < RATE_LIMIT_WINDOW) (recorded key s) = []"
    by (simp add: filter_empty_conv)
  then show ?thesis using False by (simp add: checkRateLimit_denies)
qed

text \<open>
  Claim C8. At every admission check the timestamps older than the window are left out
  of the count, whether the check then admits or denies: the answer is \<open>true\<close> exactly
  when fewer than 100 recorded timestamps lie within the window. And in every state that
  a process can reach, a stored window holds at most 100 timestamps, so that after a
  check, admitting or denying, the stored window of the key holds no timestamp older
  than the window at the time of that check.
\<close>

theorem rate_window_pruning:
  "fst (checkRateLimit key s) = (length (in_window key s) < RATE_LIMIT_REQUESTS)
   \<and> filter (\<lambda>ts. \<not> now s - ts < RATE_LIMIT_WINDOW) (in_window key s) = []
   \<and> (reachable s \<longrightarrow> length (recorded key s) \<le> RATE_LIMIT_REQUESTS)
   \<and> (length (recorded key s) \<le> RATE_LIMIT_REQUESTS \<longrightarrow>
        filter (\<lambda>ts. \<not> now s - ts < RATE_LIMIT_WINDOW)
          (recorded key (snd (checkRateLimit key s))) = [])
   \<and> (reachable s \<longrightarrow>
        filter (\<lambda>ts. \<not> now s - ts < RATE_LIMIT_WINDOW)
          (recorded key (snd (checkRateLimit key s))) = [])"
  using denied_iff [of key s] reachable_bounded [of s] check_pruned [of key s]
  by (auto simp: in_window_def)

text \<open>A check in a fresh process admits and stores the current time; a check of a window
  with a hundred timestamps 20 seconds old denies, and the stored window holds none
  older than the window.\<close>

theorem rate_window_pruning_witness:
  "reachable (world0\<lparr>now := 5\<rparr>)
   \<and> fst (checkRateLimit ''users:select'' (world0\<lparr>now := 5\<rparr>))
   \<and> recorded ''users:select'' (snd (checkRateLimit ''users:select'' (world0\<lparr>now := 5\<rparr>))) = [5]
   \<and> length (recorded ''users:select'' world_full) \<le> RATE_LIMIT_REQUESTS
   \<and> \<not> fst (checkRateLimit ''users:select'' world_full)
   \<and> filter (\<lambda>ts. \<not> now world_full - ts < RATE_LIMIT_WINDOW)
        (recorded ''users:select'' (snd (checkRateLimit ''users:select'' world_full))) = []"
proof -
  have h1: "reachable (world0\<lparr>now := 5\<rparr>)" by (rule reachable.start)
  have h2: "length (recorded ''users:select'' world_full) \<le> RATE_LIMIT_REQUESTS"
    by (simp add: world_full_window RATE_LIMIT_REQUESTS_def)
  have h3: "in_window ''users:select'' (world0\<lparr>now := 5\<rparr>) = []"
    by (simp add: in_window_def recorded_def world0_def)
  have h4: "recorded ''users:select'' (snd (checkRateLimit ''users:select'' (world0\<lparr>now := 5\<rparr>))) = [5]"
    by (simp add: checkRateLimit_def recorded_def world0_def RATE_LIMIT_REQUESTS_def)
  show ?thesis
    using rate_window_pruning [of "''users:select''" "world0\<lparr>now := 5\<rparr>"]
      rate_window_pruning [of "''users:select''" world_full] h1 h2 h3 h4
    by (simp add: world_full_window RATE_LIMIT_REQUESTS_def)
qed

section \<open>The status \<open>timeout\<close>\<close>

lemma execute_timeout:
  assumes "setTimeout_delay (or_default (read_prop (timeout mo)) 30000)
             \<le> int (fst (query r (calls s)))"
  shows "fst (executeQuery r mo s) = Inl (ThrownError (JsError ''Request timeout''))"
    "fst (executeInsert r mo s) = Inl (ThrownError (JsError ''Request timeout''))"
    "fst (executeUpdate r mo s) = Inl (ThrownError (JsError ''Request timeout''))"
    "fst (executeDelete r mo s) = Inl (ThrownError (JsError ''Request timeout''))"
  using assms by (simp_all add: execute_defs)

lemma select_timeouts:
  assumes "maxRetries opts = Val m" "0 \<le> m" "fst (checkRateLimit (t @ '':select'') s)"
    and "\<not> (truthy_bool (read_prop (cache (spread DEFAULT_OPTIONS opts))) \<and>
            cache_fresh (generateCacheKey t ''select'' f)
              (read_prop (cacheDuration (spread DEFAULT_OPTIONS opts))) s)"
    and "\<forall>n. setTimeout_delay (or_default (read_prop (timeout (spread DEFAULT_OPTIONS opts))) 30000)
               \<le> int (fst (query r n))"
  shows "error (fst (middlewareSelect r t c f opts s)) = Some (JsError ''Request timeout'') \<and>
        (status (fst (middlewareSelect r t c f opts s)) = Error \<or>
         status (fst (middlewareSelect r t c f opts s)) = Retry_exhausted)"
proof -
  have f: "fst (executeQuery r (spread DEFAULT_OPTIONS opts) s') = Inl (ThrownError (JsError ''Request timeout''))" for s'
    using assms(5) by (simp add: execute_timeout)
  then have "\<And>s'. isl (fst (executeQuery r (spread DEFAULT_OPTIONS opts) s'))" by simp
  from select_all_fail [OF retry_limit_Val [OF assms(1)] assms(2,3) this assms(4), of c] show ?thesis
    by (simp add: Let_def final_attempt_def f)
qed

lemma insert_timeouts:
  assumes "maxRetries opts = Val m" "0 \<le> m" "fst (checkRateLimit (t @ '':insert'') s)"
    and "\<forall>n. setTimeout_delay (or_default (read_prop (timeout (spread DEFAULT_OPTIONS opts))) 30000)
               \<le> int (fst (query r n))"
  shows "error (fst (middlewareInsert r t p opts s)) = Some (JsError ''Request timeout'') \<and>
        (status (fst (middlewareInsert r t p opts s)) = Error \<or>
         status (fst (middlewareInsert r t p opts s)) = Retry_exhausted)"
proof -
  have f: "fst (executeInsert r (spread DEFAULT_OPTIONS opts) s') = Inl (ThrownError (JsError ''Request timeout''))" for s'
    using assms(4) by (simp add: execute_timeout)
  then have "\<And>s'. isl (fst (executeInsert r (spread DEFAULT_OPTIONS opts) s'))" by simp
  from insert_all_fail [OF retry_limit_Val [OF assms(1)] assms(2,3) this, of p ] show ?thesis
    by (simp add: Let_def final_attempt_def f)
qed

lemma update_timeouts:
  assumes "maxRetries opts = Val m" "0 \<le> m" "fst (checkRateLimit (t @ '':update'') s)"
    and "\<forall>n. setTimeout_delay (or_default (read_prop (timeout (spread DEFAULT_OPTIONS opts))) 30000)
               \<le> int (fst (query r n))"
  shows "error (fst (middlewareUpdate r t u g opts s)) = Some (JsError ''Request timeout'') \<and>
        (status (fst (middlewareUpdate r t u g opts s)) = Error \<or>
         status (fst (middlewareUpdate r t u g opts s)) = Retry_exhausted)"
proof -
  have f: "fst (executeUpdate r (spread DEFAULT_OPTIONS opts) s') = Inl (ThrownError (JsError ''Request timeout''))" for s'
    using assms(4) by (simp add: execute_timeout)
  then have "\<And>s'. isl (fst (executeUpdate r (spread DEFAULT_OPTIONS opts) s'))" by simp
  from update_all_fail [OF retry_limit_Val [OF assms(1)] assms(2,3) this, of u g ] show ?thesis
    by (simp add: Let_def final_attempt_def f)
qed

lemma delete_timeouts:
  assumes "maxRetries opts = Val m" "0 \<le> m" "fst (checkRateLimit (t @ '':delete'') s)"
    and "\<forall>n. setTimeout_delay (or_default (read_prop (timeout (spread DEFAULT_OPTIONS opts))) 30000)
               \<le> int (fst (query r n))"
  shows "error (fst (middlewareDelete r t g opts s)) = Some (JsError ''Request timeout'') \<and>
        (status (fst (middlewareDelete r t g opts s)) = Error \<or>
         status (fst (middlewareDelete r t g opts s)) = Retry_exhausted)"
proof -
  have f: "fst (executeDelete r (spread DEFAULT_OPTIONS opts) s') = Inl (ThrownError (JsError ''Request timeout''))" for s'
    using assms(4) by (simp add: execute_timeout)
  then have "\<And>s'. isl (fst (executeDelete r (spread DEFAULT_OPTIONS opts) s'))" by simp
  from delete_all_fail [OF retry_limit_Val [OF assms(1)] assms(2,3) this, of g ] show ?thesis
    by (simp add: Let_def final_attempt_def f)
qed

lemma no_timeout_status:
  "status (fst (middlewareSelect r t c f opts s)) \<noteq> Timeout"
  "status (fst (middlewareInsert r t p opts s)) \<noteq> Timeout"
  "status (fst (middlewareUpdate r t u g opts s)) \<noteq> Timeout"
  "status (fst (middlewareDelete r t g opts s)) \<noteq> Timeout"
  "status (fst (middlewareAuthSignIn r e pw opts s)) \<noteq> Timeout"
  "status (fst (middlewareAuthSignUp r e pw opts s)) \<noteq> Timeout"
  "status (fst (middlewareAuthSignOut r tok opts s)) \<noteq> Timeout"
  by (simp_all add: middlewareSelect_def middlewareInsert_def middlewareUpdate_def
        middlewareDelete_def middlewareAuthSignIn_def middlewareAuthSignUp_def
        middlewareAuthSignOut_def withRetry_returns Let_def
        split: prod.splits option.splits bool.splits)

text \<open>
  Claim C9. No gateway operation returns an envelope with status \<open>timeout\<close>: \<open>withRetry\<close>
  always fulfils its promise (it turns every failure of the attempt function, the
  rejection of \<open>withTimeout\<close> included, into the \<open>error\<close> field of its result), so the
  \<open>catch\<close> branch of an operation is never taken. When every attempt of an admitted CRUD
  call is still unanswered when the timer of \<open>withTimeout\<close> fires, the caller gets the
  error \<open>Request timeout\<close> with status \<open>error\<close> or \<open>retry_exhausted\<close>.
\<close>

theorem timeout_status_unreachable:
  "(\<exists>res. fst (withRetry fn mr s) = Inr res)
    \<and> status (fst (middlewareSelect r t c f opts s)) \<noteq> Timeout
    \<and> status (fst (middlewareInsert r t p opts s)) \<noteq> Timeout
    \<and> status (fst (middlewareUpdate r t u g opts s)) \<noteq> Timeout
    \<and> status (fst (middlewareDelete r t g opts s)) \<noteq> Timeout
    \<and> status (fst (middlewareAuthSignIn r e pw opts s)) \<noteq> Timeout
    \<and> status (fst (middlewareAuthSignUp r e pw opts s)) \<noteq> Timeout
    \<and> status (fst (middlewareAuthSignOut r tok opts s)) \<noteq> Timeout
    \<and> (maxRetries opts = Val m \<and> 0 \<le> m \<and> fst (checkRateLimit (t @ '':select'') s) \<and>
        \<not> (truthy_bool (read_prop (cache (spread DEFAULT_OPTIONS opts))) \<and>
           cache_fresh (generateCacheKey t ''select'' f)
             (read_prop (cacheDuration (spread DEFAULT_OPTIONS opts))) s) \<and>
        (\<forall>n. setTimeout_delay (or_default (read_prop (timeout (spread DEFAULT_OPTIONS opts))) 30000)
               \<le> int (fst (query r n))) \<longrightarrow>
        error (fst (middlewareSelect r t c f opts s)) = Some (JsError ''Request timeout'') \<and>
        (status (fst (middlewareSelect r t c f opts s)) = Error \<or>
         status (fst (middlewareSelect r t c f opts s)) = Retry_exhausted))
    \<and> (maxRetries opts = Val m \<and> 0 \<le> m \<and> fst (checkRateLimit (t @ '':insert'') s) \<and>
        (\<forall>n. setTimeout_delay (or_default (read_prop (timeout (spread DEFAULT_OPTIONS opts))) 30000)
               \<le> int (fst (query r n))) \<longrightarrow>
        error (fst (middlewareInsert r t p opts s)) = Some (JsError ''Request timeout'') \<and>
        (status (fst (middlewareInsert r t p opts s)) = Error \<or>
         status (fst (middlewareInsert r t p opts s)) = Retry_exhausted))
    \<and> (maxRetries opts = Val m \<and> 0 \<le> m \<and> fst (checkRateLimit (t @ '':update'') s) \<and>
        (\<forall>n. setTimeout_delay (or_default (read_prop (timeout (spread DEFAULT_OPTIONS opts))) 30000)
               \<le> int (fst (query r n))) \<longrightarrow>
        error (fst (middlewareUpdate r t u g opts s)) = Some (JsError ''Request timeout'') \<and>
        (status (fst (middlewareUpdate r t u g opts s)) = Error \<or>
         status (fst (middlewareUpdate r t u g opts s)) = Retry_exhausted))
    \<and> (maxRetries opts = Val m \<and> 0 \<le> m \<and> fst (checkRateLimit (t @ '':delete'') s) \<and>
        (\<forall>n. setTimeout_delay (or_default (read_prop (timeout (spread DEFAULT_OPTIONS opts))) 30000)
               \<le> int (fst (query r n))) \<longrightarrow>
        error (fst (middlewareDelete r t g opts s)) = Some (JsError ''Request timeout'') \<and>
        (status (fst (middlewareDelete r t g opts s)) = Error \<or>
         status (fst (middlewareDelete r t g opts s)) = Retry_exhausted))"
  using select_timeouts [of opts m t s f r c] insert_timeouts [of opts m t s r p]
    update_timeouts [of opts m t s r u g] delete_timeouts [of opts m t s r g]
  by (simp add: no_timeout_status withRetry_returns)

text \<open>An insert with \<open>maxRetries = 3\<close> whose queries each take 40 seconds against a deadline
  of 30: the envelope carries \<open>Request timeout\<close> and its status is neither \<open>timeout\<close>
  nor \<open>success\<close>.\<close>

theorem timeout_status_unreachable_witness:
  "maxRetries retry3 = Val 3 \<and> fst (checkRateLimit ''users:insert'' world0)
   \<and> (\<forall>n. setTimeout_delay (or_default (read_prop (timeout (spread DEFAULT_OPTIONS retry3))) 30000)
             \<le> int (fst (query remote_slow n)))
   \<and> error (fst (middlewareInsert remote_slow ''users'' JNull retry3 world0)) =
        Some (JsError ''Request timeout'')
   \<and> status (fst (middlewareInsert remote_slow ''users'' JNull retry3 world0)) \<noteq> Timeout
   \<and> status (fst (middlewareInsert remote_slow ''users'' JNull retry3 world0)) \<noteq> Success"
proof -
  have h1: "maxRetries retry3 = Val 3" by (simp add: retry3_def no_options_def)
  have h3: "fst (checkRateLimit ''users:insert'' world0)"
    by (simp add: checkRateLimit_def world0_def RATE_LIMIT_REQUESTS_def)
  have h4: "\<forall>n. setTimeout_delay (or_default (read_prop (timeout (spread DEFAULT_OPTIONS retry3))) 30000)
             \<le> int (fst (query remote_slow n))"
    by (simp add: remote_slow_def retry3_def no_options_def spread_def DEFAULT_OPTIONS_def
          setTimeout_delay_def)
  show ?thesis
    using timeout_status_unreachable [where r = remote_slow and t = "''users''" and s = world0
        and p = JNull and opts = retry3 and m = 3 and fn = "executeInsert remote_slow retry3"
        and mr = None and c = "''*''" and f = None and u = JNull and g = "[]"
        and e = "''a@b.c''" and pw = "''pw''" and tok = None]
      h1 h3 h4
    by auto
qed

section \<open>The option \<open>enableRetry\<close>\<close>

lemma spread_enableRetry:
  "spread d (opts\<lparr>enableRetry := a\<rparr>) =
     (spread d opts)\<lparr>enableRetry := spread_prop (enableRetry d) a\<rparr>"
  by (simp add: spread_def)

lemma execute_enableRetry [simp]:
  "executeQuery r (m\<lparr>enableRetry := a\<rparr>) = executeQuery r m"
  "executeInsert r (m\<lparr>enableRetry := a\<rparr>) = executeInsert r m"
  "executeUpdate r (m\<lparr>enableRetry := a\<rparr>) = executeUpdate r m"
  "executeDelete r (m\<lparr>enableRetry := a\<rparr>) = executeDelete r m"
  by (simp_all add: executeQuery_def executeInsert_def executeUpdate_def executeDelete_def
        fun_eq_iff)

lemmas gateway_congs =
  prod.case_cong bool.case_cong sum.case_cong option.case_cong if_cong

lemma select_enableRetry:
  "middlewareSelect r t c f (opts\<lparr>enableRetry := a\<rparr>) s = middlewareSelect r t c f opts s"
  by (simp add: middlewareSelect_def spread_enableRetry Let_def cong: gateway_congs)

lemma insert_enableRetry:
  "middlewareInsert r t p (opts\<lparr>enableRetry := a\<rparr>) s = middlewareInsert r t p opts s"
  by (simp add: middlewareInsert_def spread_enableRetry Let_def cong: gateway_congs)

lemma update_enableRetry:
  "middlewareUpdate r t u f (opts\<lparr>enableRetry := a\<rparr>) s = middlewareUpdate r t u f opts s"
  by (simp add: middlewareUpdate_def spread_enableRetry Let_def cong: gateway_congs)

lemma delete_enableRetry:
  "middlewareDelete r t f (opts\<lparr>enableRetry := a\<rparr>) s = middlewareDelete r t f opts s"
  by (simp add: middlewareDelete_def spread_enableRetry Let_def cong: gateway_congs)

lemma signIn_enableRetry:
  "middlewareAuthSignIn r e p (opts\<lparr>enableRetry := a\<rparr>) s = middlewareAuthSignIn r e p opts s"
  by (simp add: middlewareAuthSignIn_def spread_enableRetry Let_def cong: gateway_congs)

lemma signUp_enableRetry:
  "middlewareAuthSignUp r e p (opts\<lparr>enableRetry := a\<rparr>) s = middlewareAuthSignUp r e p opts s"
  by (simp add: middlewareAuthSignUp_def spread_enableRetry Let_def cong: gateway_congs)

lemma signOut_enableRetry:
  "middlewareAuthSignOut r tok (opts\<lparr>enableRetry := a\<rparr>) s = middlewareAuthSignOut r tok opts s"
  by (simp add: middlewareAuthSignOut_def spread_enableRetry Let_def cong: gateway_congs)

text \<open>
  Claim C10. The option \<open>enableRetry\<close> has no effect: each of the seven gateway operations,
  called with \<open>enableRetry = false\<close>, returns the same envelope and leaves the same state
  (the same number of requests sent, the same cache, rate windows and metrics) as the
  call with \<open>enableRetry = true\<close>, whatever the other arguments, options, remote side and
  state are.
\<close>

theorem enableRetry_has_no_effect:
  "middlewareSelect r t c f (opts\<lparr>enableRetry := Val False\<rparr>) s =
     middlewareSelect r t c f (opts\<lparr>enableRetry := Val True\<rparr>) s
   \<and> middlewareInsert r t p (opts\<lparr>enableRetry := Val False\<rparr>) s =
     middlewareInsert r t p (opts\<lparr>enableRetry := Val True\<rparr>) s
   \<and> middlewareUpdate r t u g (opts\<lparr>enableRetry := Val False\<rparr>) s =
     middlewareUpdate r t u g (opts\<lparr>enableRetry := Val True\<rparr>) s
   \<and> middlewareDelete r t g (opts\<lparr>enableRetry := Val False\<rparr>) s =
     middlewareDelete r t g (opts\<lparr>enableRetry := Val True\<rparr>) s
   \<and> middlewareAuthSignIn r e pw (opts\<lparr>enableRetry := Val False\<rparr>) s =
     middlewareAuthSignIn r e pw (opts\<lparr>enableRetry := Val True\<rparr>) s
   \<and> middlewareAuthSignUp r e pw (opts\<lparr>enableRetry := Val False\<rparr>) s =
     middlewareAuthSignUp r e pw (opts\<lparr>enableRetry := Val True\<rparr>) s
   \<and> middlewareAuthSignOut r tok (opts\<lparr>enableRetry := Val False\<rparr>) s =
     middlewareAuthSignOut r tok (opts\<lparr>enableRetry := Val True\<rparr>) s"
  by (simp only: select_enableRetry insert_enableRetry update_enableRetry delete_enableRetry
        signIn_enableRetry signUp_enableRetry signOut_enableRetry)

text \<open>An insert against a remote side that is down, and a sign-out that succeeds, with both
  values of the option.\<close>

theorem enableRetry_has_no_effect_witness:
  "middlewareInsert remote_down ''users'' JNull (no_options\<lparr>enableRetry := Val False\<rparr>) world0 =
     middlewareInsert remote_down ''users'' JNull (no_options\<lparr>enableRetry := Val True\<rparr>) world0
   \<and> middlewareAuthSignOut remote_up None (no_options\<lparr>enableRetry := Val False\<rparr>) world_cached =
     middlewareAuthSignOut remote_up None (no_options\<lparr>enableRetry := Val True\<rparr>) world_cached"
  using enableRetry_has_no_effect
    [where r = remote_down and t = "''users''" and p = JNull and opts = no_options and s = world0]
    enableRetry_has_no_effect
    [where r = remote_up and tok = None and opts = no_options and s = world_cached]
  by simp

end
